theory Spec2Isabelle
  imports Main "HOL-Library.Sublist" "HOL-Library.AList"
begin

section \<open>Data model\<close>

text \<open>
  Identifiers. The job and RecordId schemas of \<^verbatim>\<open>syncer.js\<close> give every id as a
  String; \<^verbatim>\<open>getRemoteId\<close> guards against a blank one. \<open>None\<close> stands for JavaScript's
  \<^verbatim>\<open>null\<close> and \<^verbatim>\<open>undefined\<close> (the values \<^verbatim>\<open>Ember.isNone\<close> accepts),
  \<open>Some s\<close> for the string \<open>s\<close>.
\<close>

type_synonym jsid = "string option"

text \<open>
  A rejection reason or thrown value. \<open>StatusError n\<close> is an object with a numeric
  \<^verbatim>\<open>status\<close> property (what a failed ajax call rejects with; the test helper
  \<^verbatim>\<open>setOnlineStatus\<close> mocks status 0); \<open>Thrown m\<close> is an \<^verbatim>\<open>Error\<close> object without a
  status (an \<^verbatim>\<open>Ember.assert\<close> failure, a \<^verbatim>\<open>TypeError\<close>, \<^verbatim>\<open>new Error(m)\<close>);
  \<open>Reason s\<close> is a bare string (part_001 compares the reason with \<^verbatim>\<open>'clear'\<close>);
  \<open>NoReason\<close> is \<^verbatim>\<open>undefined\<close>.
\<close>

datatype error = StatusError int | Thrown string | Reason string | NoReason

text \<open>
  An id as a condition (\<^verbatim>\<open>if(!id)\<close>, \<^verbatim>\<open>if(record.get('id'))\<close>): null, undefined and
  the empty string are falsy.
\<close>

definition truthyId :: "jsid \<Rightarrow> bool" where
  "truthyId i = (case i of None \<Rightarrow> False | Some s \<Rightarrow> s \<noteq> [])"

text \<open>RecordId schema: \<^verbatim>\<open>{ typeName, localId, remoteId }\<close>.\<close>

record remoteIdRecord =
  rtypeName :: string
  localId :: jsid
  remoteId :: jsid

section \<open>Id reconciliation: \<^verbatim>\<open>isRemoteId\<close> and \<^verbatim>\<open>getRemoteId\<close>\<close>

text \<open>
  \<^verbatim>\<open>String.prototype.indexOf\<close>: the index of the first occurrence of \<open>p\<close> in the
  string, counted from \<open>k\<close> at its head, or \<open>-1\<close>.
\<close>

fun indexOf_from :: "string \<Rightarrow> string \<Rightarrow> int \<Rightarrow> int" where
  "indexOf_from p [] k = (if p = [] then k else -1)"
| "indexOf_from p (c # cs) k = (if prefix p (c # cs) then k else indexOf_from p cs (k + 1))"

definition indexOf :: "string \<Rightarrow> string \<Rightarrow> int" where
  "indexOf s p = indexOf_from p s 0"

text \<open>\<^verbatim>\<open>function isRemoteId(id) { return id.indexOf('fryctoria') !== 0; }\<close>\<close>

definition isRemoteId :: "string \<Rightarrow> bool" where
  "isRemoteId id' = (indexOf id' ''fryctoria'' \<noteq> 0)"

text \<open>
  \<^verbatim>\<open>getRemoteId\<close> of \<^verbatim>\<open>addon/syncer.js\<close>, as a function of the in-memory
  \<^verbatim>\<open>remoteIdRecords\<close>. \<^verbatim>\<open>Ember.assert('Id can not be blank.', !Ember.isNone(id))\<close>
  throws for a null or undefined id; the result is \<open>Inl\<close> of what is thrown. The function
  returns only the id: it writes nothing.
\<close>

definition getRemoteId :: "remoteIdRecord list \<Rightarrow> string \<Rightarrow> jsid \<Rightarrow> error + jsid" where
  "getRemoteId rs tn id' =
     (case id' of
        None \<Rightarrow> Inl (Thrown ''Assertion Failed: Id can not be blank.'')
      | Some s \<Rightarrow>
          if isRemoteId s then Inr (Some s)
          else (case find (\<lambda>r. rtypeName r = tn \<and> localId r = Some s) rs of
                  Some r \<Rightarrow> Inr (remoteId r)
                | None \<Rightarrow> Inr (Some s)))"

section \<open>Jobs, records and the state of the engine\<close>

text \<open>
  A value of a serialized record's property: \<^verbatim>\<open>null\<close>, a string (an attribute or the
  id of a belongsTo), or an array of ids (a hasMany).
\<close>

datatype jsval = JNull | JStr string | JArr "jsid list"

text \<open>
  A record in wire shape (\<^verbatim>\<open>job.record\<close>, a snapshot handed to an adapter, a raw
  record of the local storage): its id and its other properties by name.
\<close>

record rawRecord =
  rec_id :: jsid
  rec_data :: "(string \<times> jsval) list"

text \<open>
  Job schema: \<^verbatim>\<open>{ id, operation, typeName, record, createdAt }\<close>; \<^verbatim>\<open>createdAt\<close> is
  \<^verbatim>\<open>(new Date()).getTime()\<close>.
\<close>

record job =
  job_id :: string
  operation :: string
  typeName :: string
  jobRecord :: rawRecord
  createdAt :: int

text \<open>
  What \<^verbatim>\<open>record.eachRelationship\<close> passes to its callback: the relationship's name
  (also \<^verbatim>\<open>descriptor.key\<close>), \<^verbatim>\<open>descriptor.kind\<close> and \<^verbatim>\<open>descriptor.type.typeKey\<close>.
\<close>

datatype relKind = BelongsTo | HasMany

record descriptor =
  rel_name :: string
  rel_kind :: relKind
  rel_type :: string

text \<open>
  The calls the engine makes to its collaborators, in the order it makes them: a remote
  adapter method with the type name and the snapshot, \<^verbatim>\<open>db.setItem\<close> on a localforage
  key, and the local adapter's \<^verbatim>\<open>deleteRecord\<close>, \<^verbatim>\<open>createRecord\<close> and \<^verbatim>\<open>findAll\<close>.
\<close>

datatype call =
    AdapterCall string string rawRecord
  | SetItem string
  | LocalDelete string jsid
  | LocalCreate string rawRecord
  | LocalFindAll string

text \<open>
  The state: the syncer's in-memory \<^verbatim>\<open>jobs\<close> and \<^verbatim>\<open>remoteIdRecords\<close>, the two
  collections persisted in localforage (\<^verbatim>\<open>EmberFryctoriaJobs\<close>,
  \<^verbatim>\<open>EmberFryctoriaRemoteIdRecords\<close>), the records held by the local adapter keyed by type
  name and id, the calls made so far, and what was written with \<^verbatim>\<open>Ember.Logger\<close>
  (level and message).
\<close>

record state =
  jobs :: "job list"
  remoteIdRecords :: "remoteIdRecord list"
  db_jobs :: "job list"
  db_remoteIdRecords :: "remoteIdRecord list"
  localRecords :: "((string \<times> jsid) \<times> (string \<times> jsval) list) list"
  calls :: "call list"
  logged :: "(string \<times> string) list"

text \<open>
  A promise by its settled outcome. The engine is single-threaded and every continuation
  runs after the promise it is attached to has settled, so a chain is evaluated in order,
  passing the state along.
\<close>

datatype 'a promise = Resolved 'a | Rejected error

text \<open>
  A model instance as \<^verbatim>\<open>syncDownRecord\<close> reads it: the type and data of its snapshot and
  \<^verbatim>\<open>isDeleted\<close>.
\<close>

record model =
  m_type :: string
  m_record :: rawRecord
  isDeleted :: bool

text \<open>
  The argument of \<^verbatim>\<open>syncDown\<close> is any JavaScript value: a string, a model instance, an
  array, or something else. Of the values that are none of the three: an integer-valued
  number, a boolean, a plain object, \<^verbatim>\<open>null\<close> and \<^verbatim>\<open>undefined\<close>.

  Modelled from the spec: \<^verbatim>\<open>utils/is-model-instance\<close> is not among the sources; the
  spec's single record is the \<^verbatim>\<open>DS.Model\<close> instance of the error message of
  \<^verbatim>\<open>syncDown\<close>, and \<open>AModel\<close> is the argument \<^verbatim>\<open>isModelInstance\<close> accepts.
\<close>

datatype otherValue = VNumber int | VBoolean bool | VObject | VNull | VUndefined

datatype syncDownArg =
    AString string
  | AModel model
  | AArray "syncDownArg list"
  | AOther otherValue

text \<open>A call either throws to its caller or returns.\<close>

datatype 'a completion = Throws error | Returns 'a

text \<open>
  The collaborators. \<open>relationshipsOf\<close> is the model registry (\<^verbatim>\<open>store.modelFor\<close> and
  \<^verbatim>\<open>eachRelationship\<close>). \<open>remoteResponse\<close> is the outcome of a remote adapter call and
  \<open>storageFailure\<close> the failure, if any, of a storage call; both may depend on all the
  calls made before, so any deterministic server and storage engine is an instance.
  A remote call's payload is taken as the serializer has extracted it
  (\<^verbatim>\<open>serializerFor(type).extract\<close>). \<open>handleSyncUpError\<close> and \<open>syncErrorHandler\<close> are
  the optional handlers of the two syncers, by the outcome of the promise they return; what
  a handler does to the host application is outside the state. \<open>storeRecords\<close> gives the
  main store's in-memory records of a type. \<open>reloadOther\<close> is what the utility
  \<^verbatim>\<open>reload-local-records\<close> does when it is handed a value that is no type name, which
  neither the sources nor the spec say.
\<close>

record env =
  relationshipsOf :: "string \<Rightarrow> descriptor list"
  remoteResponse :: "call list \<Rightarrow> call \<Rightarrow> error + rawRecord"
  storageFailure :: "call list \<Rightarrow> call \<Rightarrow> error option"
  handleSyncUpError :: "(error \<Rightarrow> unit promise) option"
  syncErrorHandler :: "(error \<Rightarrow> unit promise) option"
  storeRecords :: "string \<Rightarrow> rawRecord list"
  reloadOther :: "syncDownArg \<Rightarrow> state \<Rightarrow> unit promise completion \<times> state"

text \<open>\<^verbatim>\<open>promise.then(f)\<close> and \<^verbatim>\<open>promise.catch(h)\<close>.\<close>

definition then_p :: "'a promise \<times> 's \<Rightarrow> ('a \<Rightarrow> 's \<Rightarrow> 'b promise \<times> 's) \<Rightarrow> 'b promise \<times> 's" where
  "then_p m f = (case m of (Resolved v, s) \<Rightarrow> f v s | (Rejected e, s) \<Rightarrow> (Rejected e, s))"

definition catch_p :: "'a promise \<times> 's \<Rightarrow> (error \<Rightarrow> 's \<Rightarrow> 'a promise \<times> 's) \<Rightarrow> 'a promise \<times> 's" where
  "catch_p m h = (case m of (Resolved v, s) \<Rightarrow> (Resolved v, s) | (Rejected e, s) \<Rightarrow> h e s)"

text \<open>\<^verbatim>\<open>Ember.Logger.info/warn/error\<close>.\<close>

definition logger :: "string \<Rightarrow> string \<Rightarrow> state \<Rightarrow> state" where
  "logger level msg s = s\<lparr>logged := logged s @ [(level, msg)]\<rparr>"

section \<open>Persistence: localforage and the local adapter\<close>

text \<open>
  A storage call: it is recorded, and either fails, leaving the stored data as it was, or
  takes effect.
\<close>

definition storageCall :: "env \<Rightarrow> call \<Rightarrow> (state \<Rightarrow> state) \<Rightarrow> state \<Rightarrow> unit promise \<times> state" where
  "storageCall env c effect s =
     (case storageFailure env (calls s) c of
        Some e \<Rightarrow> (Rejected e, s\<lparr>calls := calls s @ [c]\<rparr>)
      | None \<Rightarrow> (Resolved (), (effect s)\<lparr>calls := calls s @ [c]\<rparr>))"

text \<open>
  \<^verbatim>\<open>saveAll(typeName, records)\<close>: \<^verbatim>\<open>this.set(pluralize(typeName), records)\<close>, then
  \<^verbatim>\<open>db.setItem(getNamespace(typeName), records)\<close>; written out for the two type names it
  is called with. The in-memory list is replaced before the write is attempted.
  \<^verbatim>\<open>persistJobs\<close> and \<^verbatim>\<open>persistRemoteIdRecords\<close> of part_001 are the same writes.
\<close>

definition saveAll_job :: "env \<Rightarrow> job list \<Rightarrow> state \<Rightarrow> unit promise \<times> state" where
  "saveAll_job env records s =
     storageCall env (SetItem ''EmberFryctoriaJobs'') (\<lambda>s'. s'\<lparr>db_jobs := records\<rparr>)
       (s\<lparr>jobs := records\<rparr>)"

definition saveAll_remoteIdRecord :: "env \<Rightarrow> remoteIdRecord list \<Rightarrow> state \<Rightarrow> unit promise \<times> state" where
  "saveAll_remoteIdRecord env records s =
     storageCall env (SetItem ''EmberFryctoriaRemoteIdRecords'')
       (\<lambda>s'. s'\<lparr>db_remoteIdRecords := records\<rparr>) (s\<lparr>remoteIdRecords := records\<rparr>)"

text \<open>
  \<^verbatim>\<open>deleteById('job', id)\<close> (\<^verbatim>\<open>deleteJobById\<close> in part_001),
  \<^verbatim>\<open>create('remoteIdRecord', record)\<close> (\<^verbatim>\<open>createRemoteIdRecord\<close>),
  \<^verbatim>\<open>deleteAll('remoteIdRecord')\<close> (\<^verbatim>\<open>deleteAllRemoteIdRecords\<close>) and
  \<^verbatim>\<open>deleteAll('job')\<close> (\<^verbatim>\<open>deleteAllJobs\<close>).
\<close>

definition deleteById_job :: "env \<Rightarrow> string \<Rightarrow> state \<Rightarrow> unit promise \<times> state" where
  "deleteById_job env id' s = saveAll_job env (filter (\<lambda>record. id' \<noteq> job_id record) (jobs s)) s"

definition create_remoteIdRecord :: "env \<Rightarrow> remoteIdRecord \<Rightarrow> state \<Rightarrow> unit promise \<times> state" where
  "create_remoteIdRecord env record s = saveAll_remoteIdRecord env (remoteIdRecords s @ [record]) s"

definition deleteAll_remoteIdRecord :: "env \<Rightarrow> state \<Rightarrow> unit promise \<times> state" where
  "deleteAll_remoteIdRecord env s = saveAll_remoteIdRecord env [] s"

definition deleteAll_job :: "env \<Rightarrow> state \<Rightarrow> unit promise \<times> state" where
  "deleteAll_job env s = saveAll_job env [] s"

text \<open>
  The local adapter (ember-localforage-adapter, outside this repository), by what the
  engine relies on: \<^verbatim>\<open>deleteRecord\<close> removes the record stored under the type and id,
  \<^verbatim>\<open>createRecord\<close> stores the record under its type and id, replacing one already there,
  \<^verbatim>\<open>findAll\<close> returns the records of the type.
\<close>

definition local_deleteRecord :: "env \<Rightarrow> string \<Rightarrow> jsid \<Rightarrow> state \<Rightarrow> unit promise \<times> state" where
  "local_deleteRecord env tn id' s =
     storageCall env (LocalDelete tn id')
       (\<lambda>s'. s'\<lparr>localRecords := AList.delete (tn, id') (localRecords s')\<rparr>) s"

definition local_createRecord :: "env \<Rightarrow> string \<Rightarrow> rawRecord \<Rightarrow> state \<Rightarrow> unit promise \<times> state" where
  "local_createRecord env tn r s =
     storageCall env (LocalCreate tn r)
       (\<lambda>s'. s'\<lparr>localRecords := AList.update (tn, rec_id r) (rec_data r) (localRecords s')\<rparr>) s"

definition recordsOfType :: "string \<Rightarrow> ((string \<times> jsid) \<times> (string \<times> jsval) list) list \<Rightarrow> rawRecord list" where
  "recordsOfType tn al =
     map (\<lambda>(k, d). \<lparr>rec_id = snd k, rec_data = d\<rparr>) (filter (\<lambda>(k, d). fst k = tn) al)"

definition local_findAll :: "env \<Rightarrow> string \<Rightarrow> state \<Rightarrow> rawRecord list promise \<times> state" where
  "local_findAll env tn s =
     (case storageFailure env (calls s) (LocalFindAll tn) of
        Some e \<Rightarrow> (Rejected e, s\<lparr>calls := calls s @ [LocalFindAll tn]\<rparr>)
      | None \<Rightarrow> (Resolved (recordsOfType tn (localRecords s)),
                 s\<lparr>calls := calls s @ [LocalFindAll tn]\<rparr>))"

text \<open>A call of a remote adapter method (\<^verbatim>\<open>remoteCRUD.updateRecord.call(adapter, ...)\<close>).\<close>

definition remoteCRUD :: "env \<Rightarrow> string \<Rightarrow> string \<Rightarrow> rawRecord \<Rightarrow> state \<Rightarrow> rawRecord promise \<times> state" where
  "remoteCRUD env method tn snapshot s =
     ((case remoteResponse env (calls s) (AdapterCall method tn snapshot) of
         Inl e \<Rightarrow> Rejected e
       | Inr payload \<Rightarrow> Resolved payload),
      s\<lparr>calls := calls s @ [AdapterCall method tn snapshot]\<rparr>)"

section \<open>Rebuilding a record from a job\<close>

text \<open>
  \<^verbatim>\<open>relationshipIds.map(function(id) { return syncer.getRemoteId(type, id) ... })\<close>: the
  first id that makes \<^verbatim>\<open>getRemoteId\<close> throw aborts the map. \<open>resolve\<close> is
  \<^verbatim>\<open>syncer.getRemoteId\<close> on the mapping list of the moment.
\<close>

fun mapResolve :: "(string \<Rightarrow> jsid \<Rightarrow> error + jsid) \<Rightarrow> string \<Rightarrow> jsid list \<Rightarrow> error + jsid list" where
  "mapResolve resolve tn [] = Inr []"
| "mapResolve resolve tn (i # rest) =
     (case resolve tn i of
        Inl e \<Rightarrow> Inl e
      | Inr r \<Rightarrow> (case mapResolve resolve tn rest of Inl e \<Rightarrow> Inl e | Inr rs \<Rightarrow> Inr (r # rs)))"

definition idVal :: "jsid \<Rightarrow> jsval" where
  "idVal i = (case i of None \<Rightarrow> JNull | Some s \<Rightarrow> JStr s)"

text \<open>
  \<^verbatim>\<open>addRelationshipToRecord(name, descriptor, jobRecord, record, syncer)\<close>. A falsy
  \<^verbatim>\<open>jobRecord[name]\<close> (absent, null or the empty string) leaves the record alone. A
  belongsTo id is resolved and set; the ids of a hasMany are resolved one by one. A hasMany
  whose value is a string has no \<^verbatim>\<open>map\<close>: a \<^verbatim>\<open>TypeError\<close>. A belongsTo whose value is
  an array is no shape the serializer writes; \<^verbatim>\<open>getRemoteId\<close> returns an array as it is,
  and the property is left as it is.
\<close>

definition addRelationshipToRecord ::
  "(string \<Rightarrow> jsid \<Rightarrow> error + jsid) \<Rightarrow> descriptor \<Rightarrow> rawRecord \<Rightarrow> rawRecord \<Rightarrow> error + rawRecord" where
  "addRelationshipToRecord resolve d jobRec record =
     (case map_of (rec_data jobRec) (rel_name d) of
        None \<Rightarrow> Inr record
      | Some JNull \<Rightarrow> Inr record
      | Some (JStr relationship) \<Rightarrow>
          if relationship = [] then Inr record
          else (case rel_kind d of
                  BelongsTo \<Rightarrow>
                    (case resolve (rel_type d) (Some relationship) of
                       Inl e \<Rightarrow> Inl e
                     | Inr relationshipId \<Rightarrow>
                         Inr (record\<lparr>rec_data :=
                                AList.update (rel_name d) (idVal relationshipId) (rec_data record)\<rparr>))
                | HasMany \<Rightarrow> Inl (Thrown ''TypeError: relationshipIds.map is not a function''))
      | Some (JArr relationshipIds) \<Rightarrow>
          (case rel_kind d of
             BelongsTo \<Rightarrow> Inr record
           | HasMany \<Rightarrow>
               (case mapResolve resolve (rel_type d) relationshipIds of
                  Inl e \<Rightarrow> Inl e
                | Inr remoteIds \<Rightarrow>
                    Inr (record\<lparr>rec_data :=
                           AList.update (rel_name d) (JArr remoteIds) (rec_data record)\<rparr>))))"

text \<open>The loop of \<^verbatim>\<open>record.eachRelationship\<close> over the type's relationships.\<close>

fun eachRelationship ::
  "(string \<Rightarrow> jsid \<Rightarrow> error + jsid) \<Rightarrow> descriptor list \<Rightarrow> rawRecord \<Rightarrow> rawRecord \<Rightarrow> error + rawRecord" where
  "eachRelationship resolve [] jobRec record = Inr record"
| "eachRelationship resolve (d # ds) jobRec record =
     (case addRelationshipToRecord resolve d jobRec record of
        Inl e \<Rightarrow> Inl e
      | Inr record' \<Rightarrow> eachRelationship resolve ds jobRec record')"

text \<open>
  \<^verbatim>\<open>createRecordFromJob(syncer, job, type)\<close>: the record gets the resolved id of
  \<^verbatim>\<open>job.record.id\<close> (\<^verbatim>\<open>createRecordInLocalStore\<close>), the data of \<^verbatim>\<open>job.record\<close>
  (\<^verbatim>\<open>setupData\<close>) and its relationships resolved. What \<^verbatim>\<open>getRemoteId\<close> throws comes
  out as \<open>Inl\<close>.
\<close>

definition createRecordFromJob_with ::
  "(string \<Rightarrow> jsid \<Rightarrow> error + jsid) \<Rightarrow> env \<Rightarrow> job \<Rightarrow> error + rawRecord" where
  "createRecordFromJob_with resolve env j =
     (case resolve (typeName j) (rec_id (jobRecord j)) of
        Inl e \<Rightarrow> Inl e
      | Inr remoteId' \<Rightarrow>
          eachRelationship resolve (relationshipsOf env (typeName j)) (jobRecord j)
            \<lparr>rec_id = remoteId', rec_data = rec_data (jobRecord j)\<rparr>)"

definition createRecordFromJob :: "env \<Rightarrow> state \<Rightarrow> job \<Rightarrow> error + rawRecord" where
  "createRecordFromJob env s j = createRecordFromJob_with (getRemoteId (remoteIdRecords s)) env j"

section \<open>The sync engine of \<^verbatim>\<open>addon/syncer.js\<close>\<close>

text \<open>\<^verbatim>\<open>isOffline: function(error) { return error && error.status === 0; }\<close>\<close>

definition isOffline :: "error \<Rightarrow> bool" where
  "isOffline error = (case error of StatusError status \<Rightarrow> status = 0 | _ \<Rightarrow> False)"

text \<open>
  The three continuations of a create. \<^verbatim>\<open>updateIdInStore\<close> extracts the payload and
  re-keys the record of the live in-memory store, which is no part of the state here; it
  passes the extracted record on. \<^verbatim>\<open>createRemoteIdRecord\<close> appends and persists the
  mapping. \<^verbatim>\<open>refreshLocalRecord\<close> deletes the local record under the old id and, when
  that has succeeded, creates the record under the extracted id.
\<close>

definition updateIdInStore :: "rawRecord \<Rightarrow> state \<Rightarrow> rawRecord promise \<times> state" where
  "updateIdInStore payload s = (Resolved payload, s)"

definition createRemoteIdRecord ::
  "env \<Rightarrow> string \<Rightarrow> jsid \<Rightarrow> rawRecord \<Rightarrow> state \<Rightarrow> rawRecord promise \<times> state" where
  "createRemoteIdRecord env tn recordIdBeforeCreate recordExtracted s =
     then_p
       (create_remoteIdRecord env
          \<lparr>rtypeName = tn, localId = recordIdBeforeCreate, remoteId = rec_id recordExtracted\<rparr> s)
       (\<lambda>_ s'. (Resolved recordExtracted, s'))"

definition refreshLocalRecord ::
  "env \<Rightarrow> string \<Rightarrow> jsid \<Rightarrow> rawRecord \<Rightarrow> rawRecord \<Rightarrow> state \<Rightarrow> unit promise \<times> state" where
  "refreshLocalRecord env tn recordIdBeforeCreate record recordExtracted s =
     then_p (local_deleteRecord env tn recordIdBeforeCreate s)
       (\<lambda>_. local_createRecord env tn (record\<lparr>rec_id := rec_id recordExtracted\<rparr>))"

text \<open>
  \<^verbatim>\<open>runJob(job)\<close>. It runs inside a \<^verbatim>\<open>then\<close> callback, so what it throws rejects the
  chain. An operation that is none of the three leaves \<^verbatim>\<open>syncedRecord\<close> undefined, and
  \<^verbatim>\<open>syncedRecord.then\<close> throws. The job is deleted only when \<^verbatim>\<open>syncedRecord\<close> resolves.
\<close>

definition runJob :: "env \<Rightarrow> job \<Rightarrow> state \<Rightarrow> unit promise \<times> state" where
  "runJob env j s =
     (case createRecordFromJob env s j of
        Inl e \<Rightarrow> (Rejected e, s)
      | Inr record \<Rightarrow>
          if operation j = ''deleteRecord'' then
            then_p (remoteCRUD env ''deleteRecord'' (typeName j) record s)
              (\<lambda>_. deleteById_job env (job_id j))
          else if operation j = ''updateRecord'' then
            then_p (remoteCRUD env ''updateRecord'' (typeName j) record s)
              (\<lambda>_. deleteById_job env (job_id j))
          else if operation j = ''createRecord'' then
            then_p
              (then_p
                 (then_p
                    (then_p (remoteCRUD env ''createRecord'' (typeName j) (record\<lparr>rec_id := None\<rparr>) s)
                       updateIdInStore)
                    (createRemoteIdRecord env (typeName j) (rec_id record)))
                 (refreshLocalRecord env (typeName j) (rec_id record) record))
              (\<lambda>_. deleteById_job env (job_id j))
          else (Rejected (Thrown ''TypeError: Cannot read property then of undefined''), s))"

text \<open>\<^verbatim>\<open>jobs.sortBy('createdAt')\<close>: a new array, sorted by the key.\<close>

definition sortBy :: "('a \<Rightarrow> int) \<Rightarrow> 'a list \<Rightarrow> 'a list" where
  "sortBy key xs = sort_key key xs"

text \<open>
  The fold of \<^verbatim>\<open>runAllJobs\<close>, the same text in both syncers:
  \<^verbatim>\<open>jobs.reduce(function(acc, job) { return acc.then(function() { return syncer.runJob(job); }); }, RSVP.resolve())\<close>;
  \<open>run\<close> is the syncer's \<^verbatim>\<open>runJob\<close>.
\<close>

definition reduceJobs ::
  "(job \<Rightarrow> state \<Rightarrow> unit promise \<times> state) \<Rightarrow> job list \<Rightarrow> state \<Rightarrow> unit promise \<times> state" where
  "reduceJobs run js s = foldl (\<lambda>acc j. then_p acc (\<lambda>_. run j)) (Resolved (), s) js"

text \<open>
  \<^verbatim>\<open>runAllJobs\<close>. After the chain, \<^verbatim>\<open>deleteAll('remoteIdRecord')\<close> is called and its
  promise dropped: the in-memory list is emptied, the outcome of the write is not awaited.
  The \<^verbatim>\<open>catch\<close> resolves on an offline error, returns what \<^verbatim>\<open>handleSyncUpError\<close>
  returns when there is one, and rejects otherwise.
\<close>

definition runAllJobs :: "env \<Rightarrow> state \<Rightarrow> unit promise \<times> state" where
  "runAllJobs env s =
     (if length (jobs s) = 0 then (Resolved (), logger ''info'' ''Syncing jobs are empty.'' s)
      else
        catch_p
          (then_p (reduceJobs (runJob env) (sortBy createdAt (jobs s)) (logger ''info'' ''Syncing started.'' s))
             (\<lambda>_ s'. (Resolved (),
                 logger ''info'' ''Syncing succeed.'' (snd (deleteAll_remoteIdRecord env s')))))
          (\<lambda>error s'.
             if isOffline error
             then (Resolved (), logger ''info'' ''Can not connect to server, stop syncing'' s')
             else (case handleSyncUpError env of
                     Some handler \<Rightarrow> (handler error, s')
                   | None \<Rightarrow> (Rejected error, s'))))"

text \<open>\<^verbatim>\<open>syncUp: function() { return this.runAllJobs(); }\<close>\<close>

definition syncUp :: "env \<Rightarrow> state \<Rightarrow> unit promise \<times> state" where
  "syncUp env s = runAllJobs env s"

section \<open>The sync engine of \<^verbatim>\<open>src/unnamed/part_001\<close>\<close>

text \<open>
  Modelled from the spec: the module \<^verbatim>\<open>is-offline\<close> that part_001 and \<^verbatim>\<open>store.js\<close>
  import is not among the sources. The spec's offline classification is the transport
  status code for no response, which the test helper mocks as status 0. The argument is
  \<^verbatim>\<open>error && error.status\<close>.
\<close>

definition statusOf :: "error \<Rightarrow> int option" where
  "statusOf error = (case error of StatusError status \<Rightarrow> Some status | _ \<Rightarrow> None)"

definition isOffline_util :: "int option \<Rightarrow> bool" where
  "isOffline_util status = (status = Some 0)"

text \<open>
  Modelled from the spec: \<^verbatim>\<open>create-record-in-local-adapter\<close> is not among the sources;
  by its name and its use in \<^verbatim>\<open>refreshLocalRecord\<close> it creates the record's entry with
  the local adapter.
\<close>

definition createRecordInLocalAdapter :: "env \<Rightarrow> string \<Rightarrow> rawRecord \<Rightarrow> state \<Rightarrow> unit promise \<times> state" where
  "createRecordInLocalAdapter env tn record s = local_createRecord env tn record s"

text \<open>
  \<^verbatim>\<open>getRemoteId\<close> of part_001. A falsy id (null, undefined or the empty string) is
  reported with \<^verbatim>\<open>Ember.Logger.error\<close>, and the lookup goes on: \<^verbatim>\<open>isRemoteId(id)\<close>
  calls \<^verbatim>\<open>id.indexOf\<close>, a \<^verbatim>\<open>TypeError\<close> on null or undefined; the empty string does
  not begin with the prefix and is returned.
\<close>

definition getRemoteId_p1 :: "string \<Rightarrow> jsid \<Rightarrow> state \<Rightarrow> (error + jsid) \<times> state" where
  "getRemoteId_p1 tn id' s =
     (case (if \<not> truthyId id' then logger ''error'' ''id can not be blank.'' s else s) of s' \<Rightarrow>
        (case id' of
           None \<Rightarrow> (Inl (Thrown ''TypeError: Cannot read property indexOf of null''), s')
         | Some i \<Rightarrow>
             if isRemoteId i then (Inr (Some i), s')
             else (case find (\<lambda>r. rtypeName r = tn \<and> localId r = Some i) (remoteIdRecords s') of
                     Some r \<Rightarrow> (Inr (remoteId r), s')
                   | None \<Rightarrow> (Inr (Some i), s'))))"

text \<open>
  \<^verbatim>\<open>createRecordFromJob\<close> and \<^verbatim>\<open>addRelationshipToRecord\<close> of part_001 have the text of
  those of \<^verbatim>\<open>addon/syncer.js\<close>; with the \<^verbatim>\<open>getRemoteId\<close> above they also write to
  the log, so the state is passed along.
\<close>

fun mapResolve_p1 :: "string \<Rightarrow> jsid list \<Rightarrow> state \<Rightarrow> (error + jsid list) \<times> state" where
  "mapResolve_p1 tn [] s = (Inr [], s)"
| "mapResolve_p1 tn (i # rest) s =
     (case getRemoteId_p1 tn i s of
        (Inl e, s1) \<Rightarrow> (Inl e, s1)
      | (Inr r, s1) \<Rightarrow>
          (case mapResolve_p1 tn rest s1 of
             (Inl e, s2) \<Rightarrow> (Inl e, s2)
           | (Inr rs, s2) \<Rightarrow> (Inr (r # rs), s2)))"

definition addRelationshipToRecord_p1 ::
  "descriptor \<Rightarrow> rawRecord \<Rightarrow> rawRecord \<Rightarrow> state \<Rightarrow> (error + rawRecord) \<times> state" where
  "addRelationshipToRecord_p1 d jobRec record s =
     (case map_of (rec_data jobRec) (rel_name d) of
        None \<Rightarrow> (Inr record, s)
      | Some JNull \<Rightarrow> (Inr record, s)
      | Some (JStr relationship) \<Rightarrow>
          if relationship = [] then (Inr record, s)
          else (case rel_kind d of
                  BelongsTo \<Rightarrow>
                    (case getRemoteId_p1 (rel_type d) (Some relationship) s of
                       (Inl e, s1) \<Rightarrow> (Inl e, s1)
                     | (Inr relationshipId, s1) \<Rightarrow>
                         (Inr (record\<lparr>rec_data :=
                                 AList.update (rel_name d) (idVal relationshipId) (rec_data record)\<rparr>), s1))
                | HasMany \<Rightarrow> (Inl (Thrown ''TypeError: relationshipIds.map is not a function''), s))
      | Some (JArr relationshipIds) \<Rightarrow>
          (case rel_kind d of
             BelongsTo \<Rightarrow> (Inr record, s)
           | HasMany \<Rightarrow>
               (case mapResolve_p1 (rel_type d) relationshipIds s of
                  (Inl e, s1) \<Rightarrow> (Inl e, s1)
                | (Inr remoteIds, s1) \<Rightarrow>
                    (Inr (record\<lparr>rec_data :=
                            AList.update (rel_name d) (JArr remoteIds) (rec_data record)\<rparr>), s1))))"

fun eachRelationship_p1 ::
  "descriptor list \<Rightarrow> rawRecord \<Rightarrow> rawRecord \<Rightarrow> state \<Rightarrow> (error + rawRecord) \<times> state" where
  "eachRelationship_p1 [] jobRec record s = (Inr record, s)"
| "eachRelationship_p1 (d # ds) jobRec record s =
     (case addRelationshipToRecord_p1 d jobRec record s of
        (Inl e, s1) \<Rightarrow> (Inl e, s1)
      | (Inr record', s1) \<Rightarrow> eachRelationship_p1 ds jobRec record' s1)"

definition createRecordFromJob_p1 :: "env \<Rightarrow> job \<Rightarrow> state \<Rightarrow> (error + rawRecord) \<times> state" where
  "createRecordFromJob_p1 env j s =
     (case getRemoteId_p1 (typeName j) (rec_id (jobRecord j)) s of
        (Inl e, s1) \<Rightarrow> (Inl e, s1)
      | (Inr remoteId', s1) \<Rightarrow>
          eachRelationship_p1 (relationshipsOf env (typeName j)) (jobRecord j)
            \<lparr>rec_id = remoteId', rec_data = rec_data (jobRecord j)\<rparr> s1)"

definition refreshLocalRecord_p1 ::
  "env \<Rightarrow> string \<Rightarrow> jsid \<Rightarrow> rawRecord \<Rightarrow> rawRecord \<Rightarrow> state \<Rightarrow> unit promise \<times> state" where
  "refreshLocalRecord_p1 env tn recordIdBeforeCreate record recordExtracted s =
     then_p (local_deleteRecord env tn recordIdBeforeCreate s)
       (\<lambda>_. createRecordInLocalAdapter env tn (record\<lparr>rec_id := rec_id recordExtracted\<rparr>))"

text \<open>
  The callback of the \<^verbatim>\<open>catch\<close> that ends the create chain of part_001: an offline
  error is rejected again, any other error goes to \<^verbatim>\<open>syncErrorHandler\<close> when there is
  one, and is rejected again when there is none.
\<close>

definition catchCreateError :: "env \<Rightarrow> error \<Rightarrow> state \<Rightarrow> unit promise \<times> state" where
  "catchCreateError env error s =
     (if isOffline_util (statusOf error) then (Rejected error, s)
      else (case syncErrorHandler env of
              Some handler \<Rightarrow> (handler error, s)
            | None \<Rightarrow> (Rejected error, s)))"

text \<open>
  \<^verbatim>\<open>runJob\<close> of part_001: the operations are \<^verbatim>\<open>delete\<close>, \<^verbatim>\<open>update\<close>, \<^verbatim>\<open>create\<close>, and
  the create chain ends in the \<^verbatim>\<open>catch\<close> above, whose outcome is the outcome of
  \<^verbatim>\<open>syncedRecord\<close>; the job is deleted when \<^verbatim>\<open>syncedRecord\<close> resolves. \<open>s0\<close> is the
  state once the record has been rebuilt.
\<close>

definition runJob_p1 :: "env \<Rightarrow> job \<Rightarrow> state \<Rightarrow> unit promise \<times> state" where
  "runJob_p1 env j s =
     (case createRecordFromJob_p1 env j s of
        (Inl e, s0) \<Rightarrow> (Rejected e, s0)
      | (Inr record, s0) \<Rightarrow>
          if operation j = ''delete'' then
            then_p (remoteCRUD env ''deleteRecord'' (typeName j) record s0)
              (\<lambda>_. deleteById_job env (job_id j))
          else if operation j = ''update'' then
            then_p (remoteCRUD env ''updateRecord'' (typeName j) record s0)
              (\<lambda>_. deleteById_job env (job_id j))
          else if operation j = ''create'' then
            then_p
              (catch_p
                 (then_p
                    (then_p
                       (then_p (remoteCRUD env ''createRecord'' (typeName j) (record\<lparr>rec_id := None\<rparr>) s0)
                          updateIdInStore)
                       (createRemoteIdRecord env (typeName j) (rec_id record)))
                    (refreshLocalRecord_p1 env (typeName j) (rec_id record) record))
                 (catchCreateError env))
              (\<lambda>_. deleteById_job env (job_id j))
          else (Rejected (Thrown ''TypeError: Cannot read property then of undefined''), s0))"

text \<open>
  \<^verbatim>\<open>runAllJobs\<close> of part_001: the \<^verbatim>\<open>catch\<close> resolves on an offline error, empties the
  job queue on the reason \<^verbatim>\<open>'clear'\<close>, and rejects otherwise. (It first sets the
  main store's \<^verbatim>\<open>fryctoria.isOffline\<close> to false, a flag outside the state here.)
\<close>

definition runAllJobs_p1 :: "env \<Rightarrow> state \<Rightarrow> unit promise \<times> state" where
  "runAllJobs_p1 env s =
     (if length (jobs s) = 0 then (Resolved (), logger ''info'' ''Syncing jobs are empty.'' s)
      else
        catch_p
          (then_p
             (then_p (reduceJobs (runJob_p1 env) (sortBy createdAt (jobs s)) (logger ''info'' ''Syncing started.'' s))
                (\<lambda>_ s'. (Resolved (), snd (deleteAll_remoteIdRecord env s'))))
             (\<lambda>_ s'. (Resolved (), logger ''info'' ''Syncing succeed.'' s')))
          (\<lambda>error s'.
             if isOffline_util (statusOf error)
             then (Resolved (), logger ''info'' ''Can not connect to server, stop syncing'' s')
             else if error = Reason ''clear'' then deleteAll_job env s'
             else (Rejected error, s')))"

text \<open>
  \<^verbatim>\<open>syncUp\<close> of part_001 catches whatever \<^verbatim>\<open>runAllJobs\<close> rejects with and logs it:
  \<^verbatim>\<open>Ember.Logger.warn('Syncing Error:')\<close>, then \<^verbatim>\<open>Ember.Logger.error(error && error.stack)\<close>.
  The second line stands in the log as \<open>error.stack\<close>: the stack of an error is the
  engine's text, and no property depends on it.
\<close>

definition syncUp_p1 :: "env \<Rightarrow> state \<Rightarrow> unit promise \<times> state" where
  "syncUp_p1 env s =
     catch_p (runAllJobs_p1 env s)
       (\<lambda>error s'. (Resolved (),
          logger ''error'' ''error.stack'' (logger ''warn'' ''Syncing Error:'' s')))"

section \<open>Reloading the local records: \<^verbatim>\<open>reloadLocalRecords\<close> of \<^verbatim>\<open>store.js\<close>\<close>

text \<open>
  \<^verbatim>\<open>deleteAll(previousRecords)\<close> maps \<^verbatim>\<open>localAdapter.deleteRecord\<close> over the records
  found: every deletion is started, and the array of their promises is returned.
\<close>

fun store_deleteAll :: "env \<Rightarrow> string \<Rightarrow> rawRecord list \<Rightarrow> state \<Rightarrow> unit promise list \<times> state" where
  "store_deleteAll env tn [] s = ([], s)"
| "store_deleteAll env tn (rawRec # rest) s =
     (case local_deleteRecord env tn (rec_id rawRec) s of
        (p, s1) \<Rightarrow> (case store_deleteAll env tn rest s1 of (ps, s2) \<Rightarrow> (p # ps, s2)))"

text \<open>\<^verbatim>\<open>Promise.all\<close>: resolved when every promise is, rejected with a rejection otherwise.\<close>

fun promise_all :: "'a promise list \<Rightarrow> 'a list promise" where
  "promise_all [] = Resolved []"
| "promise_all (Rejected e # ps) = Rejected e"
| "promise_all (Resolved v # ps) =
     (case promise_all ps of Resolved vs \<Rightarrow> Resolved (v # vs) | Rejected e \<Rightarrow> Rejected e)"

text \<open>
  The \<^verbatim>\<open>records.forEach\<close> of \<^verbatim>\<open>createAll\<close>: a record with an id is created with the
  local adapter (the promise is dropped), one without is reported with
  \<^verbatim>\<open>Ember.Logger.warn\<close>.
\<close>

fun store_createEach :: "env \<Rightarrow> string \<Rightarrow> rawRecord list \<Rightarrow> state \<Rightarrow> state" where
  "store_createEach env tn [] s = s"
| "store_createEach env tn (record # rest) s =
     (if truthyId (rec_id record)
      then store_createEach env tn rest (snd (local_createRecord env tn record s))
      else store_createEach env tn rest
             (logger ''warn'' (''Record '' @ tn @ '' does not have an id: '') s))"

text \<open>
  \<^verbatim>\<open>createAll(previousRecords)\<close>: \<^verbatim>\<open>Promise.all(previousRecords).then(...)\<close>, not
  returned; when a deletion was rejected nothing is created.
\<close>

definition store_createAll :: "env \<Rightarrow> string \<Rightarrow> rawRecord list \<Rightarrow> unit promise list \<Rightarrow> state \<Rightarrow> state" where
  "store_createAll env tn records previousRecords s =
     (case promise_all previousRecords of
        Resolved _ \<Rightarrow> store_createEach env tn records s
      | Rejected _ \<Rightarrow> s)"

text \<open>
  The chain \<^verbatim>\<open>localAdapter.findAll(trashStore, modelType).then(deleteAll).then(createAll)\<close>
  and \<^verbatim>\<open>reloadLocalRecords(store, type, records)\<close>, which starts the chain and returns
  \<^verbatim>\<open>records\<close>; the state returned is the state once the chain has run.
\<close>

definition reloadChain :: "env \<Rightarrow> string \<Rightarrow> rawRecord list \<Rightarrow> state \<Rightarrow> unit promise \<times> state" where
  "reloadChain env tn records s =
     then_p
       (then_p (local_findAll env tn s)
          (\<lambda>previousRecords s1.
             case store_deleteAll env tn previousRecords s1 of (ps, s2) \<Rightarrow> (Resolved ps, s2)))
       (\<lambda>previousRecords s2. (Resolved (), store_createAll env tn records previousRecords s2))"


section \<open>\<^verbatim>\<open>syncDown\<close>\<close>

text \<open>
  Modelled from the spec: \<^verbatim>\<open>utils/reload-local-records\<close>, which \<^verbatim>\<open>syncDown\<close> calls
  with the container and its argument, is not among the sources. By the spec (4.4), given a
  type name it performs the full reload of the type's local records from the current
  in-memory records of that type; the reload is the chain of \<^verbatim>\<open>store.js\<close>, and the
  promise of that chain is returned. Given any other value it does what \<open>reloadOther\<close> says.
\<close>

definition reloadLocalRecords_util :: "env \<Rightarrow> syncDownArg \<Rightarrow> state \<Rightarrow> unit promise completion \<times> state" where
  "reloadLocalRecords_util env typeName' s =
     (case typeName' of
        AString tn \<Rightarrow> (case reloadChain env tn (storeRecords env tn) s of (p, s') \<Rightarrow> (Returns p, s'))
      | _ \<Rightarrow> reloadOther env typeName' s)"

definition syncDownRecord :: "env \<Rightarrow> model \<Rightarrow> state \<Rightarrow> unit promise \<times> state" where
  "syncDownRecord env record s =
     (if isDeleted record
      then local_deleteRecord env (m_type record) (rec_id (m_record record)) s
      else local_createRecord env (m_type record) (m_record record) s)"

text \<open>
  \<^verbatim>\<open>record._createSnapshot()\<close> on a value that is no model instance: a \<^verbatim>\<open>TypeError\<close>,
  for null and undefined because they have no properties, for any other value because the
  property is no function.
\<close>

definition noSnapshot :: "syncDownArg \<Rightarrow> error" where
  "noSnapshot v =
     (case v of
        AOther VNull \<Rightarrow> Thrown ''TypeError: Cannot read property _createSnapshot of null''
      | AOther VUndefined \<Rightarrow> Thrown ''TypeError: Cannot read property _createSnapshot of undefined''
      | _ \<Rightarrow> Thrown ''TypeError: record._createSnapshot is not a function'')"

text \<open>
  \<^verbatim>\<open>descriptor.map(function(record) { return syncer.syncDownRecord(record); })\<close>: the
  members are handled in order; at the first one that is no model instance the
  \<^verbatim>\<open>TypeError\<close> leaves \<^verbatim>\<open>map\<close> and \<^verbatim>\<open>syncDown\<close> at once.
\<close>

fun syncDownRecords :: "env \<Rightarrow> syncDownArg list \<Rightarrow> state \<Rightarrow> unit promise list completion \<times> state" where
  "syncDownRecords env [] s = (Returns [], s)"
| "syncDownRecords env (AModel record # rest) s =
     (case syncDownRecord env record s of
        (p, s1) \<Rightarrow>
          (case syncDownRecords env rest s1 of
             (Throws e, s2) \<Rightarrow> (Throws e, s2)
           | (Returns ps, s2) \<Rightarrow> (Returns (p # ps), s2)))"
| "syncDownRecords env (v # rest) s = (Throws (noSnapshot v), s)"

definition RSVP_all :: "unit promise list \<Rightarrow> unit promise" where
  "RSVP_all ps = (case promise_all ps of Resolved _ \<Rightarrow> Resolved () | Rejected e \<Rightarrow> Rejected e)"

text \<open>
  The string a value becomes in \<^verbatim>\<open>'...' + descriptor\<close>: a number in decimal (an integer
  in the range where JavaScript numbers are exact), a boolean, a plain object, null and
  undefined.
\<close>

fun digitsOf :: "nat \<Rightarrow> string" where
  "digitsOf n =
     (if n < 10 then [''0123456789'' ! n]
      else digitsOf (n div 10) @ [''0123456789'' ! (n mod 10)])"

declare digitsOf.simps [simp del]

definition numberToString :: "int \<Rightarrow> string" where
  "numberToString n = (if n < 0 then CHR ''-'' # digitsOf (nat (- n)) else digitsOf (nat n))"

definition toString :: "otherValue \<Rightarrow> string" where
  "toString v =
     (case v of
        VNumber n \<Rightarrow> numberToString n
      | VBoolean b \<Rightarrow> (if b then ''true'' else ''false'')
      | VObject \<Rightarrow> ''[object Object]''
      | VNull \<Rightarrow> ''null''
      | VUndefined \<Rightarrow> ''undefined'')"

text \<open>
  \<^verbatim>\<open>syncDown(descriptor)\<close> of \<^verbatim>\<open>addon/syncer.js\<close>: \<^verbatim>\<open>typeof descriptor === 'string'\<close>,
  then \<^verbatim>\<open>isModelInstance(descriptor)\<close>, then \<^verbatim>\<open>Ember.isArray(descriptor)\<close>, else
  \<^verbatim>\<open>throw new Error('Input can only be a string, a DS.Model or an array of DS.Model, but is ' + descriptor)\<close>.
\<close>

definition syncDown :: "env \<Rightarrow> syncDownArg \<Rightarrow> state \<Rightarrow> unit promise completion \<times> state" where
  "syncDown env descriptor s =
     (case descriptor of
        AString tn \<Rightarrow> reloadLocalRecords_util env (AString tn) s
      | AModel record \<Rightarrow> (case syncDownRecord env record s of (p, s') \<Rightarrow> (Returns p, s'))
      | AArray records \<Rightarrow>
          (case syncDownRecords env records s of
             (Throws e, s') \<Rightarrow> (Throws e, s')
           | (Returns updatedRecords, s') \<Rightarrow> (Returns (RSVP_all updatedRecords), s'))
      | AOther v \<Rightarrow>
          (Throws (Thrown (''Input can only be a string, a DS.Model or an array of DS.Model, but is ''
                     @ toString v)), s))"

text \<open>A value as a condition (\<^verbatim>\<open>if(typeName)\<close>).\<close>

definition truthy :: "syncDownArg \<Rightarrow> bool" where
  "truthy v =
     (case v of
        AString str \<Rightarrow> str \<noteq> []
      | AModel _ \<Rightarrow> True
      | AArray _ \<Rightarrow> True
      | AOther (VNumber n) \<Rightarrow> n \<noteq> 0
      | AOther (VBoolean b) \<Rightarrow> b
      | AOther VObject \<Rightarrow> True
      | AOther VNull \<Rightarrow> False
      | AOther VUndefined \<Rightarrow> False)"

text \<open>
  \<^verbatim>\<open>syncDown(typeName)\<close> of part_001, whose parameter is documented as a String: the
  shape of the argument is not looked at. \<^verbatim>\<open>if(typeName)\<close> hands whatever is truthy to
  \<^verbatim>\<open>reloadLocalRecords\<close> and returns what that returns; for anything falsy
  \<^verbatim>\<open>RSVP.resolve()\<close> is returned.
\<close>

definition syncDown_p1 :: "env \<Rightarrow> syncDownArg \<Rightarrow> state \<Rightarrow> unit promise completion \<times> state" where
  "syncDown_p1 env typeName' s =
     (if truthy typeName' then reloadLocalRecords_util env typeName' s
      else (Returns (Resolved ()), s))"

section \<open>Notions used to state the properties\<close>

text \<open>A call of a remote adapter method.\<close>

definition isAdapterCall :: "call \<Rightarrow> bool" where
  "isAdapterCall c = (case c of AdapterCall _ _ _ \<Rightarrow> True | _ \<Rightarrow> False)"

text \<open>
  The remote adapter call \<^verbatim>\<open>runJob\<close> makes for a job whose record has been rebuilt, in
  \<^verbatim>\<open>addon/syncer.js\<close> and in part_001; none for an operation that is not one of the
  three. A create is sent with its id cleared.
\<close>

definition dispatchOf :: "job \<Rightarrow> rawRecord \<Rightarrow> call option" where
  "dispatchOf j record =
     (if operation j = ''deleteRecord'' then Some (AdapterCall ''deleteRecord'' (typeName j) record)
      else if operation j = ''updateRecord'' then Some (AdapterCall ''updateRecord'' (typeName j) record)
      else if operation j = ''createRecord''
        then Some (AdapterCall ''createRecord'' (typeName j) (record\<lparr>rec_id := None\<rparr>))
      else None)"

definition dispatchOf_p1 :: "job \<Rightarrow> rawRecord \<Rightarrow> call option" where
  "dispatchOf_p1 j record =
     (if operation j = ''delete'' then Some (AdapterCall ''deleteRecord'' (typeName j) record)
      else if operation j = ''update'' then Some (AdapterCall ''updateRecord'' (typeName j) record)
      else if operation j = ''create''
        then Some (AdapterCall ''createRecord'' (typeName j) (record\<lparr>rec_id := None\<rparr>))
      else None)"

text \<open>
  What \<^verbatim>\<open>runJob\<close> does once the remote call has resolved with a payload: for a create
  the mapping is recorded and the local record refreshed, and in every case the job is
  deleted at the end.
\<close>

definition settle :: "env \<Rightarrow> job \<Rightarrow> rawRecord \<Rightarrow> rawRecord \<Rightarrow> state \<Rightarrow> unit promise \<times> state" where
  "settle env j record payload s =
     (if operation j = ''createRecord''
      then then_p
             (then_p (createRemoteIdRecord env (typeName j) (rec_id record) payload s)
                (refreshLocalRecord env (typeName j) (rec_id record) record))
             (\<lambda>_. deleteById_job env (job_id j))
      else deleteById_job env (job_id j) s)"

definition settle_p1 :: "env \<Rightarrow> job \<Rightarrow> rawRecord \<Rightarrow> rawRecord \<Rightarrow> state \<Rightarrow> unit promise \<times> state" where
  "settle_p1 env j record payload s =
     (if operation j = ''create''
      then then_p
             (catch_p
                (then_p (createRemoteIdRecord env (typeName j) (rec_id record) payload s)
                   (refreshLocalRecord_p1 env (typeName j) (rec_id record) record))
                (catchCreateError env))
             (\<lambda>_. deleteById_job env (job_id j))
      else deleteById_job env (job_id j) s)"

text \<open>
  \<open>storageOnly s s'\<close>: from \<open>s\<close> to \<open>s'\<close> calls were only added, and no remote adapter
  call among them.
\<close>

definition storageOnly :: "state \<Rightarrow> state \<Rightarrow> bool" where
  "storageOnly s s' = (\<exists>rest. calls s' = calls s @ rest \<and> (\<forall>x \<in> set rest. \<not> isAdapterCall x))"

text \<open>
  The calls of one replayed job: first the job's remote adapter call, on a record rebuilt
  from the job (\<open>rebuilt\<close>), then storage calls only.
\<close>

definition replaySegment ::
  "(job \<Rightarrow> rawRecord \<Rightarrow> bool) \<Rightarrow> (job \<Rightarrow> rawRecord \<Rightarrow> call option) \<Rightarrow> job \<Rightarrow> call list \<Rightarrow> bool" where
  "replaySegment rebuilt dispatch j seg =
     (\<exists>c rest rcd. seg = c # rest \<and> rebuilt j rcd \<and> dispatch j rcd = Some c
        \<and> (\<forall>x \<in> set rest. \<not> isAdapterCall x))"

text \<open>A record that \<^verbatim>\<open>createRecordFromJob\<close> builds from the job in some state.\<close>

definition rebuiltFrom :: "env \<Rightarrow> job \<Rightarrow> rawRecord \<Rightarrow> bool" where
  "rebuiltFrom env j rcd = (\<exists>st. createRecordFromJob env st j = Inr rcd)"

definition rebuiltFrom_p1 :: "env \<Rightarrow> job \<Rightarrow> rawRecord \<Rightarrow> bool" where
  "rebuiltFrom_p1 env j rcd = (\<exists>st. fst (createRecordFromJob_p1 env j st) = Inr rcd)"

text \<open>The storage call \<^verbatim>\<open>syncDownRecord\<close> makes for a model instance.\<close>

definition memberCall :: "model \<Rightarrow> call" where
  "memberCall m =
     (if isDeleted m then LocalDelete (m_type m) (rec_id (m_record m))
      else LocalCreate (m_type m) (m_record m))"

text \<open>
  The promises of the members of an array of model instances, after the calls \<open>tr\<close>: the
  storage call of each member is made after those of the members before it, and its promise
  is rejected when that call fails.
\<close>

fun memberPromises :: "env \<Rightarrow> model list \<Rightarrow> call list \<Rightarrow> unit promise list" where
  "memberPromises env [] tr = []"
| "memberPromises env (m # ms) tr =
     (case storageFailure env tr (memberCall m) of Some e \<Rightarrow> Rejected e | None \<Rightarrow> Resolved ())
       # memberPromises env ms (tr @ [memberCall m])"


text \<open>\<open>logsOnly s s'\<close>: from \<open>s\<close> to \<open>s'\<close> lines were only added to the log.\<close>

definition logsOnly :: "state \<Rightarrow> state \<Rightarrow> bool" where
  "logsOnly s s' = (\<exists>l. s' = s\<lparr>logged := logged s @ l\<rparr>)"

text \<open>
  The drain in the spec's words (4.3 and 5): the jobs are executed strictly one after
  another, job N+1 beginning once job N has settled, in the state job N left, and the drain
  runs to completion or to its first halting error. \<open>run\<close> is the syncer's \<^verbatim>\<open>runJob\<close>.
\<close>

fun replayInOrder ::
  "(job \<Rightarrow> state \<Rightarrow> unit promise \<times> state) \<Rightarrow> job list \<Rightarrow> state \<Rightarrow> unit promise \<times> state" where
  "replayInOrder run [] s = (Resolved (), s)"
| "replayInOrder run (j # js) s =
     (case run j s of
        (Resolved _, s1) \<Rightarrow> replayInOrder run js s1
      | (Rejected e, s1) \<Rightarrow> (Rejected e, s1))"


section \<open>Concrete scenarios\<close>

definition ex_env :: env where
  "ex_env = \<lparr>relationshipsOf = (\<lambda>_. []),
      remoteResponse = (\<lambda>_ _. Inr \<lparr>rec_id = Some ''42'', rec_data = [(''name'', JStr ''Alice'')]\<rparr>),
      storageFailure = (\<lambda>_ _. None),
      handleSyncUpError = None, syncErrorHandler = None, storeRecords = (\<lambda>_. []),
      reloadOther = (\<lambda>_ st. (Returns (Resolved ()), st))\<rparr>"

definition ex_state :: state where
  "ex_state = \<lparr>jobs = [], remoteIdRecords = [], db_jobs = [], db_remoteIdRecords = [],
      localRecords = [], calls = [], logged = []\<rparr>"

definition ex_shadow :: "((string \<times> jsid) \<times> (string \<times> jsval) list) list" where
  "ex_shadow =
     [((''user'', Some ''1''), [(''name'', JStr ''Ann (stale)'')]),
      ((''user'', Some ''9''), [(''name'', JStr ''Zed'')]),
      ((''post'', Some ''9''), [(''title'', JStr ''Hello'')])]"


definition ex_jobA :: job where
  "ex_jobA = \<lparr>job_id = ''job-a'', operation = ''updateRecord'', typeName = ''user'',
      jobRecord = \<lparr>rec_id = Some ''1'', rec_data = [(''name'', JStr ''Ann'')]\<rparr>, createdAt = 10\<rparr>"

definition ex_jobB :: job where
  "ex_jobB = \<lparr>job_id = ''job-b'', operation = ''deleteRecord'', typeName = ''user'',
      jobRecord = \<lparr>rec_id = Some ''2'', rec_data = [(''name'', JStr ''Bob'')]\<rparr>, createdAt = 20\<rparr>"

definition ex_offline_on_delete :: "call list \<Rightarrow> call \<Rightarrow> error + rawRecord" where
  "ex_offline_on_delete tr c =
     (case c of
        AdapterCall method tn snapshot \<Rightarrow>
          if method = ''deleteRecord'' then Inl (StatusError 0) else Inr snapshot
      | _ \<Rightarrow> Inl NoReason)"

definition ex_jobC :: job where
  "ex_jobC = \<lparr>job_id = ''job-c'', operation = ''createRecord'', typeName = ''user'',
      jobRecord = \<lparr>rec_id = Some ''fryctoria1'', rec_data = [(''name'', JStr ''Alice'')]\<rparr>,
      createdAt = 5\<rparr>"

definition ex_reject_422 :: "call list \<Rightarrow> call \<Rightarrow> error + rawRecord" where
  "ex_reject_422 tr c = Inl (StatusError 422)"

definition ex_handler_resolves :: "error \<Rightarrow> unit promise" where
  "ex_handler_resolves error = Resolved ()"

definition ex_jobA_p1 :: job where
  "ex_jobA_p1 = ex_jobA\<lparr>operation := ''update''\<rparr>"

definition ex_jobC_p1 :: job where
  "ex_jobC_p1 = ex_jobC\<lparr>operation := ''create''\<rparr>"

definition ex_live :: model where
  "ex_live = \<lparr>m_type = ''user'',
      m_record = \<lparr>rec_id = Some ''1'', rec_data = [(''name'', JStr ''Ann'')]\<rparr>, isDeleted = False\<rparr>"

definition ex_gone :: model where
  "ex_gone = \<lparr>m_type = ''user'',
      m_record = \<lparr>rec_id = Some ''9'', rec_data = [(''name'', JStr ''Zed'')]\<rparr>, isDeleted = True\<rparr>"

definition ex_fail_create :: "call list \<Rightarrow> call \<Rightarrow> error option" where
  "ex_fail_create tr c =
     (case c of LocalCreate tn r \<Rightarrow> Some (Thrown ''QuotaExceededError'') | _ \<Rightarrow> None)"


definition ex_jobB_p1 :: job where
  "ex_jobB_p1 = ex_jobB\<lparr>operation := ''delete''\<rparr>"

definition ex_fail_jobs_write :: "call list \<Rightarrow> call \<Rightarrow> error option" where
  "ex_fail_jobs_write tr c =
     (if c = SetItem ''EmberFryctoriaJobs'' then Some (Thrown ''QuotaExceededError'') else None)"

definition ex_stale :: state where
  "ex_stale =
     \<lparr>jobs = [],
      remoteIdRecords = [\<lparr>rtypeName = ''user'', localId = Some ''fryctoria1'', remoteId = Some ''42''\<rparr>],
      db_jobs = [ex_jobC],
      db_remoteIdRecords = [\<lparr>rtypeName = ''user'', localId = Some ''fryctoria1'', remoteId = Some ''42''\<rparr>],
      localRecords = [((''user'', Some ''42''), [(''name'', JStr ''Alice'')])],
      calls = [AdapterCall ''createRecord'' ''user'' \<lparr>rec_id = None, rec_data = [(''name'', JStr ''Alice'')]\<rparr>,
               SetItem ''EmberFryctoriaRemoteIdRecords'',
               LocalDelete ''user'' (Some ''fryctoria1''),
               LocalCreate ''user'' \<lparr>rec_id = Some ''42'', rec_data = [(''name'', JStr ''Alice'')]\<rparr>,
               SetItem ''EmberFryctoriaJobs''],
      logged = [(''info'', ''Syncing started.'')]\<rparr>"







definition ex_queued :: state where
  "ex_queued = ex_state\<lparr>jobs := [ex_jobC], db_jobs := [ex_jobC],
      localRecords := [((''user'', Some ''fryctoria1''), [(''name'', JStr ''Alice'')])]\<rparr>"

section \<open>Properties of the id reconciliation\<close>

lemma indexOf_from_ge: "indexOf_from p s k = -1 \<or> k \<le> indexOf_from p s k"
proof (induction s arbitrary: k)
  case Nil
  show ?case by simp
next
  case (Cons c cs)
  from Cons.IH [of "k + 1"] show ?case by auto
qed

lemma indexOf_from_zero: "0 \<le> k \<Longrightarrow> (indexOf_from p s k = k) = prefix p s"
proof (cases s)
  case Nil
  assume "0 \<le> k"
  with Nil show ?thesis by auto
next
  case (Cons c cs)
  assume k: "0 \<le> k"
  from indexOf_from_ge [of p cs "k + 1"] k
  have "indexOf_from p cs (k + 1) \<noteq> k" by auto
  with Cons show ?thesis by simp
qed

lemma isRemoteId_prefix: "isRemoteId s = (\<not> prefix ''fryctoria'' s)"
  using indexOf_from_zero [of 0 "''fryctoria''" s]
  by (simp add: isRemoteId_def indexOf_def)

lemma find_None_iff_no_mapping:
  "(find (\<lambda>r. rtypeName r = tn \<and> localId r = Some s) rs = None) =
   (\<not> (\<exists>r \<in> set rs. rtypeName r = tn \<and> localId r = Some s))"
  by (auto simp: find_None_iff)

lemma find_Some_mapping:
  "find (\<lambda>r. rtypeName r = tn \<and> localId r = Some s) rs = Some r \<Longrightarrow>
   r \<in> set rs \<and> rtypeName r = tn \<and> localId r = Some s"
  by (auto simp: find_Some_iff)

lemma getRemoteId_p1_string:
  "getRemoteId_p1 tn (Some s) st =
     (getRemoteId (remoteIdRecords st) tn (Some s),
      if s = [] then logger ''error'' ''id can not be blank.'' st else st)"
  by (simp add: getRemoteId_p1_def getRemoteId_def truthyId_def logger_def split: option.splits)

text \<open>
  C7. \<^verbatim>\<open>getRemoteId\<close> (the spec's \<open>resolve\<close>) in both syncers: an id that does not
  begin with the local prefix \<^verbatim>\<open>fryctoria\<close> is returned unchanged; an id for which the
  reconciliation map holds no record of that type is returned unchanged; and whenever the
  result differs from the id given, the id is local-shaped and the result is the remote id
  of a record of the map for that type and local id. The lookup of \<^verbatim>\<open>addon/syncer.js\<close>
  is a function of the mapping list alone and returns only the id, so it changes no state;
  that of part_001 returns the same id and leaves the state as it is, but for the line it
  logs when the id is the empty string.
\<close>

theorem getRemoteId_idempotent:
  "(\<not> prefix ''fryctoria'' s \<longrightarrow>
      getRemoteId rs tn (Some s) = Inr (Some s) \<and> fst (getRemoteId_p1 tn (Some s) st) = Inr (Some s))
   \<and> (\<not> (\<exists>r \<in> set rs. rtypeName r = tn \<and> localId r = Some s) \<longrightarrow>
      getRemoteId rs tn (Some s) = Inr (Some s))
   \<and> (\<not> (\<exists>r \<in> set (remoteIdRecords st). rtypeName r = tn \<and> localId r = Some s) \<longrightarrow>
      fst (getRemoteId_p1 tn (Some s) st) = Inr (Some s))
   \<and> (getRemoteId rs tn (Some s) \<noteq> Inr (Some s) \<longrightarrow>
      prefix ''fryctoria'' s \<and>
      (\<exists>r \<in> set rs. rtypeName r = tn \<and> localId r = Some s \<and>
         getRemoteId rs tn (Some s) = Inr (remoteId r)))
   \<and> fst (getRemoteId_p1 tn (Some s) st) = getRemoteId (remoteIdRecords st) tn (Some s)
   \<and> snd (getRemoteId_p1 tn (Some s) st) =
       (if s = [] then logger ''error'' ''id can not be blank.'' st else st)"
proof (intro conjI impI)
  assume "\<not> prefix ''fryctoria'' s"
  then have r: "isRemoteId s" by (simp add: isRemoteId_prefix)
  from r show "getRemoteId rs tn (Some s) = Inr (Some s)" by (simp add: getRemoteId_def)
  from r show "fst (getRemoteId_p1 tn (Some s) st) = Inr (Some s)"
    by (simp add: getRemoteId_p1_string getRemoteId_def)
next
  assume "\<not> (\<exists>r \<in> set rs. rtypeName r = tn \<and> localId r = Some s)"
  then have n: "find (\<lambda>r. rtypeName r = tn \<and> localId r = Some s) rs = None"
    by (simp add: find_None_iff_no_mapping)
  from n show "getRemoteId rs tn (Some s) = Inr (Some s)" by (simp add: getRemoteId_def)
next
  assume "\<not> (\<exists>r \<in> set (remoteIdRecords st). rtypeName r = tn \<and> localId r = Some s)"
  then have n: "find (\<lambda>r. rtypeName r = tn \<and> localId r = Some s) (remoteIdRecords st) = None"
    by (simp add: find_None_iff_no_mapping)
  from n show "fst (getRemoteId_p1 tn (Some s) st) = Inr (Some s)"
    by (simp add: getRemoteId_p1_string getRemoteId_def)
next
  assume d: "getRemoteId rs tn (Some s) \<noteq> Inr (Some s)"
  then show "prefix ''fryctoria'' s"
    by (auto simp: getRemoteId_def isRemoteId_prefix split: if_splits)
  from d obtain r where f: "find (\<lambda>r. rtypeName r = tn \<and> localId r = Some s) rs = Some r"
    and l: "\<not> isRemoteId s"
    by (auto simp: getRemoteId_def split: if_splits option.splits)
  from f have m: "r \<in> set rs \<and> rtypeName r = tn \<and> localId r = Some s"
    by (rule find_Some_mapping)
  from f l have "getRemoteId rs tn (Some s) = Inr (remoteId r)"
    by (simp add: getRemoteId_def)
  with m show "\<exists>r \<in> set rs. rtypeName r = tn \<and> localId r = Some s \<and>
      getRemoteId rs tn (Some s) = Inr (remoteId r)" by blast
next
  show "fst (getRemoteId_p1 tn (Some s) st) = getRemoteId (remoteIdRecords st) tn (Some s)"
    by (simp add: getRemoteId_p1_string)
  show "snd (getRemoteId_p1 tn (Some s) st) =
       (if s = [] then logger ''error'' ''id can not be blank.'' st else st)"
    by (simp add: getRemoteId_p1_string)
qed

text \<open>
  The theorem at concrete inputs: with the single mapping (user, fryctoria1) to 42, the
  remote-shaped id 42 and the unmapped local id fryctoria2 come back unchanged, and
  fryctoria1 is replaced by 42.
\<close>

theorem getRemoteId_idempotent_witness:
  "\<not> prefix ''fryctoria'' ''42''
   \<and> getRemoteId [\<lparr>rtypeName = ''user'', localId = Some ''fryctoria1'', remoteId = Some ''42''\<rparr>]
        ''user'' (Some ''42'') = Inr (Some ''42'')
   \<and> \<not> (\<exists>r \<in> set [\<lparr>rtypeName = ''user'', localId = Some ''fryctoria1'', remoteId = Some ''42''\<rparr>].
          rtypeName r = ''user'' \<and> localId r = Some ''fryctoria2'')
   \<and> getRemoteId [\<lparr>rtypeName = ''user'', localId = Some ''fryctoria1'', remoteId = Some ''42''\<rparr>]
        ''user'' (Some ''fryctoria2'') = Inr (Some ''fryctoria2'')
   \<and> getRemoteId [\<lparr>rtypeName = ''user'', localId = Some ''fryctoria1'', remoteId = Some ''42''\<rparr>]
        ''user'' (Some ''fryctoria1'') \<noteq> Inr (Some ''fryctoria1'')
   \<and> getRemoteId [\<lparr>rtypeName = ''user'', localId = Some ''fryctoria1'', remoteId = Some ''42''\<rparr>]
        ''user'' (Some ''fryctoria1'') = Inr (Some ''42'')
   \<and> getRemoteId_p1 ''user'' (Some ''fryctoria1'')
        (ex_state\<lparr>remoteIdRecords :=
           [\<lparr>rtypeName = ''user'', localId = Some ''fryctoria1'', remoteId = Some ''42''\<rparr>]\<rparr>) =
       (Inr (Some ''42''),
        ex_state\<lparr>remoteIdRecords :=
           [\<lparr>rtypeName = ''user'', localId = Some ''fryctoria1'', remoteId = Some ''42''\<rparr>]\<rparr>)"
proof -
  let ?rs = "[\<lparr>rtypeName = ''user'', localId = Some ''fryctoria1'', remoteId = Some ''42''\<rparr>]"
  have a: "\<not> prefix ''fryctoria'' ''42''" by simp
  have b: "\<not> (\<exists>r \<in> set ?rs. rtypeName r = ''user'' \<and> localId r = Some ''fryctoria2'')" by simp
  have c: "getRemoteId ?rs ''user'' (Some ''fryctoria1'') \<noteq> Inr (Some ''fryctoria1'')"
    by (simp add: getRemoteId_def isRemoteId_prefix)
  from getRemoteId_idempotent [of "''42''" ?rs "''user''"] a
  have 1: "getRemoteId ?rs ''user'' (Some ''42'') = Inr (Some ''42'')" by blast
  from getRemoteId_idempotent [of "''fryctoria2''" ?rs "''user''"] b
  have 2: "getRemoteId ?rs ''user'' (Some ''fryctoria2'') = Inr (Some ''fryctoria2'')" by blast
  from getRemoteId_idempotent [of "''fryctoria1''" ?rs "''user''"] c
  have 3: "getRemoteId ?rs ''user'' (Some ''fryctoria1'') = Inr (Some ''42'')" by simp
  from getRemoteId_idempotent [of "''fryctoria1''" ?rs "''user''" "ex_state\<lparr>remoteIdRecords := ?rs\<rparr>"] 3
  have 4: "getRemoteId_p1 ''user'' (Some ''fryctoria1'') (ex_state\<lparr>remoteIdRecords := ?rs\<rparr>) =
      (Inr (Some ''42''), ex_state\<lparr>remoteIdRecords := ?rs\<rparr>)"
    by (simp add: prod_eq_iff)
  from a b c 1 2 3 4 show ?thesis by blast
qed

text \<open>
  C10, as the claim states it, fails: \<^verbatim>\<open>getRemoteId\<close> of \<^verbatim>\<open>addon/syncer.js\<close> called
  with a null id raises the assertion \<^verbatim>\<open>Id can not be blank.\<close>
\<close>

theorem getRemoteId_blank_id_counterexample:
  "getRemoteId [] ''user'' None = Inl (Thrown ''Assertion Failed: Id can not be blank.'')"
  by (simp add: getRemoteId_def)

text \<open>
  C10, amended. For every type name, every mapping list and every string id, the empty
  string included, \<^verbatim>\<open>getRemoteId\<close> returns an id and raises nothing, in both syncers;
  the empty string is returned as it is (part_001 logs an error for it). A null or undefined
  id is the one input that raises: the assertion in \<^verbatim>\<open>addon/syncer.js\<close>, a
  \<^verbatim>\<open>TypeError\<close> in part_001, after the error has been logged.
\<close>

theorem getRemoteId_never_fails_on_strings:
  "(\<exists>r. getRemoteId rs tn (Some s) = Inr r)
   \<and> (\<exists>r. fst (getRemoteId_p1 tn (Some s) st) = Inr r)
   \<and> getRemoteId rs tn (Some []) = Inr (Some [])
   \<and> getRemoteId_p1 tn (Some []) st = (Inr (Some []), logger ''error'' ''id can not be blank.'' st)
   \<and> (\<exists>e. getRemoteId rs tn None = Inl e)
   \<and> (\<exists>e. getRemoteId_p1 tn None st = (Inl e, logger ''error'' ''id can not be blank.'' st))"
proof (intro conjI)
  show "\<exists>r. getRemoteId rs tn (Some s) = Inr r"
    by (simp add: getRemoteId_def split: option.split)
  then show "\<exists>r. fst (getRemoteId_p1 tn (Some s) st) = Inr r"
    by (simp add: getRemoteId_p1_string getRemoteId_def split: option.split)
  have e: "isRemoteId []" by (simp add: isRemoteId_prefix)
  from e show "getRemoteId rs tn (Some []) = Inr (Some [])" by (simp add: getRemoteId_def)
  from e show "getRemoteId_p1 tn (Some []) st =
      (Inr (Some []), logger ''error'' ''id can not be blank.'' st)"
    by (simp add: getRemoteId_p1_string getRemoteId_def)
  show "\<exists>e. getRemoteId rs tn None = Inl e" by (simp add: getRemoteId_def)
  show "\<exists>e. getRemoteId_p1 tn None st = (Inl e, logger ''error'' ''id can not be blank.'' st)"
    by (simp add: getRemoteId_p1_def truthyId_def)
qed

section \<open>Promise chains\<close>

lemma then_p_Resolved [simp]: "then_p (Resolved v, s) f = f v s"
  by (simp add: then_p_def)

lemma then_p_Rejected [simp]: "then_p (Rejected e, s) f = (Rejected e, s)"
  by (simp add: then_p_def)

lemma catch_p_Resolved [simp]: "catch_p (Resolved v, s) h = (Resolved v, s)"
  by (simp add: catch_p_def)

lemma catch_p_Rejected [simp]: "catch_p (Rejected e, s) h = h e s"
  by (simp add: catch_p_def)

lemma reduceJobs_Nil [simp]: "reduceJobs run [] s = (Resolved (), s)"
  by (simp add: reduceJobs_def)

lemma foldl_then_rejected:
  "foldl (\<lambda>acc j. then_p acc (\<lambda>_. run j)) (Rejected e, s) js = (Rejected e, s)"
  by (induction js) simp_all

lemma reduceJobs_Cons:
  "reduceJobs run (j # js) s =
     (case run j s of
        (Resolved _, s1) \<Rightarrow> reduceJobs run js s1
      | (Rejected e, s1) \<Rightarrow> (Rejected e, s1))"
  by (simp add: reduceJobs_def foldl_then_rejected split: prod.splits promise.splits)

lemma reduceJobs_append:
  "reduceJobs run (pre @ post) s =
     (case reduceJobs run pre s of
        (Resolved _, s1) \<Rightarrow> reduceJobs run post s1
      | (Rejected e, s1) \<Rightarrow> (Rejected e, s1))"
proof (induction pre arbitrary: s)
  case Nil
  show ?case by simp
next
  case (Cons j pre)
  show ?case
    by (simp add: reduceJobs_Cons Cons.IH split: prod.splits promise.splits)
qed

section \<open>Properties of \<^verbatim>\<open>syncDown\<close>\<close>

lemma syncDownRecord_outcome:
  "syncDownRecord env m s =
     ((case storageFailure env (calls s) (memberCall m) of Some e \<Rightarrow> Rejected e | None \<Rightarrow> Resolved ()),
      snd (syncDownRecord env m s))"
  "calls (snd (syncDownRecord env m s)) = calls s @ [memberCall m]"
  by (simp_all add: syncDownRecord_def memberCall_def local_deleteRecord_def local_createRecord_def
      storageCall_def split: option.splits)

lemma syncDownRecord_effect:
  assumes "storageFailure env (calls s) (memberCall m) = None"
  shows "map_of (localRecords (snd (syncDownRecord env m s))) (m_type m, rec_id (m_record m)) =
      (if isDeleted m then None else Some (rec_data (m_record m)))"
    and "k \<noteq> (m_type m, rec_id (m_record m)) \<Longrightarrow>
      map_of (localRecords (snd (syncDownRecord env m s))) k = map_of (localRecords s) k"
  using assms
  by (simp_all add: syncDownRecord_def memberCall_def local_deleteRecord_def local_createRecord_def
      storageCall_def delete_conv update_conv split: if_splits)

lemma syncDownRecords_models:
  "syncDownRecords env (map AModel ms) s =
     (Returns (memberPromises env ms (calls s)), foldl (\<lambda>st m. snd (syncDownRecord env m st)) s ms)"
proof (induction ms arbitrary: s)
  case Nil
  show ?case by simp
next
  case (Cons m ms)
  obtain p s1 where m: "syncDownRecord env m s = (p, s1)" by (cases "syncDownRecord env m s")
  with syncDownRecord_outcome [of env m s]
  have p: "p = (case storageFailure env (calls s) (memberCall m) of Some e \<Rightarrow> Rejected e | None \<Rightarrow> Resolved ())"
    and c: "calls s1 = calls s @ [memberCall m]" by simp_all
  from m p c Cons.IH [of s1] show ?case by simp
qed

lemma syncDownRecords_calls:
  "calls (foldl (\<lambda>st m. snd (syncDownRecord env m st)) s ms) = calls s @ map memberCall ms"
  by (induction ms arbitrary: s) (simp_all add: syncDownRecord_outcome(2))

lemma syncDownRecords_stops:
  assumes "\<And>m. v \<noteq> AModel m"
  shows "syncDownRecords env (map AModel ms @ v # rest) s =
     (Throws (noSnapshot v), foldl (\<lambda>st m. snd (syncDownRecord env m st)) s ms)"
proof (induction ms arbitrary: s)
  case Nil
  from assms show ?case by (cases v) auto
next
  case (Cons m ms)
  then show ?case by (simp split: prod.splits)
qed

lemma memberPromises_length: "length (memberPromises env ms tr) = length ms"
  by (induction ms arbitrary: tr) simp_all

lemma promise_all_resolved_iff:
  "(\<exists>vs. promise_all ps = Resolved vs) = (ps = replicate (length ps) (Resolved ()))"
proof (induction ps)
  case Nil
  show ?case by simp
next
  case (Cons p ps)
  show ?case
  proof (cases p)
    case (Resolved u)
    with Cons show ?thesis by (auto split: promise.splits)
  next
    case (Rejected e)
    then show ?thesis by simp
  qed
qed

lemma RSVP_all_resolved_iff: "(RSVP_all ps = Resolved ()) = (ps = replicate (length ps) (Resolved ()))"
  using promise_all_resolved_iff [of ps] by (auto simp: RSVP_all_def split: promise.splits)

lemma RSVP_all_rejected: "RSVP_all (replicate n (Resolved ()) @ Rejected e # qs) = Rejected e"
  by (induction n) (simp_all add: RSVP_all_def split: promise.splits)

text \<open>
  C9, amended. \<^verbatim>\<open>syncDown\<close> of \<^verbatim>\<open>addon/syncer.js\<close>: an argument that is no
  string, no model instance and no array throws to the caller the \<^verbatim>\<open>Error\<close> whose
  message ends with the argument (\<^verbatim>\<open>but is null\<close>, \<^verbatim>\<open>but is undefined\<close>), with the state
  untouched. A string returns the promise of the reload of that type. A model instance
  returns the promise of its one storage call, a deletion when the record is deleted and a
  creation otherwise; when the call succeeds the local record is removed, or stored with the
  record's data, and no other local record changes. An array of model instances makes the
  storage call of every member in order and returns \<^verbatim>\<open>RSVP.all\<close> of the members'
  promises, which resolves when all of them do and is rejected with the first rejection.
  None of the three throws. An array with a member that is no model instance throws a
  \<^verbatim>\<open>TypeError\<close> out of the \<^verbatim>\<open>map\<close>, after the members before it have been handled.
  \<^verbatim>\<open>syncDown\<close> of part_001 does not look at the shape of its argument: for a falsy one
  (null, undefined, the empty string, 0, false) it returns a resolved promise and leaves the
  state untouched; a non-empty string gets the reload of that type; and any other truthy
  value, a model instance or an array as well, is handed as it is to
  \<^verbatim>\<open>reloadLocalRecords\<close>, whose result is returned.
\<close>

theorem syncDown_argument_shapes:
  "syncDown env (AOther v) s =
     (Throws (Thrown (''Input can only be a string, a DS.Model or an array of DS.Model, but is ''
                @ toString v)), s)
   \<and> syncDown env (AOther VNull) s =
     (Throws (Thrown ''Input can only be a string, a DS.Model or an array of DS.Model, but is null''), s)
   \<and> syncDown env (AOther VUndefined) s =
     (Throws (Thrown ''Input can only be a string, a DS.Model or an array of DS.Model, but is undefined''), s)
   \<and> syncDown env (AString tn) s =
     (Returns (fst (reloadChain env tn (storeRecords env tn) s)),
      snd (reloadChain env tn (storeRecords env tn) s))
   \<and> syncDown env (AModel m) s =
     (Returns (case storageFailure env (calls s) (memberCall m) of
                 Some e \<Rightarrow> Rejected e | None \<Rightarrow> Resolved ()),
      snd (syncDownRecord env m s))
   \<and> calls (snd (syncDownRecord env m s)) = calls s @ [memberCall m]
   \<and> (storageFailure env (calls s) (memberCall m) = None \<longrightarrow>
        map_of (localRecords (snd (syncDownRecord env m s))) (m_type m, rec_id (m_record m)) =
          (if isDeleted m then None else Some (rec_data (m_record m)))
        \<and> (\<forall>k. k \<noteq> (m_type m, rec_id (m_record m)) \<longrightarrow>
              map_of (localRecords (snd (syncDownRecord env m s))) k = map_of (localRecords s) k))
   \<and> syncDown env (AArray (map AModel ms)) s =
     (Returns (RSVP_all (memberPromises env ms (calls s))),
      foldl (\<lambda>st m. snd (syncDownRecord env m st)) s ms)
   \<and> calls (foldl (\<lambda>st m. snd (syncDownRecord env m st)) s ms) = calls s @ map memberCall ms
   \<and> length (memberPromises env ms (calls s)) = length ms
   \<and> (RSVP_all ps = Resolved ()) = (ps = replicate (length ps) (Resolved ()))
   \<and> RSVP_all (replicate n (Resolved ()) @ Rejected e # qs) = Rejected e
   \<and> syncDown env (AArray (map AModel ms @ AOther v # rest)) s =
     (Throws (noSnapshot (AOther v)), foldl (\<lambda>st m. snd (syncDownRecord env m st)) s ms)
   \<and> syncDown env (AArray (map AModel ms @ AString str # rest)) s =
     (Throws (Thrown ''TypeError: record._createSnapshot is not a function''),
      foldl (\<lambda>st m. snd (syncDownRecord env m st)) s ms)
   \<and> syncDown env (AArray (map AModel ms @ AArray xs # rest)) s =
     (Throws (Thrown ''TypeError: record._createSnapshot is not a function''),
      foldl (\<lambda>st m. snd (syncDownRecord env m st)) s ms)
   \<and> syncDown_p1 env (AOther VNull) s = (Returns (Resolved ()), s)
   \<and> syncDown_p1 env (AOther VUndefined) s = (Returns (Resolved ()), s)
   \<and> syncDown_p1 env (AString []) s = (Returns (Resolved ()), s)
   \<and> syncDown_p1 env (AOther (VBoolean False)) s = (Returns (Resolved ()), s)
   \<and> syncDown_p1 env (AOther (VNumber 0)) s = (Returns (Resolved ()), s)
   \<and> syncDown_p1 env (AString (c # cs)) s = syncDown env (AString (c # cs)) s
   \<and> syncDown_p1 env (AModel m) s = reloadOther env (AModel m) s
   \<and> syncDown_p1 env (AArray xs) s = reloadOther env (AArray xs) s
   \<and> syncDown_p1 env (AOther VObject) s = reloadOther env (AOther VObject) s
   \<and> syncDown_p1 env (AOther (VBoolean True)) s = reloadOther env (AOther (VBoolean True)) s
   \<and> (i \<noteq> 0 \<longrightarrow> syncDown_p1 env (AOther (VNumber i)) s = reloadOther env (AOther (VNumber i)) s)"
proof (intro conjI impI allI)
  show "syncDown env (AString tn) s =
     (Returns (fst (reloadChain env tn (storeRecords env tn) s)),
      snd (reloadChain env tn (storeRecords env tn) s))"
    by (simp add: syncDown_def reloadLocalRecords_util_def split: prod.splits)
  show "syncDown env (AModel m) s =
     (Returns (case storageFailure env (calls s) (memberCall m) of
                 Some e \<Rightarrow> Rejected e | None \<Rightarrow> Resolved ()),
      snd (syncDownRecord env m s))"
    using syncDownRecord_outcome(1) [of env m s]
    by (cases "syncDownRecord env m s") (simp add: syncDown_def)
  show "calls (snd (syncDownRecord env m s)) = calls s @ [memberCall m]"
    by (rule syncDownRecord_outcome(2))
  show "syncDown env (AArray (map AModel ms)) s =
     (Returns (RSVP_all (memberPromises env ms (calls s))),
      foldl (\<lambda>st m. snd (syncDownRecord env m st)) s ms)"
    by (simp add: syncDown_def syncDownRecords_models)
  show "calls (foldl (\<lambda>st m. snd (syncDownRecord env m st)) s ms) = calls s @ map memberCall ms"
    by (rule syncDownRecords_calls)
  show "length (memberPromises env ms (calls s)) = length ms" by (rule memberPromises_length)
  show "(RSVP_all ps = Resolved ()) = (ps = replicate (length ps) (Resolved ()))"
    by (rule RSVP_all_resolved_iff)
  show "RSVP_all (replicate n (Resolved ()) @ Rejected e # qs) = Rejected e"
    by (rule RSVP_all_rejected)
  show "syncDown env (AArray (map AModel ms @ AOther v # rest)) s =
     (Throws (noSnapshot (AOther v)), foldl (\<lambda>st m. snd (syncDownRecord env m st)) s ms)"
    by (simp add: syncDown_def syncDownRecords_stops)
  show "syncDown env (AArray (map AModel ms @ AString str # rest)) s =
     (Throws (Thrown ''TypeError: record._createSnapshot is not a function''),
      foldl (\<lambda>st m. snd (syncDownRecord env m st)) s ms)"
    by (simp add: syncDown_def syncDownRecords_stops noSnapshot_def)
  show "syncDown env (AArray (map AModel ms @ AArray xs # rest)) s =
     (Throws (Thrown ''TypeError: record._createSnapshot is not a function''),
      foldl (\<lambda>st m. snd (syncDownRecord env m st)) s ms)"
    by (simp add: syncDown_def syncDownRecords_stops noSnapshot_def)
  show "syncDown_p1 env (AString (c # cs)) s = syncDown env (AString (c # cs)) s"
    by (simp add: syncDown_p1_def syncDown_def truthy_def)
next
  assume ok: "storageFailure env (calls s) (memberCall m) = None"
  from syncDownRecord_effect(1) [OF ok]
  show "map_of (localRecords (snd (syncDownRecord env m s))) (m_type m, rec_id (m_record m)) =
      (if isDeleted m then None else Some (rec_data (m_record m)))" .
  fix k assume "k \<noteq> (m_type m, rec_id (m_record m))"
  with syncDownRecord_effect(2) [OF ok]
  show "map_of (localRecords (snd (syncDownRecord env m s))) k = map_of (localRecords s) k" .
next
  assume "i \<noteq> 0"
  then show "syncDown_p1 env (AOther (VNumber i)) s = reloadOther env (AOther (VNumber i)) s"
    by (simp add: syncDown_p1_def truthy_def reloadLocalRecords_util_def)
qed (simp_all add: syncDown_def syncDown_p1_def truthy_def toString_def reloadLocalRecords_util_def)

text \<open>
  The theorem at concrete inputs. The number 7 is refused with \<^verbatim>\<open>but is 7\<close>. A record that
  is not deleted is stored. Of an array of a deleted record and a live one, with a storage
  that fails every creation, the deletion is made, then the creation, and the promise
  returned is rejected with the failure of the creation. An array of a record and a number
  throws after the record has been handled. In part_001 the number 7 is handed to the reload
  utility.
\<close>

theorem syncDown_argument_shapes_witness:
  "syncDown ex_env (AOther (VNumber 7)) ex_state =
     (Throws (Thrown ''Input can only be a string, a DS.Model or an array of DS.Model, but is 7''),
      ex_state)
   \<and> storageFailure ex_env (calls ex_state) (memberCall ex_live) = None
   \<and> syncDown ex_env (AModel ex_live) ex_state =
     (Returns (Resolved ()),
      ex_state\<lparr>localRecords := [((''user'', Some ''1''), [(''name'', JStr ''Ann'')])],
        calls := [LocalCreate ''user'' \<lparr>rec_id = Some ''1'', rec_data = [(''name'', JStr ''Ann'')]\<rparr>]\<rparr>)
   \<and> map_of (localRecords (snd (syncDownRecord ex_env ex_live ex_state))) (''user'', Some ''1'') =
       Some [(''name'', JStr ''Ann'')]
   \<and> syncDown (ex_env\<lparr>storageFailure := ex_fail_create\<rparr>) (AArray [AModel ex_gone, AModel ex_live])
        (ex_state\<lparr>localRecords := ex_shadow\<rparr>) =
     (Returns (Rejected (Thrown ''QuotaExceededError'')),
      ex_state\<lparr>localRecords :=
          [((''user'', Some ''1''), [(''name'', JStr ''Ann (stale)'')]),
           ((''post'', Some ''9''), [(''title'', JStr ''Hello'')])],
        calls := [LocalDelete ''user'' (Some ''9''),
                  LocalCreate ''user'' \<lparr>rec_id = Some ''1'', rec_data = [(''name'', JStr ''Ann'')]\<rparr>]\<rparr>)
   \<and> syncDown ex_env (AArray [AModel ex_gone, AOther (VNumber 7), AModel ex_live])
        (ex_state\<lparr>localRecords := ex_shadow\<rparr>) =
     (Throws (Thrown ''TypeError: record._createSnapshot is not a function''),
      ex_state\<lparr>localRecords :=
          [((''user'', Some ''1''), [(''name'', JStr ''Ann (stale)'')]),
           ((''post'', Some ''9''), [(''title'', JStr ''Hello'')])],
        calls := [LocalDelete ''user'' (Some ''9'')]\<rparr>)
   \<and> (7::int) \<noteq> 0
   \<and> syncDown_p1 ex_env (AOther (VNumber 7)) ex_state =
       reloadOther ex_env (AOther (VNumber 7)) ex_state"
proof -
  note t = syncDown_argument_shapes
  have seven: "toString (VNumber 7) = ''7''"
    by (simp add: toString_def numberToString_def digitsOf.simps [of 7])
  from t [of ex_env "VNumber 7" ex_state] seven
  have a: "syncDown ex_env (AOther (VNumber 7)) ex_state =
     (Throws (Thrown ''Input can only be a string, a DS.Model or an array of DS.Model, but is 7''),
      ex_state)" by simp
  have ok: "storageFailure ex_env (calls ex_state) (memberCall ex_live) = None"
    by (simp add: ex_env_def)
  have st: "snd (syncDownRecord ex_env ex_live ex_state) =
      ex_state\<lparr>localRecords := [((''user'', Some ''1''), [(''name'', JStr ''Ann'')])],
        calls := [LocalCreate ''user'' \<lparr>rec_id = Some ''1'', rec_data = [(''name'', JStr ''Ann'')]\<rparr>]\<rparr>"
    by (simp add: syncDownRecord_def local_createRecord_def storageCall_def ex_env_def ex_state_def
        ex_live_def)
  from t [of ex_env _ ex_state _ ex_live] ok st
  have b: "syncDown ex_env (AModel ex_live) ex_state =
     (Returns (Resolved ()),
      ex_state\<lparr>localRecords := [((''user'', Some ''1''), [(''name'', JStr ''Ann'')])],
        calls := [LocalCreate ''user'' \<lparr>rec_id = Some ''1'', rec_data = [(''name'', JStr ''Ann'')]\<rparr>]\<rparr>)"
    by simp
  from t [of ex_env _ ex_state _ ex_live] ok
  have c: "map_of (localRecords (snd (syncDownRecord ex_env ex_live ex_state))) (''user'', Some ''1'') =
       Some [(''name'', JStr ''Ann'')]"
    by (simp add: ex_live_def)
  let ?envf = "ex_env\<lparr>storageFailure := ex_fail_create\<rparr>"
  let ?s = "ex_state\<lparr>localRecords := ex_shadow\<rparr>"
  have ps: "memberPromises ?envf [ex_gone, ex_live] (calls ?s) =
      replicate 1 (Resolved ()) @ Rejected (Thrown ''QuotaExceededError'') # []"
    by (simp add: memberCall_def ex_gone_def ex_live_def ex_fail_create_def ex_env_def ex_state_def)
  have fin: "foldl (\<lambda>st m. snd (syncDownRecord ?envf m st)) ?s [ex_gone, ex_live] =
      ex_state\<lparr>localRecords :=
          [((''user'', Some ''1''), [(''name'', JStr ''Ann (stale)'')]),
           ((''post'', Some ''9''), [(''title'', JStr ''Hello'')])],
        calls := [LocalDelete ''user'' (Some ''9''),
                  LocalCreate ''user'' \<lparr>rec_id = Some ''1'', rec_data = [(''name'', JStr ''Ann'')]\<rparr>]\<rparr>"
    by (simp add: syncDownRecord_def local_createRecord_def local_deleteRecord_def storageCall_def
        ex_env_def ex_state_def ex_shadow_def ex_gone_def ex_live_def ex_fail_create_def)
  from t [of ?envf _ ?s _ _ "[ex_gone, ex_live]" _ 1 "Thrown ''QuotaExceededError''" "[]"] ps fin
  have d: "syncDown ?envf (AArray [AModel ex_gone, AModel ex_live]) ?s =
     (Returns (Rejected (Thrown ''QuotaExceededError'')),
      ex_state\<lparr>localRecords :=
          [((''user'', Some ''1''), [(''name'', JStr ''Ann (stale)'')]),
           ((''post'', Some ''9''), [(''title'', JStr ''Hello'')])],
        calls := [LocalDelete ''user'' (Some ''9''),
                  LocalCreate ''user'' \<lparr>rec_id = Some ''1'', rec_data = [(''name'', JStr ''Ann'')]\<rparr>]\<rparr>)"
    by simp
  have fin1: "foldl (\<lambda>st m. snd (syncDownRecord ex_env m st)) ?s [ex_gone] =
      ex_state\<lparr>localRecords :=
          [((''user'', Some ''1''), [(''name'', JStr ''Ann (stale)'')]),
           ((''post'', Some ''9''), [(''title'', JStr ''Hello'')])],
        calls := [LocalDelete ''user'' (Some ''9'')]\<rparr>"
    by (simp add: syncDownRecord_def local_deleteRecord_def storageCall_def
        ex_env_def ex_state_def ex_shadow_def ex_gone_def)
  from t [of ex_env "VNumber 7" ?s _ _ "[ex_gone]" _ _ _ _ "[AModel ex_live]"] fin1
  have e: "syncDown ex_env (AArray [AModel ex_gone, AOther (VNumber 7), AModel ex_live]) ?s =
     (Throws (Thrown ''TypeError: record._createSnapshot is not a function''),
      ex_state\<lparr>localRecords :=
          [((''user'', Some ''1''), [(''name'', JStr ''Ann (stale)'')]),
           ((''post'', Some ''9''), [(''title'', JStr ''Hello'')])],
        calls := [LocalDelete ''user'' (Some ''9'')]\<rparr>)"
    by (simp add: noSnapshot_def)
  have nz: "(7::int) \<noteq> 0" by simp
  from t [of ex_env _ ex_state _ _ _ _ _ _ _ _ _ _ _ _ 7] nz
  have f: "syncDown_p1 ex_env (AOther (VNumber 7)) ex_state =
       reloadOther ex_env (AOther (VNumber 7)) ex_state" by blast
  from a ok b c d e nz f show ?thesis by blast
qed

text \<open>
  C9, as the claim states it, fails on \<^verbatim>\<open>syncDown\<close> of part_001: called with null, which
  is neither a type name, a record nor an array, it throws nothing and returns a resolved
  promise.
\<close>

theorem syncDown_p1_null_counterexample:
  "syncDown_p1 ex_env (AOther VNull) ex_state = (Returns (Resolved ()), ex_state)"
  by (simp add: syncDown_p1_def truthy_def)

section \<open>Properties of \<^verbatim>\<open>reloadLocalRecords\<close>\<close>



















section \<open>One job: \<^verbatim>\<open>runJob\<close> of \<^verbatim>\<open>addon/syncer.js\<close>\<close>

lemma runJob_throws:
  "createRecordFromJob env s j = Inl e \<Longrightarrow> runJob env j s = (Rejected e, s)"
  by (simp add: runJob_def)

lemma runJob_unknown_operation:
  "createRecordFromJob env s j = Inr record \<Longrightarrow> dispatchOf j record = None \<Longrightarrow>
   runJob env j s = (Rejected (Thrown ''TypeError: Cannot read property then of undefined''), s)"
  by (simp add: runJob_def dispatchOf_def split: if_splits)

lemma runJob_remote_rejects:
  "createRecordFromJob env s j = Inr record \<Longrightarrow> dispatchOf j record = Some c \<Longrightarrow>
   remoteResponse env (calls s) c = Inl e \<Longrightarrow>
   runJob env j s = (Rejected e, s\<lparr>calls := calls s @ [c]\<rparr>)"
  by (auto simp: runJob_def dispatchOf_def remoteCRUD_def split: if_splits)

lemma runJob_remote_resolves:
  "createRecordFromJob env s j = Inr record \<Longrightarrow> dispatchOf j record = Some c \<Longrightarrow>
   remoteResponse env (calls s) c = Inr payload \<Longrightarrow>
   runJob env j s = settle env j record payload (s\<lparr>calls := calls s @ [c]\<rparr>)"
  by (auto simp: runJob_def dispatchOf_def remoteCRUD_def settle_def updateIdInStore_def
      split: if_splits)

lemma runJob_cases:
  obtains
    (throws) e where "createRecordFromJob env s j = Inl e" "runJob env j s = (Rejected e, s)"
  | (unknown) rcd where "createRecordFromJob env s j = Inr rcd" "dispatchOf j rcd = None"
      "runJob env j s = (Rejected (Thrown ''TypeError: Cannot read property then of undefined''), s)"
  | (rejected) rcd c e where "createRecordFromJob env s j = Inr rcd" "dispatchOf j rcd = Some c"
      "remoteResponse env (calls s) c = Inl e"
      "runJob env j s = (Rejected e, s\<lparr>calls := calls s @ [c]\<rparr>)"
  | (settled) rcd c payload where "createRecordFromJob env s j = Inr rcd"
      "dispatchOf j rcd = Some c" "remoteResponse env (calls s) c = Inr payload"
      "runJob env j s = settle env j rcd payload (s\<lparr>calls := calls s @ [c]\<rparr>)"
proof (cases "createRecordFromJob env s j")
  case (Inl e)
  then show ?thesis using runJob_throws that(1) by blast
next
  case (Inr rcd)
  show ?thesis
  proof (cases "dispatchOf j rcd")
    case None
    with Inr show ?thesis using runJob_unknown_operation that(2) by blast
  next
    case (Some c)
    show ?thesis
    proof (cases "remoteResponse env (calls s) c")
      case (Inl e)
      with Inr Some show ?thesis using runJob_remote_rejects that(3) by blast
    next
      case r: (Inr payload)
      with Inr Some show ?thesis using runJob_remote_resolves that(4) by blast
    qed
  qed
qed

lemma then_p_frame:
  assumes "R s (snd m)" and "\<And>v s1. R s1 (snd (f v s1))"
    and "\<And>a b c. R a b \<Longrightarrow> R b c \<Longrightarrow> R a c"
  shows "R s (snd (then_p m f))"
proof (cases m)
  case (Pair p s1)
  show ?thesis
  proof (cases p)
    case (Resolved v)
    with Pair assms(1) assms(2) [of s1 v] assms(3) show ?thesis by auto
  next
    case (Rejected e)
    with Pair assms(1) show ?thesis by simp
  qed
qed

lemma storageOnly_refl: "storageOnly s s"
  by (simp add: storageOnly_def)

lemma storageOnly_trans: "storageOnly a b \<Longrightarrow> storageOnly b c \<Longrightarrow> storageOnly a c"
  by (fastforce simp: storageOnly_def)

lemma then_p_storageOnly:
  assumes "storageOnly s (snd m)" and "\<And>v s1. storageOnly s1 (snd (f v s1))"
  shows "storageOnly s (snd (then_p m f))"
  using assms(1) assms(2) storageOnly_trans
  by (rule then_p_frame [where R = storageOnly])

lemma storageCall_storageOnly:
  "\<not> isAdapterCall c \<Longrightarrow> (\<And>x. calls (eff x) = calls x) \<Longrightarrow>
   storageOnly s (snd (storageCall env c eff s))"
  by (auto simp: storageCall_def storageOnly_def split: option.splits)

lemma deleteById_job_storageOnly: "storageOnly s (snd (deleteById_job env i s))"
proof -
  have "storageOnly (s\<lparr>jobs := filter (\<lambda>record. i \<noteq> job_id record) (jobs s)\<rparr>)
      (snd (deleteById_job env i s))"
    unfolding deleteById_job_def saveAll_job_def
    by (rule storageCall_storageOnly) (simp_all add: isAdapterCall_def)
  then show ?thesis by (simp add: storageOnly_def)
qed

lemma createRemoteIdRecord_storageOnly:
  "storageOnly s (snd (createRemoteIdRecord env tn i payload s))"
proof -
  let ?r = "\<lparr>rtypeName = tn, localId = i, remoteId = rec_id payload\<rparr>"
  have "storageOnly (s\<lparr>remoteIdRecords := remoteIdRecords s @ [?r]\<rparr>)
      (snd (create_remoteIdRecord env ?r s))"
    unfolding create_remoteIdRecord_def saveAll_remoteIdRecord_def
    by (rule storageCall_storageOnly) (simp_all add: isAdapterCall_def)
  then have "storageOnly s (snd (create_remoteIdRecord env ?r s))"
    by (simp add: storageOnly_def)
  then show ?thesis
    unfolding createRemoteIdRecord_def
    by (rule then_p_storageOnly) (simp add: storageOnly_refl)
qed

lemma local_deleteRecord_storageOnly: "storageOnly s (snd (local_deleteRecord env tn i s))"
  unfolding local_deleteRecord_def
  by (rule storageCall_storageOnly) (simp_all add: isAdapterCall_def)

lemma local_createRecord_storageOnly: "storageOnly s (snd (local_createRecord env tn r s))"
  unfolding local_createRecord_def
  by (rule storageCall_storageOnly) (simp_all add: isAdapterCall_def)

lemma refreshLocalRecord_storageOnly:
  "storageOnly s (snd (refreshLocalRecord env tn i record payload s))"
  unfolding refreshLocalRecord_def
  by (intro then_p_storageOnly local_deleteRecord_storageOnly local_createRecord_storageOnly)

lemma settle_storageOnly: "storageOnly s (snd (settle env j record payload s))"
proof (cases "operation j = ''createRecord''")
  case True
  have "storageOnly s (snd (then_p
             (then_p (createRemoteIdRecord env (typeName j) (rec_id record) payload s)
                (refreshLocalRecord env (typeName j) (rec_id record) record))
             (\<lambda>_. deleteById_job env (job_id j))))"
    by (intro then_p_storageOnly createRemoteIdRecord_storageOnly refreshLocalRecord_storageOnly
        deleteById_job_storageOnly)
  with True show ?thesis by (simp add: settle_def)
next
  case False
  then show ?thesis by (simp add: settle_def deleteById_job_storageOnly)
qed

lemma then_p_keeps:
  assumes "g (snd m) = g s" and "\<And>v s1. g (snd (f v s1)) = g s1"
  shows "g (snd (then_p m f)) = g s"
  using assms by (cases m; cases "fst m") (auto simp: then_p_def split: promise.splits)

lemma then_p_resolved:
  assumes "then_p m f = (Resolved v, s')"
  obtains u s1 where "m = (Resolved u, s1)" "f u s1 = (Resolved v, s')"
  using assms by (cases m; cases "fst m") (auto simp: then_p_def split: promise.splits)

lemma storageCall_keeps:
  "(\<And>x. g (eff x) = g x) \<Longrightarrow> (\<And>x cs. g (x\<lparr>calls := cs\<rparr>) = g x) \<Longrightarrow>
   g (snd (storageCall env c eff s)) = g s"
  by (simp add: storageCall_def split: option.splits)

lemma createRemoteIdRecord_keeps_jobs:
  "jobs (snd (createRemoteIdRecord env tn i payload s)) = jobs s"
  "db_jobs (snd (createRemoteIdRecord env tn i payload s)) = db_jobs s"
  unfolding createRemoteIdRecord_def create_remoteIdRecord_def saveAll_remoteIdRecord_def
  by (simp_all add: then_p_keeps storageCall_keeps)

lemma refreshLocalRecord_keeps:
  "jobs (snd (refreshLocalRecord env tn i record payload s)) = jobs s"
  "db_jobs (snd (refreshLocalRecord env tn i record payload s)) = db_jobs s"
  "remoteIdRecords (snd (refreshLocalRecord env tn i record payload s)) = remoteIdRecords s"
  "db_remoteIdRecords (snd (refreshLocalRecord env tn i record payload s)) = db_remoteIdRecords s"
  unfolding refreshLocalRecord_def local_deleteRecord_def local_createRecord_def
  by (simp_all add: then_p_keeps storageCall_keeps)

lemma createRemoteIdRecord_remoteIds:
  "remoteIdRecords (snd (createRemoteIdRecord env tn i payload s)) =
     remoteIdRecords s @ [\<lparr>rtypeName = tn, localId = i, remoteId = rec_id payload\<rparr>]"
  by (simp add: createRemoteIdRecord_def create_remoteIdRecord_def saveAll_remoteIdRecord_def
      storageCall_def then_p_def split: option.splits)

lemma deleteById_job_keeps:
  "remoteIdRecords (snd (deleteById_job env i s)) = remoteIdRecords s"
  "db_remoteIdRecords (snd (deleteById_job env i s)) = db_remoteIdRecords s"
  "localRecords (snd (deleteById_job env i s)) = localRecords s"
  by (simp_all add: deleteById_job_def saveAll_job_def storageCall_def split: option.splits)

lemma deleteById_job_resolved:
  "deleteById_job env i s = (Resolved (), s') \<Longrightarrow>
   jobs s' = filter (\<lambda>r. i \<noteq> job_id r) (jobs s) \<and> db_jobs s' = jobs s'"
  by (auto simp: deleteById_job_def saveAll_job_def storageCall_def split: option.splits)

lemma settle_resolved_jobs:
  assumes "settle env j record payload s = (Resolved (), s')"
  shows "jobs s' = filter (\<lambda>r. job_id j \<noteq> job_id r) (jobs s) \<and> db_jobs s' = jobs s'"
proof (cases "operation j = ''createRecord''")
  case True
  let ?m = "then_p (createRemoteIdRecord env (typeName j) (rec_id record) payload s)
      (refreshLocalRecord env (typeName j) (rec_id record) record)"
  have k: "jobs (snd ?m) = jobs s"
    by (simp add: then_p_keeps createRemoteIdRecord_keeps_jobs refreshLocalRecord_keeps)
  from assms True have "then_p ?m (\<lambda>_. deleteById_job env (job_id j)) = (Resolved (), s')"
    by (simp add: settle_def)
  then obtain u s1 where m: "?m = (Resolved u, s1)"
    and d: "deleteById_job env (job_id j) s1 = (Resolved (), s')"
    by (rule then_p_resolved)
  from k m have "jobs s1 = jobs s" by simp
  with deleteById_job_resolved [OF d] show ?thesis by simp
next
  case False
  with assms have "deleteById_job env (job_id j) s = (Resolved (), s')" by (simp add: settle_def)
  then show ?thesis by (rule deleteById_job_resolved)
qed

lemma then_p_prefix:
  assumes "prefix (g s) (g (snd m))" and "\<And>v s1. prefix (g s1) (g (snd (f v s1)))"
  shows "prefix (g s) (g (snd (then_p m f)))"
  using assms(1) assms(2) prefix_order.trans
  by (rule then_p_frame [where R = "\<lambda>a b. prefix (g a) (g b)"])

lemma settle_remoteIds: "prefix (remoteIdRecords s) (remoteIdRecords (snd (settle env j record payload s)))"
proof (cases "operation j = ''createRecord''")
  case True
  have "prefix (remoteIdRecords s) (remoteIdRecords (snd (then_p
      (then_p (createRemoteIdRecord env (typeName j) (rec_id record) payload s)
         (refreshLocalRecord env (typeName j) (rec_id record) record))
      (\<lambda>_. deleteById_job env (job_id j)))))"
    by (intro then_p_prefix)
       (simp_all add: createRemoteIdRecord_remoteIds refreshLocalRecord_keeps deleteById_job_keeps)
  with True show ?thesis by (simp add: settle_def)
next
  case False
  then show ?thesis by (simp add: settle_def deleteById_job_keeps)
qed

lemma runJob_resolved_jobs:
  assumes "runJob env j s = (Resolved (), s')"
  shows "jobs s' = filter (\<lambda>r. job_id j \<noteq> job_id r) (jobs s) \<and> db_jobs s' = jobs s'"
proof (cases rule: runJob_cases [of env s j])
  case (settled rcd c payload)
  with assms have "settle env j rcd payload (s\<lparr>calls := calls s @ [c]\<rparr>) = (Resolved (), s')"
    by simp
  from settle_resolved_jobs [OF this] show ?thesis by simp
qed (use assms in simp_all)

lemma runJob_remoteIds: "prefix (remoteIdRecords s) (remoteIdRecords (snd (runJob env j s)))"
proof (cases rule: runJob_cases [of env s j])
  case (settled rcd c payload)
  with settle_remoteIds [of "s\<lparr>calls := calls s @ [c]\<rparr>" env j rcd payload]
  show ?thesis by simp
qed simp_all

lemma runJob_segment:
  "(calls (snd (runJob env j s)) = calls s \<and> (\<exists>e. fst (runJob env j s) = Rejected e))
   \<or> (\<exists>seg. calls (snd (runJob env j s)) = calls s @ seg
        \<and> replaySegment (rebuiltFrom env) dispatchOf j seg)"
proof (cases rule: runJob_cases [of env s j])
  case (rejected rcd c e)
  then have "calls (snd (runJob env j s)) = calls s @ [c]
      \<and> replaySegment (rebuiltFrom env) dispatchOf j [c]"
    by (auto simp: replaySegment_def rebuiltFrom_def)
  then show ?thesis by blast
next
  case (settled rcd c payload)
  from settle_storageOnly [of "s\<lparr>calls := calls s @ [c]\<rparr>" env j rcd payload]
  obtain rest where "calls (snd (settle env j rcd payload (s\<lparr>calls := calls s @ [c]\<rparr>))) =
      (calls s @ [c]) @ rest" "\<forall>x \<in> set rest. \<not> isAdapterCall x"
    by (auto simp: storageOnly_def)
  with settled have "calls (snd (runJob env j s)) = calls s @ (c # rest) \<and>
      replaySegment (rebuiltFrom env) dispatchOf j (c # rest)"
    by (auto simp: replaySegment_def rebuiltFrom_def)
  then show ?thesis by blast
qed simp_all

section \<open>The chain of jobs\<close>

lemma reduceJobs_resolved_jobs:
  assumes step: "\<And>j s s'. run j s = (Resolved (), s') \<Longrightarrow>
      jobs s' = filter (\<lambda>r. job_id j \<noteq> job_id r) (jobs s) \<and> db_jobs s' = jobs s'"
    and chain: "reduceJobs run js s = (Resolved (), s')"
  shows "jobs s' = filter (\<lambda>r. job_id r \<notin> job_id ` set js) (jobs s)
    \<and> (js \<noteq> [] \<longrightarrow> db_jobs s' = jobs s')"
  using chain
proof (induction js arbitrary: s)
  case Nil
  then show ?case by simp
next
  case (Cons j js)
  obtain p s1 where r: "run j s = (p, s1)" by (cases "run j s")
  with Cons.prems have p: "p = Resolved ()" and rest: "reduceJobs run js s1 = (Resolved (), s')"
    by (auto simp: reduceJobs_Cons split: promise.splits)
  from step r p have j: "jobs s1 = filter (\<lambda>r. job_id j \<noteq> job_id r) (jobs s)"
    "db_jobs s1 = jobs s1" by auto
  from Cons.IH [OF rest] have ih: "jobs s' = filter (\<lambda>r. job_id r \<notin> job_id ` set js) (jobs s1)"
    "js \<noteq> [] \<longrightarrow> db_jobs s' = jobs s'" by auto
  from ih(1) j(1) have "jobs s' = filter (\<lambda>r. job_id r \<notin> job_id ` set (j # js)) (jobs s)"
    by (auto intro: filter_cong)
  moreover have "db_jobs s' = jobs s'"
  proof (cases "js = []")
    case True
    with rest j(2) show ?thesis by simp
  next
    case False
    with ih(2) show ?thesis by simp
  qed
  ultimately show ?case by simp
qed

lemma reduceJobs_prefix:
  assumes step: "\<And>j s. prefix (g s) (g (snd (run j s)))"
  shows "prefix (g s) (g (snd (reduceJobs run js s)))"
proof (induction js arbitrary: s)
  case Nil
  show ?case by simp
next
  case (Cons j js)
  obtain p s1 where r: "run j s = (p, s1)" by (cases "run j s")
  from step [where j = j and s = s] r have 1: "prefix (g s) (g s1)" by simp
  show ?case
  proof (cases p)
    case (Resolved u)
    with r have "reduceJobs run (j # js) s = reduceJobs run js s1" by (simp add: reduceJobs_Cons)
    with Cons.IH [of s1] 1 show ?thesis by (auto intro: prefix_order.trans)
  next
    case (Rejected e)
    with r 1 show ?thesis by (simp add: reduceJobs_Cons)
  qed
qed

lemma reduceJobs_segments:
  assumes step: "\<And>j s. (calls (snd (run j s)) = calls s \<and> (\<exists>e. fst (run j s) = Rejected e))
      \<or> (\<exists>seg. calls (snd (run j s)) = calls s @ seg \<and> P j seg)"
  shows "\<exists>n segs. n \<le> length js \<and> list_all2 (P) (take n js) segs
      \<and> calls (snd (reduceJobs run js s)) = calls s @ concat segs
      \<and> (fst (reduceJobs run js s) = Resolved () \<longrightarrow> n = length js)"
proof (induction js arbitrary: s)
  case Nil
  have "0 \<le> length ([]::job list) \<and> list_all2 (P) (take 0 []) []
      \<and> calls (snd (reduceJobs run [] s)) = calls s @ concat []
      \<and> (fst (reduceJobs run [] s) = Resolved () \<longrightarrow> 0 = length ([]::job list))" by simp
  then show ?case by blast
next
  case (Cons j js)
  obtain p s1 where r: "run j s = (p, s1)" by (cases "run j s")
  from step [where j = j and s = s] r consider
      (none) e where "calls s1 = calls s" "p = Rejected e"
    | (seg) seg where "calls s1 = calls s @ seg" "P j seg"
    by auto
  then show ?case
  proof cases
    case none
    with r have "0 \<le> length (j # js) \<and> list_all2 (P) (take 0 (j # js)) []
        \<and> calls (snd (reduceJobs run (j # js) s)) = calls s @ concat []
        \<and> (fst (reduceJobs run (j # js) s) = Resolved () \<longrightarrow> 0 = length (j # js))"
      by (simp add: reduceJobs_Cons)
    then show ?thesis by blast
  next
    case seg
    show ?thesis
    proof (cases p)
      case (Rejected e)
      with r seg have "Suc 0 \<le> length (j # js)
          \<and> list_all2 (P) (take (Suc 0) (j # js)) [seg]
          \<and> calls (snd (reduceJobs run (j # js) s)) = calls s @ concat [seg]
          \<and> (fst (reduceJobs run (j # js) s) = Resolved () \<longrightarrow> Suc 0 = length (j # js))"
        by (simp add: reduceJobs_Cons)
      then show ?thesis by blast
    next
      case (Resolved u)
      from Cons.IH [of s1] obtain n segs where ih: "n \<le> length js"
        "list_all2 (P) (take n js) segs"
        "calls (snd (reduceJobs run js s1)) = calls s1 @ concat segs"
        "fst (reduceJobs run js s1) = Resolved () \<longrightarrow> n = length js" by blast
      from r Resolved have "reduceJobs run (j # js) s = reduceJobs run js s1"
        by (simp add: reduceJobs_Cons)
      with ih seg have "Suc n \<le> length (j # js)
          \<and> list_all2 (P) (take (Suc n) (j # js)) (seg # segs)
          \<and> calls (snd (reduceJobs run (j # js) s)) = calls s @ concat (seg # segs)
          \<and> (fst (reduceJobs run (j # js) s) = Resolved () \<longrightarrow> Suc n = length (j # js))"
        by simp
      then show ?thesis by blast
    qed
  qed
qed

lemma reduceJobs_replayInOrder: "reduceJobs run js s = replayInOrder run js s"
proof (induction js arbitrary: s)
  case Nil
  show ?case by simp
next
  case (Cons j js)
  show ?case
    by (cases "run j s"; cases "fst (run j s)") (auto simp: reduceJobs_Cons Cons.IH)
qed

lemma sortBy_set [simp]: "set (sortBy key xs) = set xs"
  by (simp add: sortBy_def)

lemma sortBy_length [simp]: "length (sortBy key xs) = length xs"
  by (simp add: sortBy_def)

lemma distinct_map_sortBy: "distinct (map g (sortBy key xs)) = distinct (map g xs)"
  by (simp add: sortBy_def distinct_map)

lemma runAllJobs_halts:
  assumes sorted: "sortBy createdAt (jobs s) = pre @ j # post"
    and pre: "reduceJobs (runJob env) pre (logger ''info'' ''Syncing started.'' s) = (Resolved (), s1)"
    and rcd: "createRecordFromJob env s1 j = Inr rcd"
    and disp: "dispatchOf j rcd = Some c"
    and rej: "remoteResponse env (calls s1) c = Inl e"
  shows "runAllJobs env s =
    (if isOffline e
     then (Resolved (), logger ''info'' ''Can not connect to server, stop syncing''
             (s1\<lparr>calls := calls s1 @ [c]\<rparr>))
     else (case handleSyncUpError env of
             Some handler \<Rightarrow> (handler e, s1\<lparr>calls := calls s1 @ [c]\<rparr>)
           | None \<Rightarrow> (Rejected e, s1\<lparr>calls := calls s1 @ [c]\<rparr>)))"
proof -
  from sorted have ne: "length (jobs s) \<noteq> 0"
    by (metis sortBy_length length_0_conv Nil_is_append_conv list.distinct(1))
  from runJob_remote_rejects [OF rcd disp rej]
  have "reduceJobs (runJob env) (j # post) s1 = (Rejected e, s1\<lparr>calls := calls s1 @ [c]\<rparr>)"
    by (simp add: reduceJobs_Cons)
  with pre sorted have "reduceJobs (runJob env) (sortBy createdAt (jobs s))
      (logger ''info'' ''Syncing started.'' s) = (Rejected e, s1\<lparr>calls := calls s1 @ [c]\<rparr>)"
    by (simp add: reduceJobs_append)
  with ne show ?thesis by (simp add: runAllJobs_def)
qed

lemma remaining_jobs_queued_run:
  assumes step: "\<And>j s s'. run j s = (Resolved (), s') \<Longrightarrow>
      jobs s' = filter (\<lambda>r. job_id j \<noteq> job_id r) (jobs s) \<and> db_jobs s' = jobs s'"
    and sorted: "sortBy createdAt (jobs s) = pre @ post"
    and pre: "reduceJobs run pre (logger l m s) = (Resolved (), s1)"
    and ids: "distinct (map job_id (jobs s))"
  shows "set post \<subseteq> set (jobs s1)"
proof
  fix x assume x: "x \<in> set post"
  from ids have "distinct (map job_id (sortBy createdAt (jobs s)))"
    by (simp add: distinct_map_sortBy)
  with sorted have "distinct (map job_id (pre @ post))" by simp
  with x have nid: "job_id x \<notin> job_id ` set pre" by auto
  from x sorted have "x \<in> set (jobs s)"
    by (metis sortBy_set Un_iff set_append)
  moreover from reduceJobs_resolved_jobs [of run pre "logger l m s" s1] pre step
  have "jobs s1 = filter (\<lambda>r. job_id r \<notin> job_id ` set pre) (jobs s)"
    by (simp add: logger_def)
  ultimately show "x \<in> set (jobs s1)" using nid by simp
qed

section \<open>One job: \<^verbatim>\<open>runJob\<close> of part_001\<close>

lemma catch_p_frame:
  assumes "R s (snd m)" and "\<And>e s1. R s1 (snd (h e s1))"
    and "\<And>a b c. R a b \<Longrightarrow> R b c \<Longrightarrow> R a c"
  shows "R s (snd (catch_p m h))"
proof (cases m)
  case (Pair p s1)
  show ?thesis
  proof (cases p)
    case (Resolved v)
    with Pair assms(1) show ?thesis by simp
  next
    case (Rejected e)
    with Pair assms(1) assms(2) [of s1 e] assms(3) show ?thesis by auto
  qed
qed

lemma catch_p_storageOnly:
  assumes "storageOnly s (snd m)" and "\<And>e s1. storageOnly s1 (snd (h e s1))"
  shows "storageOnly s (snd (catch_p m h))"
  using assms(1) assms(2) storageOnly_trans
  by (rule catch_p_frame [where R = storageOnly])

lemma catch_p_keeps:
  assumes "g (snd m) = g s" and "\<And>e s1. g (snd (h e s1)) = g s1"
  shows "g (snd (catch_p m h)) = g s"
  using assms by (cases m; cases "fst m") (auto simp: catch_p_def split: promise.splits)

lemma catch_p_prefix:
  assumes "prefix (g s) (g (snd m))" and "\<And>e s1. prefix (g s1) (g (snd (h e s1)))"
  shows "prefix (g s) (g (snd (catch_p m h)))"
  using assms(1) assms(2) prefix_order.trans
  by (rule catch_p_frame [where R = "\<lambda>a b. prefix (g a) (g b)"])

lemma catchCreateError_state [simp]: "snd (catchCreateError env e s) = s"
  by (simp add: catchCreateError_def split: option.splits)

lemma refreshLocalRecord_p1_eq: "refreshLocalRecord_p1 = refreshLocalRecord"
proof -
  have "createRecordInLocalAdapter env tn r = local_createRecord env tn r" for env tn r
    by (rule ext) (simp add: createRecordInLocalAdapter_def)
  then show ?thesis
    by (intro ext) (simp add: refreshLocalRecord_p1_def refreshLocalRecord_def)
qed

lemma logsOnly_refl: "logsOnly s s"
  by (auto simp: logsOnly_def intro: exI [of _ "[]"])

lemma logsOnly_logger: "logsOnly s (logger level msg s)"
  by (auto simp: logsOnly_def logger_def)

lemma logsOnly_trans: "logsOnly a b \<Longrightarrow> logsOnly b c \<Longrightarrow> logsOnly a c"
  by (auto simp: logsOnly_def)

lemma logsOnly_fields:
  assumes "logsOnly s s'"
  shows "calls s' = calls s" "jobs s' = jobs s" "db_jobs s' = db_jobs s"
    "remoteIdRecords s' = remoteIdRecords s" "db_remoteIdRecords s' = db_remoteIdRecords s"
    "localRecords s' = localRecords s"
  using assms by (auto simp: logsOnly_def)

lemma getRemoteId_p1_logsOnly: "logsOnly s (snd (getRemoteId_p1 tn i s))"
  by (simp add: getRemoteId_p1_def logsOnly_refl logsOnly_logger split: option.splits)

lemma getRemoteId_p1_fst:
  "fst (getRemoteId_p1 tn i s) =
     (case i of
        None \<Rightarrow> Inl (Thrown ''TypeError: Cannot read property indexOf of null'')
      | Some x \<Rightarrow> getRemoteId (remoteIdRecords s) tn (Some x))"
  by (simp add: getRemoteId_p1_def getRemoteId_def logger_def split: option.splits)

lemma getRemoteId_p1_same:
  "logsOnly s s' \<Longrightarrow>
   (\<lambda>tn i. fst (getRemoteId_p1 tn i s')) = (\<lambda>tn i. fst (getRemoteId_p1 tn i s))"
  by (intro ext) (simp add: getRemoteId_p1_fst logsOnly_fields split: option.splits)

lemma mapResolve_p1_pure:
  "fst (mapResolve_p1 tn is s) = mapResolve (\<lambda>tn i. fst (getRemoteId_p1 tn i s)) tn is
   \<and> logsOnly s (snd (mapResolve_p1 tn is s))"
proof (induction "is" arbitrary: s)
  case Nil
  show ?case by (simp add: logsOnly_refl)
next
  case (Cons i rest)
  obtain r s1 where g: "getRemoteId_p1 tn i s = (r, s1)" by (cases "getRemoteId_p1 tn i s")
  with getRemoteId_p1_logsOnly [of s tn i] have l: "logsOnly s s1" by simp
  from Cons.IH [of s1] getRemoteId_p1_same [OF l]
  have ih: "fst (mapResolve_p1 tn rest s1) = mapResolve (\<lambda>tn i. fst (getRemoteId_p1 tn i s)) tn rest"
    and l2: "logsOnly s1 (snd (mapResolve_p1 tn rest s1))" by simp_all
  from l l2 have l3: "logsOnly s (snd (mapResolve_p1 tn rest s1))" by (rule logsOnly_trans)
  show ?case
  proof (cases r)
    case (Inl e)
    with g l show ?thesis by simp
  next
    case (Inr x)
    with g ih l3 show ?thesis
      by (cases "mapResolve_p1 tn rest s1"; cases "fst (mapResolve_p1 tn rest s1)") auto
  qed
qed

lemma addRelationshipToRecord_p1_pure:
  "fst (addRelationshipToRecord_p1 d jr rcd s) =
     addRelationshipToRecord (\<lambda>tn i. fst (getRemoteId_p1 tn i s)) d jr rcd
   \<and> logsOnly s (snd (addRelationshipToRecord_p1 d jr rcd s))"
proof -
  have b: "fst (case getRemoteId_p1 tn i s of
                  (Inl e, s1) \<Rightarrow> (Inl e, s1)
                | (Inr x, s1) \<Rightarrow> (Inr (f x), s1)) =
      (case fst (getRemoteId_p1 tn i s) of Inl e \<Rightarrow> Inl e | Inr x \<Rightarrow> Inr (f x))
    \<and> logsOnly s (snd (case getRemoteId_p1 tn i s of
                  (Inl e, s1) \<Rightarrow> (Inl e, s1)
                | (Inr x, s1) \<Rightarrow> (Inr (f x), s1)))" for tn i and f :: "jsid \<Rightarrow> rawRecord"
    using getRemoteId_p1_logsOnly [of s tn i]
    by (cases "getRemoteId_p1 tn i s"; cases "fst (getRemoteId_p1 tn i s)") auto
  have m: "fst (case mapResolve_p1 tn is s of
                  (Inl e, s1) \<Rightarrow> (Inl e, s1)
                | (Inr x, s1) \<Rightarrow> (Inr (f x), s1)) =
      (case mapResolve (\<lambda>tn i. fst (getRemoteId_p1 tn i s)) tn is of Inl e \<Rightarrow> Inl e | Inr x \<Rightarrow> Inr (f x))
    \<and> logsOnly s (snd (case mapResolve_p1 tn is s of
                  (Inl e, s1) \<Rightarrow> (Inl e, s1)
                | (Inr x, s1) \<Rightarrow> (Inr (f x), s1)))" for tn "is" and f :: "jsid list \<Rightarrow> rawRecord"
    using mapResolve_p1_pure [of tn "is" s]
    by (cases "mapResolve_p1 tn is s"; cases "fst (mapResolve_p1 tn is s)") auto
  show ?thesis
    unfolding addRelationshipToRecord_p1_def addRelationshipToRecord_def
    by (simp add: b m logsOnly_refl split: option.splits jsval.splits relKind.splits)
qed

lemma eachRelationship_p1_pure:
  "fst (eachRelationship_p1 ds jr rcd s) =
     eachRelationship (\<lambda>tn i. fst (getRemoteId_p1 tn i s)) ds jr rcd
   \<and> logsOnly s (snd (eachRelationship_p1 ds jr rcd s))"
proof (induction ds arbitrary: rcd s)
  case Nil
  show ?case by (simp add: logsOnly_refl)
next
  case (Cons d ds)
  obtain r s1 where a: "addRelationshipToRecord_p1 d jr rcd s = (r, s1)"
    by (cases "addRelationshipToRecord_p1 d jr rcd s")
  with addRelationshipToRecord_p1_pure [of d jr rcd s]
  have r: "r = addRelationshipToRecord (\<lambda>tn i. fst (getRemoteId_p1 tn i s)) d jr rcd"
    and l: "logsOnly s s1" by simp_all
  show ?case
  proof (cases r)
    case (Inl e)
    with a r [symmetric] l show ?thesis by simp
  next
    case (Inr rcd1)
    from Cons.IH [of rcd1 s1] getRemoteId_p1_same [OF l]
    have "fst (eachRelationship_p1 ds jr rcd1 s1) =
        eachRelationship (\<lambda>tn i. fst (getRemoteId_p1 tn i s)) ds jr rcd1"
      and "logsOnly s1 (snd (eachRelationship_p1 ds jr rcd1 s1))" by simp_all
    with a r [symmetric] l Inr show ?thesis by (auto intro: logsOnly_trans)
  qed
qed

lemma createRecordFromJob_p1_pure:
  "fst (createRecordFromJob_p1 env j s) =
     createRecordFromJob_with (\<lambda>tn i. fst (getRemoteId_p1 tn i s)) env j
   \<and> logsOnly s (snd (createRecordFromJob_p1 env j s))"
proof -
  obtain r s1 where g: "getRemoteId_p1 (typeName j) (rec_id (jobRecord j)) s = (r, s1)"
    by (cases "getRemoteId_p1 (typeName j) (rec_id (jobRecord j)) s")
  with getRemoteId_p1_logsOnly [of s "typeName j" "rec_id (jobRecord j)"]
  have l: "logsOnly s s1" by simp
  show ?thesis
  proof (cases r)
    case (Inl e)
    with g l show ?thesis by (simp add: createRecordFromJob_p1_def createRecordFromJob_with_def)
  next
    case (Inr i)
    from eachRelationship_p1_pure
      [of "relationshipsOf env (typeName j)" "jobRecord j" "\<lparr>rec_id = i, rec_data = rec_data (jobRecord j)\<rparr>" s1]
      getRemoteId_p1_same [OF l] l g Inr
    show ?thesis
      by (auto simp: createRecordFromJob_p1_def createRecordFromJob_with_def intro: logsOnly_trans)
  qed
qed

lemma createRecordFromJob_p1_logsOnly:
  "createRecordFromJob_p1 env j s = (r, s0) \<Longrightarrow> logsOnly s s0"
  using createRecordFromJob_p1_pure [of env j s] by simp

lemma runJob_p1_throws:
  "createRecordFromJob_p1 env j s = (Inl e, s0) \<Longrightarrow> runJob_p1 env j s = (Rejected e, s0)"
  by (simp add: runJob_p1_def)

lemma runJob_p1_unknown_operation:
  "createRecordFromJob_p1 env j s = (Inr rcd, s0) \<Longrightarrow> dispatchOf_p1 j rcd = None \<Longrightarrow>
   runJob_p1 env j s = (Rejected (Thrown ''TypeError: Cannot read property then of undefined''), s0)"
  by (simp add: runJob_p1_def dispatchOf_p1_def split: if_splits)

lemma runJob_p1_remote_rejects:
  "createRecordFromJob_p1 env j s = (Inr rcd, s0) \<Longrightarrow> dispatchOf_p1 j rcd = Some c \<Longrightarrow>
   remoteResponse env (calls s0) c = Inl e \<Longrightarrow>
   runJob_p1 env j s =
     (if operation j = ''create''
      then then_p (catchCreateError env e (s0\<lparr>calls := calls s0 @ [c]\<rparr>))
             (\<lambda>_. deleteById_job env (job_id j))
      else (Rejected e, s0\<lparr>calls := calls s0 @ [c]\<rparr>))"
  by (auto simp: runJob_p1_def dispatchOf_p1_def remoteCRUD_def split: if_splits)

lemma runJob_p1_remote_resolves:
  "createRecordFromJob_p1 env j s = (Inr rcd, s0) \<Longrightarrow> dispatchOf_p1 j rcd = Some c \<Longrightarrow>
   remoteResponse env (calls s0) c = Inr payload \<Longrightarrow>
   runJob_p1 env j s = settle_p1 env j rcd payload (s0\<lparr>calls := calls s0 @ [c]\<rparr>)"
  by (auto simp: runJob_p1_def dispatchOf_p1_def remoteCRUD_def settle_p1_def updateIdInStore_def
      split: if_splits)

lemma runJob_p1_cases:
  obtains
    (throws) e s0 where "createRecordFromJob_p1 env j s = (Inl e, s0)" "logsOnly s s0"
      "runJob_p1 env j s = (Rejected e, s0)"
  | (unknown) rcd s0 where "createRecordFromJob_p1 env j s = (Inr rcd, s0)" "logsOnly s s0"
      "dispatchOf_p1 j rcd = None"
      "runJob_p1 env j s = (Rejected (Thrown ''TypeError: Cannot read property then of undefined''), s0)"
  | (rejected) rcd s0 c e where "createRecordFromJob_p1 env j s = (Inr rcd, s0)" "logsOnly s s0"
      "dispatchOf_p1 j rcd = Some c" "remoteResponse env (calls s0) c = Inl e"
      "runJob_p1 env j s =
        (if operation j = ''create''
         then then_p (catchCreateError env e (s0\<lparr>calls := calls s0 @ [c]\<rparr>))
                (\<lambda>_. deleteById_job env (job_id j))
         else (Rejected e, s0\<lparr>calls := calls s0 @ [c]\<rparr>))"
  | (settled) rcd s0 c payload where "createRecordFromJob_p1 env j s = (Inr rcd, s0)" "logsOnly s s0"
      "dispatchOf_p1 j rcd = Some c" "remoteResponse env (calls s0) c = Inr payload"
      "runJob_p1 env j s = settle_p1 env j rcd payload (s0\<lparr>calls := calls s0 @ [c]\<rparr>)"
proof -
  obtain r s0 where b: "createRecordFromJob_p1 env j s = (r, s0)"
    by (cases "createRecordFromJob_p1 env j s")
  then have l: "logsOnly s s0" by (rule createRecordFromJob_p1_logsOnly)
  show ?thesis
  proof (cases r)
    case (Inl e)
    with b l show ?thesis using runJob_p1_throws that(1) by blast
  next
    case (Inr rcd)
    show ?thesis
    proof (cases "dispatchOf_p1 j rcd")
      case None
      with b l Inr show ?thesis using runJob_p1_unknown_operation that(2) by blast
    next
      case (Some c)
      show ?thesis
      proof (cases "remoteResponse env (calls s0) c")
        case (Inl e)
        with b l Inr Some show ?thesis using runJob_p1_remote_rejects that(3) by blast
      next
        case r: (Inr payload)
        with b l Inr Some show ?thesis using runJob_p1_remote_resolves that(4) by blast
      qed
    qed
  qed
qed

lemma caught_storageOnly:
  "storageOnly s (snd (then_p (catchCreateError env e s) (\<lambda>_. deleteById_job env i)))"
  by (intro then_p_storageOnly deleteById_job_storageOnly) (simp add: storageOnly_refl)

lemma settle_p1_storageOnly: "storageOnly s (snd (settle_p1 env j record payload s))"
proof (cases "operation j = ''create''")
  case True
  have "storageOnly s (snd (then_p
          (catch_p
             (then_p (createRemoteIdRecord env (typeName j) (rec_id record) payload s)
                (refreshLocalRecord_p1 env (typeName j) (rec_id record) record))
             (catchCreateError env))
          (\<lambda>_. deleteById_job env (job_id j))))"
    unfolding refreshLocalRecord_p1_eq
    by (intro then_p_storageOnly catch_p_storageOnly createRemoteIdRecord_storageOnly
        refreshLocalRecord_storageOnly deleteById_job_storageOnly)
       (simp add: storageOnly_refl)
  with True show ?thesis by (simp add: settle_p1_def)
next
  case False
  then show ?thesis by (simp add: settle_p1_def deleteById_job_storageOnly)
qed

lemma runJob_p1_segment:
  "(calls (snd (runJob_p1 env j s)) = calls s \<and> (\<exists>e. fst (runJob_p1 env j s) = Rejected e))
   \<or> (\<exists>seg. calls (snd (runJob_p1 env j s)) = calls s @ seg
        \<and> replaySegment (rebuiltFrom_p1 env) dispatchOf_p1 j seg)"
proof (cases rule: runJob_p1_cases [of env j s])
  case (throws e s0)
  then show ?thesis by (simp add: logsOnly_fields)
next
  case (unknown rcd s0)
  then show ?thesis by (simp add: logsOnly_fields)
next
  case (rejected rcd s0 c e)
  let ?s = "s0\<lparr>calls := calls s0 @ [c]\<rparr>"
  have "storageOnly ?s (snd (runJob_p1 env j s))"
    using rejected(5) caught_storageOnly [of ?s env e "job_id j"]
    by (simp add: storageOnly_refl split: if_splits)
  then obtain rest where "calls (snd (runJob_p1 env j s)) = (calls s0 @ [c]) @ rest"
    "\<forall>x \<in> set rest. \<not> isAdapterCall x"
    by (auto simp: storageOnly_def)
  moreover from rejected(1) have "rebuiltFrom_p1 env j rcd"
    by (auto simp: rebuiltFrom_p1_def intro: exI [of _ s])
  ultimately have "calls (snd (runJob_p1 env j s)) = calls s @ (c # rest) \<and>
      replaySegment (rebuiltFrom_p1 env) dispatchOf_p1 j (c # rest)"
    using rejected(2,3) by (auto simp: replaySegment_def logsOnly_fields)
  then show ?thesis by blast
next
  case (settled rcd s0 c payload)
  from settle_p1_storageOnly [of "s0\<lparr>calls := calls s0 @ [c]\<rparr>" env j rcd payload]
  obtain rest where "calls (snd (settle_p1 env j rcd payload (s0\<lparr>calls := calls s0 @ [c]\<rparr>))) =
      (calls s0 @ [c]) @ rest" "\<forall>x \<in> set rest. \<not> isAdapterCall x"
    by (auto simp: storageOnly_def)
  moreover from settled(1) have "rebuiltFrom_p1 env j rcd"
    by (auto simp: rebuiltFrom_p1_def intro: exI [of _ s])
  ultimately have "calls (snd (runJob_p1 env j s)) = calls s @ (c # rest) \<and>
      replaySegment (rebuiltFrom_p1 env) dispatchOf_p1 j (c # rest)"
    using settled(2,3,5) by (auto simp: replaySegment_def logsOnly_fields)
  then show ?thesis by blast
qed

lemma caught_resolved_jobs:
  assumes "then_p (catch_p m (catchCreateError env)) (\<lambda>_. deleteById_job env i) = (Resolved (), s')"
    and "jobs (snd m) = jobs (s::state)"
  shows "jobs s' = filter (\<lambda>r. i \<noteq> job_id r) (jobs s) \<and> db_jobs s' = jobs s'"
proof -
  have k: "jobs (snd (catch_p m (catchCreateError env))) = jobs s"
    by (rule catch_p_keeps [where g = jobs]) (simp_all add: assms(2))
  from assms(1) obtain u s1 where m: "catch_p m (catchCreateError env) = (Resolved u, s1)"
    and d: "deleteById_job env i s1 = (Resolved (), s')"
    by (rule then_p_resolved)
  from k m have "jobs s1 = jobs s" by simp
  with deleteById_job_resolved [OF d] show ?thesis by simp
qed

lemma settle_p1_resolved_jobs:
  assumes "settle_p1 env j record payload s = (Resolved (), s')"
  shows "jobs s' = filter (\<lambda>r. job_id j \<noteq> job_id r) (jobs s) \<and> db_jobs s' = jobs s'"
proof (cases "operation j = ''create''")
  case True
  let ?m = "then_p (createRemoteIdRecord env (typeName j) (rec_id record) payload s)
      (refreshLocalRecord_p1 env (typeName j) (rec_id record) record)"
  have k: "jobs (snd ?m) = jobs s"
    by (simp add: then_p_keeps createRemoteIdRecord_keeps_jobs refreshLocalRecord_keeps
        refreshLocalRecord_p1_eq)
  from assms True
  have "then_p (catch_p ?m (catchCreateError env)) (\<lambda>_. deleteById_job env (job_id j)) =
      (Resolved (), s')"
    by (simp add: settle_p1_def)
  from caught_resolved_jobs [OF this k] show ?thesis .
next
  case False
  with assms have "deleteById_job env (job_id j) s = (Resolved (), s')" by (simp add: settle_p1_def)
  then show ?thesis by (rule deleteById_job_resolved)
qed

lemma runJob_p1_resolved_jobs:
  assumes "runJob_p1 env j s = (Resolved (), s')"
  shows "jobs s' = filter (\<lambda>r. job_id j \<noteq> job_id r) (jobs s) \<and> db_jobs s' = jobs s'"
proof (cases rule: runJob_p1_cases [of env j s])
  case (rejected rcd s0 c e)
  let ?s = "s0\<lparr>calls := calls s0 @ [c]\<rparr>"
  from rejected(5) assms have c: "operation j = ''create''" by (auto split: if_splits)
  with rejected(5) assms
  have "then_p (catch_p (Rejected e, ?s) (catchCreateError env))
      (\<lambda>_. deleteById_job env (job_id j)) = (Resolved (), s')" by simp
  from caught_resolved_jobs [OF this, of s0] rejected(2) show ?thesis
    by (simp add: logsOnly_fields)
next
  case (settled rcd s0 c payload)
  with assms have "settle_p1 env j rcd payload (s0\<lparr>calls := calls s0 @ [c]\<rparr>) = (Resolved (), s')"
    by simp
  from settle_p1_resolved_jobs [OF this] settled(2) show ?thesis by (simp add: logsOnly_fields)
qed (use assms in simp_all)

lemma runJob_p1_propagates:
  assumes rcd: "createRecordFromJob_p1 env j s = (Inr rcd, s0)"
    and disp: "dispatchOf_p1 j rcd = Some c"
    and rej: "remoteResponse env (calls s) c = Inl e"
    and unhandled: "operation j \<noteq> ''create'' \<or> isOffline_util (statusOf e) \<or> syncErrorHandler env = None"
  shows "runJob_p1 env j s = (Rejected e, s0\<lparr>calls := calls s0 @ [c]\<rparr>)"
proof -
  from createRecordFromJob_p1_logsOnly [OF rcd] rej
  have "remoteResponse env (calls s0) c = Inl e" by (simp add: logsOnly_fields)
  from unhandled runJob_p1_remote_rejects [OF rcd disp this] show ?thesis
    by (auto simp: catchCreateError_def)
qed

lemma runJob_p1_handled:
  assumes rcd: "createRecordFromJob_p1 env j s = (Inr rcd, s0)"
    and disp: "dispatchOf_p1 j rcd = Some c"
    and rej: "remoteResponse env (calls s) c = Inl e"
    and cr: "operation j = ''create''" and on: "\<not> isOffline_util (statusOf e)"
    and h: "syncErrorHandler env = Some handler" "handler e = Resolved ()"
  shows "runJob_p1 env j s = deleteById_job env (job_id j) (s0\<lparr>calls := calls s0 @ [c]\<rparr>)"
proof -
  from createRecordFromJob_p1_logsOnly [OF rcd] rej
  have "remoteResponse env (calls s0) c = Inl e" by (simp add: logsOnly_fields)
  from cr on h runJob_p1_remote_rejects [OF rcd disp this] show ?thesis
    by (simp add: catchCreateError_def)
qed

lemma runAllJobs_p1_halts:
  assumes sorted: "sortBy createdAt (jobs s) = pre @ j # post"
    and pre: "reduceJobs (runJob_p1 env) pre (logger ''info'' ''Syncing started.'' s) = (Resolved (), s1)"
    and rcd: "createRecordFromJob_p1 env j s1 = (Inr rcd, s2)"
    and disp: "dispatchOf_p1 j rcd = Some c"
    and rej: "remoteResponse env (calls s1) c = Inl e"
    and unhandled: "operation j \<noteq> ''create'' \<or> isOffline_util (statusOf e) \<or> syncErrorHandler env = None"
  shows "runAllJobs_p1 env s =
    (if isOffline_util (statusOf e)
     then (Resolved (), logger ''info'' ''Can not connect to server, stop syncing''
             (s2\<lparr>calls := calls s2 @ [c]\<rparr>))
     else if e = Reason ''clear'' then deleteAll_job env (s2\<lparr>calls := calls s2 @ [c]\<rparr>)
     else (Rejected e, s2\<lparr>calls := calls s2 @ [c]\<rparr>))"
proof -
  from sorted have ne: "length (jobs s) \<noteq> 0"
    by (metis sortBy_length length_0_conv Nil_is_append_conv list.distinct(1))
  from runJob_p1_propagates [OF rcd disp rej unhandled]
  have "reduceJobs (runJob_p1 env) (j # post) s1 = (Rejected e, s2\<lparr>calls := calls s2 @ [c]\<rparr>)"
    by (simp add: reduceJobs_Cons)
  with pre sorted have "reduceJobs (runJob_p1 env) (sortBy createdAt (jobs s))
      (logger ''info'' ''Syncing started.'' s) = (Rejected e, s2\<lparr>calls := calls s2 @ [c]\<rparr>)"
    by (simp add: reduceJobs_append)
  with ne show ?thesis by (simp add: runAllJobs_p1_def)
qed

section \<open>Evaluating the scenarios\<close>

lemmas eval_defs =
  syncUp_def runAllJobs_def reduceJobs_def runJob_def createRecordFromJob_def
  createRecordFromJob_with_def getRemoteId_def isRemoteId_prefix sortBy_def
  remoteCRUD_def deleteById_job_def saveAll_job_def storageCall_def updateIdInStore_def
  createRemoteIdRecord_def refreshLocalRecord_def create_remoteIdRecord_def
  saveAll_remoteIdRecord_def deleteAll_remoteIdRecord_def local_deleteRecord_def
  local_createRecord_def logger_def isOffline_def dispatchOf_def

lemmas eval_p1_defs =
  syncUp_p1_def runAllJobs_p1_def reduceJobs_def runJob_p1_def createRecordFromJob_p1_def
  getRemoteId_p1_def truthyId_def isRemoteId_prefix sortBy_def
  remoteCRUD_def deleteById_job_def saveAll_job_def storageCall_def updateIdInStore_def
  createRemoteIdRecord_def refreshLocalRecord_p1_def createRecordInLocalAdapter_def
  create_remoteIdRecord_def saveAll_remoteIdRecord_def deleteAll_remoteIdRecord_def
  deleteAll_job_def local_deleteRecord_def local_createRecord_def logger_def
  isOffline_util_def statusOf_def catchCreateError_def dispatchOf_p1_def

lemmas ex_defs =
  ex_env_def ex_state_def ex_jobA_def ex_jobB_def ex_jobC_def ex_jobA_p1_def ex_jobB_p1_def
  ex_jobC_p1_def ex_reject_422_def ex_offline_on_delete_def ex_handler_resolves_def

section \<open>C1: does \<^verbatim>\<open>syncUp\<close> always resolve\<close>

lemma syncUp_p1_always_resolves: "fst (syncUp_p1 env s) = Resolved ()"
  by (cases "runAllJobs_p1 env s"; cases "fst (runAllJobs_p1 env s)")
     (auto simp: syncUp_p1_def catch_p_def split: promise.splits)

text \<open>
  C1 holds for \<^verbatim>\<open>syncUp\<close> of part_001 (the lemma above) and fails for \<^verbatim>\<open>syncUp\<close> of
  \<^verbatim>\<open>addon/syncer.js\<close>, which returns the promise of \<^verbatim>\<open>runAllJobs\<close> as it is: with
  one queued update whose remote call is rejected with status 422 and no
  \<^verbatim>\<open>handleSyncUpError\<close>, the promise is rejected with that error, against the method's own
  documentation (\<^verbatim>\<open>this promise will always resolve\<close>).
\<close>

theorem syncUp_rejects_unhandled_error:
  "syncUp (ex_env\<lparr>remoteResponse := ex_reject_422\<rparr>) (ex_state\<lparr>jobs := [ex_jobA]\<rparr>) =
     (Rejected (StatusError 422),
      ex_state\<lparr>jobs := [ex_jobA],
        calls := [AdapterCall ''updateRecord'' ''user''
                    \<lparr>rec_id = Some ''1'', rec_data = [(''name'', JStr ''Ann'')]\<rparr>],
        logged := [(''info'', ''Syncing started.'')]\<rparr>)"
  by (simp add: eval_defs ex_defs)

section \<open>C2: the order of replay\<close>

lemma sortBy_strictly_ascending:
  assumes "distinct (map key xs)"
  shows "sorted_wrt (\<lambda>a b. key a < key b) (sortBy key xs)"
proof -
  have "sorted (map key (sortBy key xs))" by (simp add: sortBy_def)
  moreover from assms have "distinct (map key (sortBy key xs))"
    by (simp add: distinct_map_sortBy)
  ultimately have "sorted_wrt (<) (map key (sortBy key xs))"
    by (simp add: strict_sorted_iff)
  then show ?thesis by (simp add: sorted_wrt_map)
qed

lemma sortBy_order_independent:
  assumes "set ys = set xs" and "distinct (map key ys)" and "distinct (map key xs)"
  shows "sortBy key ys = sortBy key xs"
proof -
  let ?a = "sortBy key ys" and ?b = "sortBy key xs"
  from assms have inj: "inj_on key (set ?a \<union> set ?b)" by (simp add: distinct_map)
  have "sorted (map key ?a)" "sorted (map key ?b)" by (simp_all add: sortBy_def)
  moreover from assms have "distinct (map key ?a)" "distinct (map key ?b)"
    by (simp_all add: distinct_map_sortBy)
  moreover from assms have "set (map key ?a) = set (map key ?b)" by simp
  ultimately have "map key ?a = map key ?b" by (metis sorted_distinct_set_unique)
  with inj show ?thesis by (simp add: inj_on_map_eq_map)
qed

lemma runAllJobs_tail:
  assumes "jobs s \<noteq> []"
  shows "storageOnly
      (snd (reduceJobs (runJob env) (sortBy createdAt (jobs s)) (logger ''info'' ''Syncing started.'' s)))
      (snd (runAllJobs env s))"
proof -
  let ?m = "reduceJobs (runJob env) (sortBy createdAt (jobs s)) (logger ''info'' ''Syncing started.'' s)"
  obtain p s1 where m: "?m = (p, s1)" by (cases ?m)
  show ?thesis
  proof (cases p)
    case (Resolved u)
    with m assms show ?thesis
      by (simp add: runAllJobs_def storageOnly_def logger_def deleteAll_remoteIdRecord_def
          saveAll_remoteIdRecord_def storageCall_def isAdapterCall_def split: option.splits)
  next
    case (Rejected e)
    with m assms show ?thesis
      by (simp add: runAllJobs_def storageOnly_def logger_def split: option.splits)
  qed
qed

lemma syncUp_p1_tail:
  assumes "jobs s \<noteq> []"
  shows "storageOnly
      (snd (reduceJobs (runJob_p1 env) (sortBy createdAt (jobs s)) (logger ''info'' ''Syncing started.'' s)))
      (snd (syncUp_p1 env s))"
proof -
  let ?m = "reduceJobs (runJob_p1 env) (sortBy createdAt (jobs s)) (logger ''info'' ''Syncing started.'' s)"
  obtain p s1 where m: "?m = (p, s1)" by (cases ?m)
  show ?thesis
  proof (cases p)
    case (Resolved u)
    with m assms show ?thesis
      by (simp add: syncUp_p1_def runAllJobs_p1_def storageOnly_def logger_def
          deleteAll_remoteIdRecord_def saveAll_remoteIdRecord_def storageCall_def isAdapterCall_def
          split: option.splits)
  next
    case (Rejected e)
    with m assms show ?thesis
      by (simp add: syncUp_p1_def runAllJobs_p1_def storageOnly_def logger_def deleteAll_job_def
          saveAll_job_def storageCall_def isAdapterCall_def split: option.splits)
  qed
qed

lemma drain_calls:
  assumes step: "\<And>j s. (calls (snd (run j s)) = calls s \<and> (\<exists>e. fst (run j s) = Rejected e))
      \<or> (\<exists>seg. calls (snd (run j s)) = calls s @ seg \<and> P j seg)"
    and tail: "storageOnly (snd (reduceJobs run js (logger l m s))) s'"
  shows "\<exists>n segs tail. n \<le> length js \<and> list_all2 (P) (take n js) segs
      \<and> calls (snd (replayInOrder run js (logger l m s))) = calls s @ concat segs
      \<and> calls s' = calls s @ concat segs @ tail \<and> (\<forall>x \<in> set tail. \<not> isAdapterCall x)
      \<and> (fst (replayInOrder run js (logger l m s)) = Resolved () \<longrightarrow> n = length js)"
proof -
  from reduceJobs_segments [of run P js "logger l m s", OF step]
  obtain n segs where 1: "n \<le> length js" "list_all2 (P) (take n js) segs"
    "calls (snd (reduceJobs run js (logger l m s))) = calls s @ concat segs"
    "fst (reduceJobs run js (logger l m s)) = Resolved () \<longrightarrow> n = length js"
    by (auto simp: logger_def)
  from tail obtain rest where 2: "calls s' = calls (snd (reduceJobs run js (logger l m s))) @ rest"
    "\<forall>x \<in> set rest. \<not> isAdapterCall x" by (auto simp: storageOnly_def)
  from 1 2 have "n \<le> length js \<and> list_all2 (P) (take n js) segs
      \<and> calls (snd (replayInOrder run js (logger l m s))) = calls s @ concat segs
      \<and> calls s' = calls s @ concat segs @ rest \<and> (\<forall>x \<in> set rest. \<not> isAdapterCall x)
      \<and> (fst (replayInOrder run js (logger l m s)) = Resolved () \<longrightarrow> n = length js)"
    by (simp add: reduceJobs_replayInOrder)
  then show ?thesis by blast
qed

lemma drain_calls_empty:
  assumes "calls s' = calls s"
  shows "\<exists>n segs tail. n \<le> length ([]::job list) \<and> list_all2 (P) (take n []) segs
      \<and> calls (snd (replayInOrder run [] (logger l m s))) = calls s @ concat segs
      \<and> calls s' = calls s @ concat segs @ tail \<and> (\<forall>x \<in> set tail. \<not> isAdapterCall x)
      \<and> (fst (replayInOrder run [] (logger l m s)) = Resolved () \<longrightarrow> n = length ([]::job list))"
proof -
  from assms have "0 \<le> length ([]::job list) \<and> list_all2 (P) (take 0 []) []
      \<and> calls (snd (replayInOrder run [] (logger l m s))) = calls s @ concat []
      \<and> calls s' = calls s @ concat [] @ [] \<and> (\<forall>x \<in> set []. \<not> isAdapterCall x)
      \<and> (fst (replayInOrder run [] (logger l m s)) = Resolved () \<longrightarrow> 0 = length ([]::job list))"
    by (simp add: logger_def)
  then show ?thesis by blast
qed

text \<open>
  C2. When the queued jobs have distinct \<^verbatim>\<open>createdAt\<close> values, the list the drain replays
  is the queue in strictly ascending \<^verbatim>\<open>createdAt\<close> order, and it is the same list for
  every order in which the same jobs are stored. A drain (\<^verbatim>\<open>syncUp\<close>, in both syncers)
  makes the calls of the replay of that list in order, one job after the other, each job run
  in the state the job before it left and the replay ending at the first job that is
  rejected, and after them storage calls only. These calls are the segments of the first
  \<open>n\<close> jobs of the list, one after the other: each segment starts with the remote call of its
  job, on a record rebuilt from that job, and holds no other remote call, so the remote call
  of a job comes after every call made for the jobs before it. When no job is rejected, \<open>n\<close>
  is the number of jobs: every job is replayed.
\<close>

theorem replay_in_createdAt_order:
  assumes distinct: "distinct (map createdAt (jobs s))"
  shows "sorted_wrt (\<lambda>a b. createdAt a < createdAt b) (sortBy createdAt (jobs s))
    \<and> set (sortBy createdAt (jobs s)) = set (jobs s)
    \<and> length (sortBy createdAt (jobs s)) = length (jobs s)
    \<and> (\<forall>js. set js = set (jobs s) \<and> distinct (map createdAt js) \<longrightarrow>
          sortBy createdAt js = sortBy createdAt (jobs s))
    \<and> (\<exists>n segs tail. n \<le> length (sortBy createdAt (jobs s))
          \<and> list_all2 (replaySegment (rebuiltFrom env) dispatchOf) (take n (sortBy createdAt (jobs s))) segs
          \<and> calls (snd (replayInOrder (runJob env) (sortBy createdAt (jobs s))
                          (logger ''info'' ''Syncing started.'' s))) = calls s @ concat segs
          \<and> calls (snd (syncUp env s)) = calls s @ concat segs @ tail
          \<and> (\<forall>x \<in> set tail. \<not> isAdapterCall x)
          \<and> (fst (replayInOrder (runJob env) (sortBy createdAt (jobs s))
                     (logger ''info'' ''Syncing started.'' s)) = Resolved () \<longrightarrow>
               n = length (sortBy createdAt (jobs s))))
    \<and> (\<exists>n segs tail. n \<le> length (sortBy createdAt (jobs s))
          \<and> list_all2 (replaySegment (rebuiltFrom_p1 env) dispatchOf_p1) (take n (sortBy createdAt (jobs s))) segs
          \<and> calls (snd (replayInOrder (runJob_p1 env) (sortBy createdAt (jobs s))
                          (logger ''info'' ''Syncing started.'' s))) = calls s @ concat segs
          \<and> calls (snd (syncUp_p1 env s)) = calls s @ concat segs @ tail
          \<and> (\<forall>x \<in> set tail. \<not> isAdapterCall x)
          \<and> (fst (replayInOrder (runJob_p1 env) (sortBy createdAt (jobs s))
                     (logger ''info'' ''Syncing started.'' s)) = Resolved () \<longrightarrow>
               n = length (sortBy createdAt (jobs s))))"
proof (intro conjI allI impI)
  show "sorted_wrt (\<lambda>a b. createdAt a < createdAt b) (sortBy createdAt (jobs s))"
    using distinct by (rule sortBy_strictly_ascending)
  show "set (sortBy createdAt (jobs s)) = set (jobs s)" by simp
  show "length (sortBy createdAt (jobs s)) = length (jobs s)" by simp
next
  fix js :: "job list"
  assume "set js = set (jobs s) \<and> distinct (map createdAt js)"
  with distinct show "sortBy createdAt js = sortBy createdAt (jobs s)"
    by (auto intro: sortBy_order_independent)
next
  let ?js = "sortBy createdAt (jobs s)"
  let ?s0 = "logger ''info'' ''Syncing started.'' s"
  show "\<exists>n segs tail. n \<le> length ?js
          \<and> list_all2 (replaySegment (rebuiltFrom env) dispatchOf) (take n ?js) segs
          \<and> calls (snd (replayInOrder (runJob env) ?js ?s0)) = calls s @ concat segs
          \<and> calls (snd (syncUp env s)) = calls s @ concat segs @ tail
          \<and> (\<forall>x \<in> set tail. \<not> isAdapterCall x)
          \<and> (fst (replayInOrder (runJob env) ?js ?s0) = Resolved () \<longrightarrow> n = length ?js)"
  proof (cases "jobs s = []")
    case True
    then have e: "?js = []" by (simp add: sortBy_def)
    from True have "calls (snd (syncUp env s)) = calls s"
      by (simp add: syncUp_def runAllJobs_def logger_def)
    from drain_calls_empty [OF this] show ?thesis unfolding e .
  next
    case False
    from runAllJobs_tail [OF False, of env]
    have "storageOnly (snd (reduceJobs (runJob env) ?js ?s0)) (snd (syncUp env s))"
      by (simp add: syncUp_def)
    from drain_calls [of "runJob env" "replaySegment (rebuiltFrom env) dispatchOf", OF runJob_segment this]
    show ?thesis .
  qed
  show "\<exists>n segs tail. n \<le> length ?js
          \<and> list_all2 (replaySegment (rebuiltFrom_p1 env) dispatchOf_p1) (take n ?js) segs
          \<and> calls (snd (replayInOrder (runJob_p1 env) ?js ?s0)) = calls s @ concat segs
          \<and> calls (snd (syncUp_p1 env s)) = calls s @ concat segs @ tail
          \<and> (\<forall>x \<in> set tail. \<not> isAdapterCall x)
          \<and> (fst (replayInOrder (runJob_p1 env) ?js ?s0) = Resolved () \<longrightarrow> n = length ?js)"
  proof (cases "jobs s = []")
    case True
    then have e: "?js = []" by (simp add: sortBy_def)
    from True have "calls (snd (syncUp_p1 env s)) = calls s"
      by (simp add: syncUp_p1_def runAllJobs_p1_def logger_def)
    from drain_calls_empty [OF this] show ?thesis unfolding e .
  next
    case False
    from drain_calls [of "runJob_p1 env" "replaySegment (rebuiltFrom_p1 env) dispatchOf_p1",
        OF runJob_p1_segment syncUp_p1_tail [OF False, of env]]
    show ?thesis .
  qed
qed

text \<open>
  Three jobs stored in the order delete (created at 20), update (10), create (5): in both
  syncers they are replayed as create, update, delete, each with its storage calls before
  the next remote call, and all three are replayed.
\<close>

theorem replay_in_createdAt_order_witness:
  "distinct (map createdAt (jobs (ex_state\<lparr>jobs := [ex_jobB, ex_jobA, ex_jobC]\<rparr>)))
   \<and> sorted_wrt (\<lambda>a b. createdAt a < createdAt b)
        (sortBy createdAt (jobs (ex_state\<lparr>jobs := [ex_jobB, ex_jobA, ex_jobC]\<rparr>)))
   \<and> sortBy createdAt (jobs (ex_state\<lparr>jobs := [ex_jobB, ex_jobA, ex_jobC]\<rparr>)) =
       [ex_jobC, ex_jobA, ex_jobB]
   \<and> sortBy createdAt [ex_jobA, ex_jobC, ex_jobB] =
       sortBy createdAt (jobs (ex_state\<lparr>jobs := [ex_jobB, ex_jobA, ex_jobC]\<rparr>))
   \<and> fst (replayInOrder (runJob ex_env) [ex_jobC, ex_jobA, ex_jobB]
        (logger ''info'' ''Syncing started.'' (ex_state\<lparr>jobs := [ex_jobB, ex_jobA, ex_jobC]\<rparr>))) =
       Resolved ()
   \<and> (\<exists>segs tail. list_all2 (replaySegment (rebuiltFrom ex_env) dispatchOf)
             [ex_jobC, ex_jobA, ex_jobB] segs
        \<and> calls (snd (syncUp ex_env (ex_state\<lparr>jobs := [ex_jobB, ex_jobA, ex_jobC]\<rparr>))) =
            concat segs @ tail
        \<and> (\<forall>x \<in> set tail. \<not> isAdapterCall x))
   \<and> calls (snd (syncUp ex_env (ex_state\<lparr>jobs := [ex_jobB, ex_jobA, ex_jobC]\<rparr>))) =
       [AdapterCall ''createRecord'' ''user'' \<lparr>rec_id = None, rec_data = [(''name'', JStr ''Alice'')]\<rparr>,
        SetItem ''EmberFryctoriaRemoteIdRecords'',
        LocalDelete ''user'' (Some ''fryctoria1''),
        LocalCreate ''user'' \<lparr>rec_id = Some ''42'', rec_data = [(''name'', JStr ''Alice'')]\<rparr>,
        SetItem ''EmberFryctoriaJobs'',
        AdapterCall ''updateRecord'' ''user'' \<lparr>rec_id = Some ''1'', rec_data = [(''name'', JStr ''Ann'')]\<rparr>,
        SetItem ''EmberFryctoriaJobs'',
        AdapterCall ''deleteRecord'' ''user'' \<lparr>rec_id = Some ''2'', rec_data = [(''name'', JStr ''Bob'')]\<rparr>,
        SetItem ''EmberFryctoriaJobs'',
        SetItem ''EmberFryctoriaRemoteIdRecords'']
   \<and> distinct (map createdAt (jobs (ex_state\<lparr>jobs := [ex_jobB_p1, ex_jobA_p1, ex_jobC_p1]\<rparr>)))
   \<and> sortBy createdAt (jobs (ex_state\<lparr>jobs := [ex_jobB_p1, ex_jobA_p1, ex_jobC_p1]\<rparr>)) =
       [ex_jobC_p1, ex_jobA_p1, ex_jobB_p1]
   \<and> fst (replayInOrder (runJob_p1 ex_env) [ex_jobC_p1, ex_jobA_p1, ex_jobB_p1]
        (logger ''info'' ''Syncing started.'' (ex_state\<lparr>jobs := [ex_jobB_p1, ex_jobA_p1, ex_jobC_p1]\<rparr>))) =
       Resolved ()
   \<and> (\<exists>segs tail. list_all2 (replaySegment (rebuiltFrom_p1 ex_env) dispatchOf_p1)
             [ex_jobC_p1, ex_jobA_p1, ex_jobB_p1] segs
        \<and> calls (snd (syncUp_p1 ex_env (ex_state\<lparr>jobs := [ex_jobB_p1, ex_jobA_p1, ex_jobC_p1]\<rparr>))) =
            concat segs @ tail
        \<and> (\<forall>x \<in> set tail. \<not> isAdapterCall x))
   \<and> calls (snd (syncUp_p1 ex_env (ex_state\<lparr>jobs := [ex_jobB_p1, ex_jobA_p1, ex_jobC_p1]\<rparr>))) =
       [AdapterCall ''createRecord'' ''user'' \<lparr>rec_id = None, rec_data = [(''name'', JStr ''Alice'')]\<rparr>,
        SetItem ''EmberFryctoriaRemoteIdRecords'',
        LocalDelete ''user'' (Some ''fryctoria1''),
        LocalCreate ''user'' \<lparr>rec_id = Some ''42'', rec_data = [(''name'', JStr ''Alice'')]\<rparr>,
        SetItem ''EmberFryctoriaJobs'',
        AdapterCall ''updateRecord'' ''user'' \<lparr>rec_id = Some ''1'', rec_data = [(''name'', JStr ''Ann'')]\<rparr>,
        SetItem ''EmberFryctoriaJobs'',
        AdapterCall ''deleteRecord'' ''user'' \<lparr>rec_id = Some ''2'', rec_data = [(''name'', JStr ''Bob'')]\<rparr>,
        SetItem ''EmberFryctoriaJobs'',
        SetItem ''EmberFryctoriaRemoteIdRecords'']"
proof -
  let ?s = "ex_state\<lparr>jobs := [ex_jobB, ex_jobA, ex_jobC]\<rparr>"
  let ?sp = "ex_state\<lparr>jobs := [ex_jobB_p1, ex_jobA_p1, ex_jobC_p1]\<rparr>"
  have d: "distinct (map createdAt (jobs ?s))" by (simp add: ex_defs)
  have dp: "distinct (map createdAt (jobs ?sp))" by (simp add: ex_defs)
  have d2: "set [ex_jobA, ex_jobC, ex_jobB] = set (jobs ?s)
      \<and> distinct (map createdAt [ex_jobA, ex_jobC, ex_jobB])"
    by (auto simp: ex_defs)
  have o: "sortBy createdAt (jobs ?s) = [ex_jobC, ex_jobA, ex_jobB]"
    by (simp add: sortBy_def ex_defs)
  have op: "sortBy createdAt (jobs ?sp) = [ex_jobC_p1, ex_jobA_p1, ex_jobB_p1]"
    by (simp add: sortBy_def ex_defs)
  have r: "fst (replayInOrder (runJob ex_env) [ex_jobC, ex_jobA, ex_jobB]
        (logger ''info'' ''Syncing started.'' ?s)) = Resolved ()"
    by (simp add: eval_defs ex_defs)
  have rp: "fst (replayInOrder (runJob_p1 ex_env) [ex_jobC_p1, ex_jobA_p1, ex_jobB_p1]
        (logger ''info'' ''Syncing started.'' ?sp)) = Resolved ()"
    by (simp add: eval_p1_defs ex_defs)
  have c: "calls (snd (syncUp ex_env ?s)) =
       [AdapterCall ''createRecord'' ''user'' \<lparr>rec_id = None, rec_data = [(''name'', JStr ''Alice'')]\<rparr>,
        SetItem ''EmberFryctoriaRemoteIdRecords'',
        LocalDelete ''user'' (Some ''fryctoria1''),
        LocalCreate ''user'' \<lparr>rec_id = Some ''42'', rec_data = [(''name'', JStr ''Alice'')]\<rparr>,
        SetItem ''EmberFryctoriaJobs'',
        AdapterCall ''updateRecord'' ''user'' \<lparr>rec_id = Some ''1'', rec_data = [(''name'', JStr ''Ann'')]\<rparr>,
        SetItem ''EmberFryctoriaJobs'',
        AdapterCall ''deleteRecord'' ''user'' \<lparr>rec_id = Some ''2'', rec_data = [(''name'', JStr ''Bob'')]\<rparr>,
        SetItem ''EmberFryctoriaJobs'',
        SetItem ''EmberFryctoriaRemoteIdRecords'']"
    by (simp add: eval_defs ex_defs)
  have cp: "calls (snd (syncUp_p1 ex_env ?sp)) =
       [AdapterCall ''createRecord'' ''user'' \<lparr>rec_id = None, rec_data = [(''name'', JStr ''Alice'')]\<rparr>,
        SetItem ''EmberFryctoriaRemoteIdRecords'',
        LocalDelete ''user'' (Some ''fryctoria1''),
        LocalCreate ''user'' \<lparr>rec_id = Some ''42'', rec_data = [(''name'', JStr ''Alice'')]\<rparr>,
        SetItem ''EmberFryctoriaJobs'',
        AdapterCall ''updateRecord'' ''user'' \<lparr>rec_id = Some ''1'', rec_data = [(''name'', JStr ''Ann'')]\<rparr>,
        SetItem ''EmberFryctoriaJobs'',
        AdapterCall ''deleteRecord'' ''user'' \<lparr>rec_id = Some ''2'', rec_data = [(''name'', JStr ''Bob'')]\<rparr>,
        SetItem ''EmberFryctoriaJobs'',
        SetItem ''EmberFryctoriaRemoteIdRecords'']"
    by (simp add: eval_p1_defs ex_defs)
  note t = replay_in_createdAt_order [OF d, of ex_env]
  note tp = replay_in_createdAt_order [OF dp, of ex_env]
  from t have 1: "sorted_wrt (\<lambda>a b. createdAt a < createdAt b) (sortBy createdAt (jobs ?s))"
    by blast
  from t d2 have 2: "sortBy createdAt [ex_jobA, ex_jobC, ex_jobB] = sortBy createdAt (jobs ?s)"
    by blast
  from t obtain n segs tail where 3: "n \<le> length (sortBy createdAt (jobs ?s))"
      "list_all2 (replaySegment (rebuiltFrom ex_env) dispatchOf) (take n (sortBy createdAt (jobs ?s))) segs"
      "calls (snd (syncUp ex_env ?s)) = calls ?s @ concat segs @ tail"
      "\<forall>x \<in> set tail. \<not> isAdapterCall x"
      "fst (replayInOrder (runJob ex_env) (sortBy createdAt (jobs ?s))
         (logger ''info'' ''Syncing started.'' ?s)) = Resolved () \<longrightarrow>
       n = length (sortBy createdAt (jobs ?s))"
    by blast
  from 3(5) r o have "n = 3" by simp
  with 3 o have "list_all2 (replaySegment (rebuiltFrom ex_env) dispatchOf)
             [ex_jobC, ex_jobA, ex_jobB] segs
        \<and> calls (snd (syncUp ex_env ?s)) = concat segs @ tail
        \<and> (\<forall>x \<in> set tail. \<not> isAdapterCall x)"
    by (simp add: ex_state_def)
  then have 4: "\<exists>segs tail. list_all2 (replaySegment (rebuiltFrom ex_env) dispatchOf)
             [ex_jobC, ex_jobA, ex_jobB] segs
        \<and> calls (snd (syncUp ex_env ?s)) = concat segs @ tail
        \<and> (\<forall>x \<in> set tail. \<not> isAdapterCall x)" by blast
  from tp obtain n segs tail where 5: "n \<le> length (sortBy createdAt (jobs ?sp))"
      "list_all2 (replaySegment (rebuiltFrom_p1 ex_env) dispatchOf_p1) (take n (sortBy createdAt (jobs ?sp))) segs"
      "calls (snd (syncUp_p1 ex_env ?sp)) = calls ?sp @ concat segs @ tail"
      "\<forall>x \<in> set tail. \<not> isAdapterCall x"
      "fst (replayInOrder (runJob_p1 ex_env) (sortBy createdAt (jobs ?sp))
         (logger ''info'' ''Syncing started.'' ?sp)) = Resolved () \<longrightarrow>
       n = length (sortBy createdAt (jobs ?sp))"
    by blast
  from 5(5) rp op have "n = 3" by simp
  with 5 op have "list_all2 (replaySegment (rebuiltFrom_p1 ex_env) dispatchOf_p1)
             [ex_jobC_p1, ex_jobA_p1, ex_jobB_p1] segs
        \<and> calls (snd (syncUp_p1 ex_env ?sp)) = concat segs @ tail
        \<and> (\<forall>x \<in> set tail. \<not> isAdapterCall x)"
    by (simp add: ex_state_def)
  then have 6: "\<exists>segs tail. list_all2 (replaySegment (rebuiltFrom_p1 ex_env) dispatchOf_p1)
             [ex_jobC_p1, ex_jobA_p1, ex_jobB_p1] segs
        \<and> calls (snd (syncUp_p1 ex_env ?sp)) = concat segs @ tail
        \<and> (\<forall>x \<in> set tail. \<not> isAdapterCall x)" by blast
  from d 1 o 2 r 4 c dp op rp 6 cp show ?thesis by blast
qed

section \<open>C3: a fully successful drain\<close>

lemma deleteAll_remoteIdRecord_effect:
  "jobs (snd (deleteAll_remoteIdRecord env s)) = jobs s"
  "db_jobs (snd (deleteAll_remoteIdRecord env s)) = db_jobs s"
  "remoteIdRecords (snd (deleteAll_remoteIdRecord env s)) = []"
  "storageFailure env (calls s) (SetItem ''EmberFryctoriaRemoteIdRecords'') = None \<Longrightarrow>
     db_remoteIdRecords (snd (deleteAll_remoteIdRecord env s)) = []"
  by (simp_all add: deleteAll_remoteIdRecord_def saveAll_remoteIdRecord_def storageCall_def
      split: option.splits)

text \<open>
  C3, as the claim states it, fails for an empty queue: \<^verbatim>\<open>runAllJobs\<close> returns at once
  and the map stays as it is. The state is reached when the write of the job queue fails
  after a create has been replayed: the create of the spec's scenario is queued and its
  record held under the local id; the job is replayed and leaves the in-memory queue, the
  write of the queue fails and the drain is rejected before the map is cleared. The next
  drain has no job to replay, replays every job without error, and the map still holds the
  mapping.
\<close>

theorem empty_queue_keeps_map_counterexample:
  "syncUp (ex_env\<lparr>storageFailure := ex_fail_jobs_write\<rparr>) ex_queued =
     (Rejected (Thrown ''QuotaExceededError''), ex_stale)
   \<and> jobs ex_stale = []
   \<and> fst (reduceJobs (runJob (ex_env\<lparr>storageFailure := ex_fail_jobs_write\<rparr>))
            (sortBy createdAt (jobs ex_stale)) (logger ''info'' ''Syncing started.'' ex_stale)) =
       Resolved ()
   \<and> syncUp (ex_env\<lparr>storageFailure := ex_fail_jobs_write\<rparr>) ex_stale =
       (Resolved (), ex_stale\<lparr>logged := logged ex_stale @ [(''info'', ''Syncing jobs are empty.'')]\<rparr>)
   \<and> remoteIdRecords (snd (syncUp (ex_env\<lparr>storageFailure := ex_fail_jobs_write\<rparr>) ex_stale)) =
       [\<lparr>rtypeName = ''user'', localId = Some ''fryctoria1'', remoteId = Some ''42''\<rparr>]"
  by (simp add: eval_defs ex_defs ex_fail_jobs_write_def ex_stale_def ex_queued_def)

text \<open>
  C3, amended. If the queue is not empty and the drain of \<^verbatim>\<open>addon/syncer.js\<close> replays
  every job without error, that is the chain over the sorted jobs resolves, then
  \<^verbatim>\<open>syncUp\<close> resolves and afterwards the in-memory job queue and \<^verbatim>\<open>remoteIdRecords\<close>
  are both empty; the persisted job queue is empty too, and the persisted map is empty when
  its last write did not fail (that write is not awaited). If the queue is empty,
  \<^verbatim>\<open>syncUp\<close> resolves at once and changes nothing but the log: the map is left as it is.
\<close>

theorem successful_drain_empties_queue_and_map:
  "(jobs s \<noteq> []
      \<and> fst (reduceJobs (runJob env) (sortBy createdAt (jobs s))
               (logger ''info'' ''Syncing started.'' s)) = Resolved ()
    \<longrightarrow> fst (syncUp env s) = Resolved ()
      \<and> jobs (snd (syncUp env s)) = []
      \<and> remoteIdRecords (snd (syncUp env s)) = []
      \<and> db_jobs (snd (syncUp env s)) = []
      \<and> (storageFailure env
           (calls (snd (reduceJobs (runJob env) (sortBy createdAt (jobs s))
              (logger ''info'' ''Syncing started.'' s))))
           (SetItem ''EmberFryctoriaRemoteIdRecords'') = None \<longrightarrow>
         db_remoteIdRecords (snd (syncUp env s)) = []))
   \<and> (jobs s = [] \<longrightarrow>
        syncUp env s = (Resolved (), s\<lparr>logged := logged s @ [(''info'', ''Syncing jobs are empty.'')]\<rparr>))"
proof (intro conjI impI)
  assume "jobs s = []"
  then show "syncUp env s =
      (Resolved (), s\<lparr>logged := logged s @ [(''info'', ''Syncing jobs are empty.'')]\<rparr>)"
    by (simp add: syncUp_def runAllJobs_def logger_def)
next
  assume a: "jobs s \<noteq> []
      \<and> fst (reduceJobs (runJob env) (sortBy createdAt (jobs s))
               (logger ''info'' ''Syncing started.'' s)) = Resolved ()"
  let ?js = "sortBy createdAt (jobs s)"
  let ?s0 = "logger ''info'' ''Syncing started.'' s"
  from a have False: "jobs s \<noteq> []" and ok: "fst (reduceJobs (runJob env) ?js ?s0) = Resolved ()"
    by simp_all
  obtain s1 where chain: "reduceJobs (runJob env) ?js ?s0 = (Resolved (), s1)"
    using ok by (cases "reduceJobs (runJob env) ?js ?s0") auto
  from False have ne: "?js \<noteq> []" by (metis sortBy_length length_0_conv)
  from reduceJobs_resolved_jobs [of "runJob env" ?js ?s0 s1] chain runJob_resolved_jobs ne
  have "jobs s1 = filter (\<lambda>r. job_id r \<notin> job_id ` set ?js) (jobs ?s0)" and db: "db_jobs s1 = jobs s1"
    by auto
  then have empty: "jobs s1 = []" by (simp add: logger_def filter_empty_conv)
  from False chain have run: "syncUp env s =
      (Resolved (), logger ''info'' ''Syncing succeed.'' (snd (deleteAll_remoteIdRecord env s1)))"
    by (simp add: syncUp_def runAllJobs_def)
  from chain have s1: "snd (reduceJobs (runJob env) ?js ?s0) = s1" by simp
  from run show "fst (syncUp env s) = Resolved ()" by simp
  from run empty show "jobs (snd (syncUp env s)) = []"
    by (simp add: logger_def deleteAll_remoteIdRecord_effect)
  from run show "remoteIdRecords (snd (syncUp env s)) = []"
    by (simp add: logger_def deleteAll_remoteIdRecord_effect)
  from run empty db show "db_jobs (snd (syncUp env s)) = []"
    by (simp add: logger_def deleteAll_remoteIdRecord_effect)
  assume "storageFailure env (calls (snd (reduceJobs (runJob env) ?js ?s0)))
      (SetItem ''EmberFryctoriaRemoteIdRecords'') = None"
  with run show "db_remoteIdRecords (snd (syncUp env s)) = []"
    unfolding s1 by (simp add: logger_def deleteAll_remoteIdRecord_effect)
qed

text \<open>
  The spec's scenario with one more job: a create for the local id fryctoria1, answered
  with id 42, and an update. After the drain the queue and the map are empty and the local
  adapter holds the record under 42. With an empty queue and a mapping recorded, the drain
  leaves the mapping.
\<close>

theorem successful_drain_empties_queue_and_map_witness:
  "jobs (ex_state\<lparr>jobs := [ex_jobA, ex_jobC]\<rparr>) \<noteq> []
   \<and> fst (reduceJobs (runJob ex_env) (sortBy createdAt (jobs (ex_state\<lparr>jobs := [ex_jobA, ex_jobC]\<rparr>)))
        (logger ''info'' ''Syncing started.'' (ex_state\<lparr>jobs := [ex_jobA, ex_jobC]\<rparr>))) = Resolved ()
   \<and> storageFailure ex_env
        (calls (snd (reduceJobs (runJob ex_env) (sortBy createdAt (jobs (ex_state\<lparr>jobs := [ex_jobA, ex_jobC]\<rparr>)))
           (logger ''info'' ''Syncing started.'' (ex_state\<lparr>jobs := [ex_jobA, ex_jobC]\<rparr>)))))
        (SetItem ''EmberFryctoriaRemoteIdRecords'') = None
   \<and> fst (syncUp ex_env (ex_state\<lparr>jobs := [ex_jobA, ex_jobC]\<rparr>)) = Resolved ()
   \<and> jobs (snd (syncUp ex_env (ex_state\<lparr>jobs := [ex_jobA, ex_jobC]\<rparr>))) = []
   \<and> remoteIdRecords (snd (syncUp ex_env (ex_state\<lparr>jobs := [ex_jobA, ex_jobC]\<rparr>))) = []
   \<and> db_jobs (snd (syncUp ex_env (ex_state\<lparr>jobs := [ex_jobA, ex_jobC]\<rparr>))) = []
   \<and> db_remoteIdRecords (snd (syncUp ex_env (ex_state\<lparr>jobs := [ex_jobA, ex_jobC]\<rparr>))) = []
   \<and> localRecords (snd (syncUp ex_env (ex_state\<lparr>jobs := [ex_jobA, ex_jobC]\<rparr>))) =
       [((''user'', Some ''42''), [(''name'', JStr ''Alice'')])]
   \<and> jobs ex_stale = []
   \<and> syncUp ex_env ex_stale =
       (Resolved (), ex_stale\<lparr>logged := logged ex_stale @ [(''info'', ''Syncing jobs are empty.'')]\<rparr>)"
proof -
  let ?s = "ex_state\<lparr>jobs := [ex_jobA, ex_jobC]\<rparr>"
  have h1: "jobs ?s \<noteq> []" by simp
  have h2: "fst (reduceJobs (runJob ex_env) (sortBy createdAt (jobs ?s))
        (logger ''info'' ''Syncing started.'' ?s)) = Resolved ()"
    by (simp add: eval_defs ex_defs)
  have h3: "storageFailure ex_env tr c = None" for tr c by (simp add: ex_env_def)
  have h4: "jobs ex_stale = []" by (simp add: ex_stale_def)
  have l: "localRecords (snd (syncUp ex_env ?s)) = [((''user'', Some ''42''), [(''name'', JStr ''Alice'')])]"
    by (simp add: eval_defs ex_defs)
  from successful_drain_empties_queue_and_map [of ?s ex_env] h1 h2 h3
  have a: "fst (syncUp ex_env ?s) = Resolved ()
      \<and> jobs (snd (syncUp ex_env ?s)) = []
      \<and> remoteIdRecords (snd (syncUp ex_env ?s)) = []
      \<and> db_jobs (snd (syncUp ex_env ?s)) = []
      \<and> db_remoteIdRecords (snd (syncUp ex_env ?s)) = []"
    by simp
  from successful_drain_empties_queue_and_map [of ex_stale ex_env] h4
  have b: "syncUp ex_env ex_stale =
       (Resolved (), ex_stale\<lparr>logged := logged ex_stale @ [(''info'', ''Syncing jobs are empty.'')]\<rparr>)"
    by blast
  from h1 h2 h3 a l h4 b show ?thesis by blast
qed

section \<open>C4: an offline failure during a drain\<close>

text \<open>
  C4, as the claim states it, fails: with an update and a delete queued, the update is
  replayed and dequeued, then the delete fails offline (status 0). \<^verbatim>\<open>syncUp\<close> resolves,
  but the queue holds only the delete: it is not the queue of before the drain.
\<close>

theorem offline_mid_drain_counterexample:
  "fst (syncUp (ex_env\<lparr>remoteResponse := ex_offline_on_delete\<rparr>)
          (ex_state\<lparr>jobs := [ex_jobB, ex_jobA]\<rparr>)) = Resolved ()
   \<and> calls (snd (syncUp (ex_env\<lparr>remoteResponse := ex_offline_on_delete\<rparr>)
          (ex_state\<lparr>jobs := [ex_jobB, ex_jobA]\<rparr>))) =
       [AdapterCall ''updateRecord'' ''user'' \<lparr>rec_id = Some ''1'', rec_data = [(''name'', JStr ''Ann'')]\<rparr>,
        SetItem ''EmberFryctoriaJobs'',
        AdapterCall ''deleteRecord'' ''user'' \<lparr>rec_id = Some ''2'', rec_data = [(''name'', JStr ''Bob'')]\<rparr>]
   \<and> jobs (snd (syncUp (ex_env\<lparr>remoteResponse := ex_offline_on_delete\<rparr>)
          (ex_state\<lparr>jobs := [ex_jobB, ex_jobA]\<rparr>))) = [ex_jobB]
   \<and> jobs (snd (syncUp (ex_env\<lparr>remoteResponse := ex_offline_on_delete\<rparr>)
          (ex_state\<lparr>jobs := [ex_jobB, ex_jobA]\<rparr>))) \<noteq> jobs (ex_state\<lparr>jobs := [ex_jobB, ex_jobA]\<rparr>)"
  by (simp add: eval_defs ex_env_def ex_state_def ex_jobA_def ex_jobB_def ex_offline_on_delete_def)

text \<open>
  C4, amended. If the remote call of a job fails offline during a drain of
  \<^verbatim>\<open>addon/syncer.js\<close>, \<^verbatim>\<open>syncUp\<close> resolves and the state is the state in which that
  job was dispatched, plus the failed call and a log line: the attempt itself changes
  neither the queue, nor the map, nor what is persisted. The map is not cleared (it still
  starts with the map of before the drain); with unique job ids the failing job and the jobs
  after it are still queued; and when the failing job is the first one replayed, the queue,
  the map, the persisted collections and the local records are exactly those of before the
  drain. Jobs replayed before the failure stay dequeued.
\<close>

theorem offline_halts_drain:
  assumes sorted: "sortBy createdAt (jobs s) = pre @ j # post"
    and pre: "reduceJobs (runJob env) pre (logger ''info'' ''Syncing started.'' s) = (Resolved (), s1)"
    and rcd: "createRecordFromJob env s1 j = Inr rcd"
    and disp: "dispatchOf j rcd = Some c"
    and rej: "remoteResponse env (calls s1) c = Inl e"
    and off: "isOffline e"
  shows "syncUp env s =
      (Resolved (), logger ''info'' ''Can not connect to server, stop syncing''
         (s1\<lparr>calls := calls s1 @ [c]\<rparr>))
    \<and> prefix (remoteIdRecords s) (remoteIdRecords (snd (syncUp env s)))
    \<and> (distinct (map job_id (jobs s)) \<longrightarrow> set (j # post) \<subseteq> set (jobs (snd (syncUp env s))))
    \<and> (pre = [] \<longrightarrow>
         jobs (snd (syncUp env s)) = jobs s
         \<and> remoteIdRecords (snd (syncUp env s)) = remoteIdRecords s
         \<and> db_jobs (snd (syncUp env s)) = db_jobs s
         \<and> db_remoteIdRecords (snd (syncUp env s)) = db_remoteIdRecords s
         \<and> localRecords (snd (syncUp env s)) = localRecords s)"
proof -
  let ?s0 = "logger ''info'' ''Syncing started.'' s"
  from runAllJobs_halts [OF sorted pre rcd disp rej] off
  have run: "syncUp env s =
      (Resolved (), logger ''info'' ''Can not connect to server, stop syncing''
         (s1\<lparr>calls := calls s1 @ [c]\<rparr>))"
    by (simp add: syncUp_def)
  from reduceJobs_prefix [of remoteIdRecords "runJob env" ?s0 pre] runJob_remoteIds pre
  have "prefix (remoteIdRecords s) (remoteIdRecords s1)" by (simp add: logger_def)
  with run have map: "prefix (remoteIdRecords s) (remoteIdRecords (snd (syncUp env s)))"
    by (simp add: logger_def)
  have queued: "set (j # post) \<subseteq> set (jobs (snd (syncUp env s)))"
    if "distinct (map job_id (jobs s))"
    using remaining_jobs_queued_run [of "runJob env", OF runJob_resolved_jobs sorted pre that] run
    by (simp add: logger_def)
  have first: "jobs (snd (syncUp env s)) = jobs s
         \<and> remoteIdRecords (snd (syncUp env s)) = remoteIdRecords s
         \<and> db_jobs (snd (syncUp env s)) = db_jobs s
         \<and> db_remoteIdRecords (snd (syncUp env s)) = db_remoteIdRecords s
         \<and> localRecords (snd (syncUp env s)) = localRecords s" if "pre = []"
    using that pre run by (auto simp: logger_def)
  from run map queued first show ?thesis by blast
qed

text \<open>The scenario of the counterexample, as an instance of the amended claim.\<close>

theorem offline_halts_drain_witness:
  "sortBy createdAt (jobs (ex_state\<lparr>jobs := [ex_jobB, ex_jobA]\<rparr>)) = [ex_jobA] @ ex_jobB # []
   \<and> reduceJobs (runJob (ex_env\<lparr>remoteResponse := ex_offline_on_delete\<rparr>)) [ex_jobA]
        (logger ''info'' ''Syncing started.'' (ex_state\<lparr>jobs := [ex_jobB, ex_jobA]\<rparr>)) =
       (Resolved (),
        ex_state\<lparr>jobs := [ex_jobB], db_jobs := [ex_jobB],
          calls := [AdapterCall ''updateRecord'' ''user'' (jobRecord ex_jobA), SetItem ''EmberFryctoriaJobs''],
          logged := [(''info'', ''Syncing started.'')]\<rparr>)
   \<and> remoteResponse (ex_env\<lparr>remoteResponse := ex_offline_on_delete\<rparr>)
        [AdapterCall ''updateRecord'' ''user'' (jobRecord ex_jobA), SetItem ''EmberFryctoriaJobs'']
        (AdapterCall ''deleteRecord'' ''user'' (jobRecord ex_jobB)) = Inl (StatusError 0)
   \<and> isOffline (StatusError 0)
   \<and> distinct (map job_id (jobs (ex_state\<lparr>jobs := [ex_jobB, ex_jobA]\<rparr>)))
   \<and> syncUp (ex_env\<lparr>remoteResponse := ex_offline_on_delete\<rparr>) (ex_state\<lparr>jobs := [ex_jobB, ex_jobA]\<rparr>) =
       (Resolved (),
        ex_state\<lparr>jobs := [ex_jobB], db_jobs := [ex_jobB],
          calls := [AdapterCall ''updateRecord'' ''user'' (jobRecord ex_jobA), SetItem ''EmberFryctoriaJobs'',
                    AdapterCall ''deleteRecord'' ''user'' (jobRecord ex_jobB)],
          logged := [(''info'', ''Syncing started.''),
                     (''info'', ''Can not connect to server, stop syncing'')]\<rparr>)
   \<and> ex_jobB \<in> set (jobs (snd (syncUp (ex_env\<lparr>remoteResponse := ex_offline_on_delete\<rparr>)
         (ex_state\<lparr>jobs := [ex_jobB, ex_jobA]\<rparr>))))"
proof -
  let ?env = "ex_env\<lparr>remoteResponse := ex_offline_on_delete\<rparr>"
  let ?s = "ex_state\<lparr>jobs := [ex_jobB, ex_jobA]\<rparr>"
  let ?s1 = "ex_state\<lparr>jobs := [ex_jobB], db_jobs := [ex_jobB],
          calls := [AdapterCall ''updateRecord'' ''user'' (jobRecord ex_jobA), SetItem ''EmberFryctoriaJobs''],
          logged := [(''info'', ''Syncing started.'')]\<rparr>"
  let ?c = "AdapterCall ''deleteRecord'' ''user'' (jobRecord ex_jobB)"
  have sorted: "sortBy createdAt (jobs ?s) = [ex_jobA] @ ex_jobB # []"
    by (simp add: sortBy_def ex_defs)
  have pre: "reduceJobs (runJob ?env) [ex_jobA] (logger ''info'' ''Syncing started.'' ?s) =
      (Resolved (), ?s1)"
    by (simp add: eval_defs ex_defs)
  have rcd: "createRecordFromJob ?env ?s1 ex_jobB = Inr (jobRecord ex_jobB)"
    by (simp add: eval_defs ex_defs)
  have disp: "dispatchOf ex_jobB (jobRecord ex_jobB) = Some ?c"
    by (simp add: eval_defs ex_defs)
  have rej: "remoteResponse ?env (calls ?s1) ?c = Inl (StatusError 0)"
    by (simp add: ex_defs)
  have off: "isOffline (StatusError 0)" by (simp add: isOffline_def)
  have ids: "distinct (map job_id (jobs ?s))" by (simp add: ex_defs)
  from offline_halts_drain [OF sorted pre rcd disp rej off] sorted pre rej off ids
  show ?thesis by (simp add: logger_def ex_state_def)
qed

section \<open>C5: a create job that succeeds\<close>















section \<open>C6: an application error\<close>

lemma deleteAll_job_jobs: "jobs (snd (deleteAll_job env s)) = []"
  by (simp add: deleteAll_job_def saveAll_job_def storageCall_def split: option.splits)

lemma syncUp_p1_jobs: "jobs (snd (syncUp_p1 env s)) = jobs (snd (runAllJobs_p1 env s))"
  by (cases "runAllJobs_p1 env s"; cases "fst (runAllJobs_p1 env s)")
     (auto simp: syncUp_p1_def catch_p_def logger_def split: promise.splits)

text \<open>
  C6, amended. A job whose remote call is rejected with an error that is not offline. In
  \<^verbatim>\<open>addon/syncer.js\<close> the drain stops in the state in which the job was dispatched (plus
  the call): with unique job ids the job and the jobs after it are still queued, whether
  \<^verbatim>\<open>handleSyncUpError\<close> is absent, resolves or rejects; the handler decides only the
  outcome of the promise. In part_001 the same holds for an update or a delete, and for a
  create when there is no \<^verbatim>\<open>syncErrorHandler\<close>, unless the error is the reason
  \<^verbatim>\<open>'clear'\<close>, on which the whole queue is emptied. A create of part_001 whose error
  \<^verbatim>\<open>syncErrorHandler\<close> resolves is dequeued as after a success.
\<close>

theorem application_error_keeps_job:
  "(sortBy createdAt (jobs s) = pre @ j # post
      \<and> reduceJobs (runJob env) pre (logger ''info'' ''Syncing started.'' s) = (Resolved (), s1)
      \<and> createRecordFromJob env s1 j = Inr rcd \<and> dispatchOf j rcd = Some c
      \<and> remoteResponse env (calls s1) c = Inl e \<and> \<not> isOffline e
      \<and> distinct (map job_id (jobs s))
    \<longrightarrow> snd (syncUp env s) = s1\<lparr>calls := calls s1 @ [c]\<rparr>
      \<and> fst (syncUp env s) =
          (case handleSyncUpError env of Some handler \<Rightarrow> handler e | None \<Rightarrow> Rejected e)
      \<and> set (j # post) \<subseteq> set (jobs (snd (syncUp env s))))
   \<and> (sortBy createdAt (jobs s) = pre @ j # post
      \<and> reduceJobs (runJob_p1 env) pre (logger ''info'' ''Syncing started.'' s) = (Resolved (), s1)
      \<and> createRecordFromJob_p1 env j s1 = (Inr rcd, s2) \<and> dispatchOf_p1 j rcd = Some c
      \<and> remoteResponse env (calls s1) c = Inl e \<and> \<not> isOffline_util (statusOf e)
      \<and> (operation j \<noteq> ''create'' \<or> syncErrorHandler env = None)
      \<and> distinct (map job_id (jobs s))
    \<longrightarrow> fst (syncUp_p1 env s) = Resolved ()
      \<and> (if e = Reason ''clear'' then jobs (snd (syncUp_p1 env s)) = []
          else snd (syncUp_p1 env s) =
                 logger ''error'' ''error.stack''
                   (logger ''warn'' ''Syncing Error:'' (s2\<lparr>calls := calls s2 @ [c]\<rparr>))
               \<and> set (j # post) \<subseteq> set (jobs (snd (syncUp_p1 env s)))))
   \<and> (createRecordFromJob_p1 env j s = (Inr rcd, s2) \<and> dispatchOf_p1 j rcd = Some c
      \<and> operation j = ''create''
      \<and> remoteResponse env (calls s) c = Inl e \<and> \<not> isOffline_util (statusOf e)
      \<and> syncErrorHandler env = Some handler \<and> handler e = Resolved ()
    \<longrightarrow> runJob_p1 env j s = deleteById_job env (job_id j) (s2\<lparr>calls := calls s2 @ [c]\<rparr>)
      \<and> j \<notin> set (jobs (snd (runJob_p1 env j s))))"
proof (intro conjI impI)
  assume a: "sortBy createdAt (jobs s) = pre @ j # post
      \<and> reduceJobs (runJob env) pre (logger ''info'' ''Syncing started.'' s) = (Resolved (), s1)
      \<and> createRecordFromJob env s1 j = Inr rcd \<and> dispatchOf j rcd = Some c
      \<and> remoteResponse env (calls s1) c = Inl e \<and> \<not> isOffline e
      \<and> distinct (map job_id (jobs s))"
  then have sorted: "sortBy createdAt (jobs s) = pre @ j # post"
    and pre: "reduceJobs (runJob env) pre (logger ''info'' ''Syncing started.'' s) = (Resolved (), s1)"
    and rcd: "createRecordFromJob env s1 j = Inr rcd" and disp: "dispatchOf j rcd = Some c"
    and rej: "remoteResponse env (calls s1) c = Inl e" and on: "\<not> isOffline e"
    and ids: "distinct (map job_id (jobs s))" by auto
  from runAllJobs_halts [OF sorted pre rcd disp rej] on
  have run: "syncUp env s = (case handleSyncUpError env of
             Some handler \<Rightarrow> (handler e, s1\<lparr>calls := calls s1 @ [c]\<rparr>)
           | None \<Rightarrow> (Rejected e, s1\<lparr>calls := calls s1 @ [c]\<rparr>))"
    by (simp add: syncUp_def)
  then show st: "snd (syncUp env s) = s1\<lparr>calls := calls s1 @ [c]\<rparr>"
    by (simp split: option.splits)
  from run show "fst (syncUp env s) =
      (case handleSyncUpError env of Some handler \<Rightarrow> handler e | None \<Rightarrow> Rejected e)"
    by (simp split: option.splits)
  from remaining_jobs_queued_run [of "runJob env", OF runJob_resolved_jobs sorted pre ids] st
  show "set (j # post) \<subseteq> set (jobs (snd (syncUp env s)))" by simp
next
  assume a: "sortBy createdAt (jobs s) = pre @ j # post
      \<and> reduceJobs (runJob_p1 env) pre (logger ''info'' ''Syncing started.'' s) = (Resolved (), s1)
      \<and> createRecordFromJob_p1 env j s1 = (Inr rcd, s2) \<and> dispatchOf_p1 j rcd = Some c
      \<and> remoteResponse env (calls s1) c = Inl e \<and> \<not> isOffline_util (statusOf e)
      \<and> (operation j \<noteq> ''create'' \<or> syncErrorHandler env = None)
      \<and> distinct (map job_id (jobs s))"
  then have sorted: "sortBy createdAt (jobs s) = pre @ j # post"
    and pre: "reduceJobs (runJob_p1 env) pre (logger ''info'' ''Syncing started.'' s) = (Resolved (), s1)"
    and rcd: "createRecordFromJob_p1 env j s1 = (Inr rcd, s2)" and disp: "dispatchOf_p1 j rcd = Some c"
    and rej: "remoteResponse env (calls s1) c = Inl e" and on: "\<not> isOffline_util (statusOf e)"
    and un: "operation j \<noteq> ''create'' \<or> isOffline_util (statusOf e) \<or> syncErrorHandler env = None"
    and ids: "distinct (map job_id (jobs s))" by auto
  from createRecordFromJob_p1_logsOnly [OF rcd] have l: "logsOnly s1 s2" .
  show "fst (syncUp_p1 env s) = Resolved ()" by (rule syncUp_p1_always_resolves)
  from runAllJobs_p1_halts [OF sorted pre rcd disp rej un] on
  have run: "runAllJobs_p1 env s =
      (if e = Reason ''clear'' then deleteAll_job env (s2\<lparr>calls := calls s2 @ [c]\<rparr>)
       else (Rejected e, s2\<lparr>calls := calls s2 @ [c]\<rparr>))"
    by simp
  show "if e = Reason ''clear'' then jobs (snd (syncUp_p1 env s)) = []
        else snd (syncUp_p1 env s) =
               logger ''error'' ''error.stack''
                 (logger ''warn'' ''Syncing Error:'' (s2\<lparr>calls := calls s2 @ [c]\<rparr>))
             \<and> set (j # post) \<subseteq> set (jobs (snd (syncUp_p1 env s)))"
  proof (cases "e = Reason ''clear''")
    case True
    with run show ?thesis by (simp add: syncUp_p1_jobs deleteAll_job_jobs)
  next
    case False
    with run have st: "snd (syncUp_p1 env s) =
        logger ''error'' ''error.stack''
          (logger ''warn'' ''Syncing Error:'' (s2\<lparr>calls := calls s2 @ [c]\<rparr>))"
      by (simp add: syncUp_p1_def)
    from remaining_jobs_queued_run [of "runJob_p1 env", OF runJob_p1_resolved_jobs sorted pre ids] st l
    have "set (j # post) \<subseteq> set (jobs (snd (syncUp_p1 env s)))"
      by (simp add: logger_def logsOnly_fields)
    with False st show ?thesis by simp
  qed
next
  assume a: "createRecordFromJob_p1 env j s = (Inr rcd, s2) \<and> dispatchOf_p1 j rcd = Some c
      \<and> operation j = ''create''
      \<and> remoteResponse env (calls s) c = Inl e \<and> \<not> isOffline_util (statusOf e)
      \<and> syncErrorHandler env = Some handler \<and> handler e = Resolved ()"
  then have rcd: "createRecordFromJob_p1 env j s = (Inr rcd, s2)" and disp: "dispatchOf_p1 j rcd = Some c"
    and cr: "operation j = ''create''" and rej: "remoteResponse env (calls s) c = Inl e"
    and on: "\<not> isOffline_util (statusOf e)"
    and h: "syncErrorHandler env = Some handler" "handler e = Resolved ()" by auto
  from runJob_p1_handled [OF rcd disp rej cr on h]
  show run: "runJob_p1 env j s = deleteById_job env (job_id j) (s2\<lparr>calls := calls s2 @ [c]\<rparr>)" .
  then show "j \<notin> set (jobs (snd (runJob_p1 env j s)))"
    by (simp add: deleteById_job_def saveAll_job_def storageCall_def split: option.splits)
qed

text \<open>
  Instances of the amended claim: an update rejected with status 422 in
  \<^verbatim>\<open>addon/syncer.js\<close>, with a handler that resolves and with none, stays queued; so does
  an update in part_001; a create of part_001 whose error the handler resolves is dequeued.
\<close>

theorem application_error_keeps_job_witness:
  "sortBy createdAt (jobs (ex_state\<lparr>jobs := [ex_jobB, ex_jobA]\<rparr>)) = [] @ ex_jobA # [ex_jobB]
   \<and> remoteResponse (ex_env\<lparr>remoteResponse := ex_reject_422, handleSyncUpError := Some ex_handler_resolves\<rparr>) []
        (AdapterCall ''updateRecord'' ''user'' (jobRecord ex_jobA)) = Inl (StatusError 422)
   \<and> \<not> isOffline (StatusError 422)
   \<and> distinct (map job_id (jobs (ex_state\<lparr>jobs := [ex_jobB, ex_jobA]\<rparr>)))
   \<and> fst (syncUp (ex_env\<lparr>remoteResponse := ex_reject_422, handleSyncUpError := Some ex_handler_resolves\<rparr>)
        (ex_state\<lparr>jobs := [ex_jobB, ex_jobA]\<rparr>)) = Resolved ()
   \<and> jobs (snd (syncUp (ex_env\<lparr>remoteResponse := ex_reject_422, handleSyncUpError := Some ex_handler_resolves\<rparr>)
        (ex_state\<lparr>jobs := [ex_jobB, ex_jobA]\<rparr>))) = [ex_jobB, ex_jobA]
   \<and> fst (syncUp (ex_env\<lparr>remoteResponse := ex_reject_422\<rparr>) (ex_state\<lparr>jobs := [ex_jobB, ex_jobA]\<rparr>)) =
       Rejected (StatusError 422)
   \<and> jobs (snd (syncUp (ex_env\<lparr>remoteResponse := ex_reject_422\<rparr>) (ex_state\<lparr>jobs := [ex_jobB, ex_jobA]\<rparr>))) =
       [ex_jobB, ex_jobA]
   \<and> operation ex_jobA_p1 \<noteq> ''create''
   \<and> \<not> isOffline_util (statusOf (StatusError 422))
   \<and> fst (syncUp_p1 (ex_env\<lparr>remoteResponse := ex_reject_422, syncErrorHandler := Some ex_handler_resolves\<rparr>)
        (ex_state\<lparr>jobs := [ex_jobA_p1]\<rparr>)) = Resolved ()
   \<and> jobs (snd (syncUp_p1 (ex_env\<lparr>remoteResponse := ex_reject_422, syncErrorHandler := Some ex_handler_resolves\<rparr>)
        (ex_state\<lparr>jobs := [ex_jobA_p1]\<rparr>))) = [ex_jobA_p1]
   \<and> operation ex_jobC_p1 = ''create''
   \<and> ex_handler_resolves (StatusError 422) = Resolved ()
   \<and> ex_jobC_p1 \<notin> set (jobs (snd (runJob_p1
        (ex_env\<lparr>remoteResponse := ex_reject_422, syncErrorHandler := Some ex_handler_resolves\<rparr>) ex_jobC_p1
        (ex_state\<lparr>jobs := [ex_jobC_p1]\<rparr>))))"
proof -
  let ?e = "StatusError 422"
  let ?envh = "ex_env\<lparr>remoteResponse := ex_reject_422, handleSyncUpError := Some ex_handler_resolves\<rparr>"
  let ?env0 = "ex_env\<lparr>remoteResponse := ex_reject_422\<rparr>"
  let ?envp = "ex_env\<lparr>remoteResponse := ex_reject_422, syncErrorHandler := Some ex_handler_resolves\<rparr>"
  let ?s = "ex_state\<lparr>jobs := [ex_jobB, ex_jobA]\<rparr>"
  let ?s1 = "logger ''info'' ''Syncing started.'' ?s"
  let ?c = "AdapterCall ''updateRecord'' ''user'' (jobRecord ex_jobA)"
  have sorted: "sortBy createdAt (jobs ?s) = [] @ ex_jobA # [ex_jobB]"
    by (simp add: sortBy_def ex_defs)
  have ids: "distinct (map job_id (jobs ?s))" by (simp add: ex_defs)
  have on: "\<not> isOffline ?e" by (simp add: isOffline_def)
  have onp: "\<not> isOffline_util (statusOf ?e)" by (simp add: isOffline_util_def statusOf_def)
  have disp: "dispatchOf ex_jobA (jobRecord ex_jobA) = Some ?c" by (simp add: dispatchOf_def ex_defs)
  have calls1: "calls ?s1 = []" by (simp add: logger_def ex_defs)
  text \<open>addon, with a handler that resolves\<close>
  have pre_h: "reduceJobs (runJob ?envh) [] ?s1 = (Resolved (), ?s1)" by simp
  have rcd_h: "createRecordFromJob ?envh ?s1 ex_jobA = Inr (jobRecord ex_jobA)"
    by (simp add: eval_defs ex_defs)
  have rej_h: "remoteResponse ?envh (calls ?s1) ?c = Inl ?e" by (simp add: ex_defs)
  from application_error_keeps_job
    [where s = ?s and pre = "[]" and j = ex_jobA and post = "[ex_jobB]" and env = ?envh
       and ?s1.0 = ?s1 and rcd = "jobRecord ex_jobA" and c = ?c and e = ?e]
    sorted pre_h rcd_h disp rej_h on ids
  have a: "fst (syncUp ?envh ?s) = Resolved () \<and> jobs (snd (syncUp ?envh ?s)) = [ex_jobB, ex_jobA]"
    by (simp add: logger_def ex_env_def ex_state_def ex_handler_resolves_def)
  text \<open>addon, without a handler\<close>
  have pre_0: "reduceJobs (runJob ?env0) [] ?s1 = (Resolved (), ?s1)" by simp
  have rcd_0: "createRecordFromJob ?env0 ?s1 ex_jobA = Inr (jobRecord ex_jobA)"
    by (simp add: eval_defs ex_defs)
  have rej_0: "remoteResponse ?env0 (calls ?s1) ?c = Inl ?e" by (simp add: ex_defs)
  from application_error_keeps_job
    [where s = ?s and pre = "[]" and j = ex_jobA and post = "[ex_jobB]" and env = ?env0
       and ?s1.0 = ?s1 and rcd = "jobRecord ex_jobA" and c = ?c and e = ?e]
    sorted pre_0 rcd_0 disp rej_0 on ids
  have b: "fst (syncUp ?env0 ?s) = Rejected ?e \<and> jobs (snd (syncUp ?env0 ?s)) = [ex_jobB, ex_jobA]"
    by (simp add: logger_def ex_env_def ex_state_def)
  text \<open>part_001, an update\<close>
  let ?sp = "ex_state\<lparr>jobs := [ex_jobA_p1]\<rparr>"
  let ?sp1 = "logger ''info'' ''Syncing started.'' ?sp"
  let ?cp = "AdapterCall ''updateRecord'' ''user'' (jobRecord ex_jobA_p1)"
  have sorted_p: "sortBy createdAt (jobs ?sp) = [] @ ex_jobA_p1 # []" by (simp add: sortBy_def)
  have ids_p: "distinct (map job_id (jobs ?sp))" by simp
  have pre_p: "reduceJobs (runJob_p1 ?envp) [] ?sp1 = (Resolved (), ?sp1)" by simp
  have rcd_p: "createRecordFromJob_p1 ?envp ex_jobA_p1 ?sp1 = (Inr (jobRecord ex_jobA_p1), ?sp1)"
    by (simp add: eval_p1_defs ex_defs)
  have disp_p: "dispatchOf_p1 ex_jobA_p1 (jobRecord ex_jobA_p1) = Some ?cp"
    by (simp add: dispatchOf_p1_def ex_defs)
  have rej_p: "remoteResponse ?envp (calls ?sp1) ?cp = Inl ?e" by (simp add: ex_defs)
  have op_p: "operation ex_jobA_p1 \<noteq> ''create''" by (simp add: ex_defs)
  have noclear: "?e \<noteq> Reason ''clear''" by simp
  from application_error_keeps_job
    [where s = ?sp and pre = "[]" and j = ex_jobA_p1 and post = "[]" and env = ?envp
       and ?s1.0 = ?sp1 and ?s2.0 = ?sp1 and rcd = "jobRecord ex_jobA_p1" and c = ?cp and e = ?e]
    sorted_p pre_p rcd_p disp_p rej_p onp op_p ids_p noclear
  have c: "fst (syncUp_p1 ?envp ?sp) = Resolved () \<and> jobs (snd (syncUp_p1 ?envp ?sp)) = [ex_jobA_p1]"
    by (simp add: logger_def ex_state_def)
  text \<open>part_001, a create whose error the handler resolves\<close>
  let ?sc = "ex_state\<lparr>jobs := [ex_jobC_p1]\<rparr>"
  let ?cc = "AdapterCall ''createRecord'' ''user'' ((jobRecord ex_jobC_p1)\<lparr>rec_id := None\<rparr>)"
  have rcd_c: "createRecordFromJob_p1 ?envp ex_jobC_p1 ?sc = (Inr (jobRecord ex_jobC_p1), ?sc)"
    by (simp add: eval_p1_defs ex_defs)
  have op_c: "operation ex_jobC_p1 = ''create''" by (simp add: ex_defs)
  have disp_c: "dispatchOf_p1 ex_jobC_p1 (jobRecord ex_jobC_p1) = Some ?cc"
    by (simp add: dispatchOf_p1_def ex_defs)
  have rej_c: "remoteResponse ?envp (calls ?sc) ?cc = Inl ?e" by (simp add: ex_defs)
  have h: "syncErrorHandler ?envp = Some ex_handler_resolves" "ex_handler_resolves ?e = Resolved ()"
    by (simp_all add: ex_defs)
  from application_error_keeps_job
    [where s = ?sc and j = ex_jobC_p1 and env = ?envp and ?s2.0 = ?sc
       and rcd = "jobRecord ex_jobC_p1" and c = ?cc and e = ?e and handler = ex_handler_resolves]
    rcd_c disp_c op_c rej_c onp h
  have d: "ex_jobC_p1 \<notin> set (jobs (snd (runJob_p1 ?envp ex_jobC_p1 ?sc)))" by blast
  have rej_h': "remoteResponse ?envh [] ?c = Inl ?e" by (simp add: ex_defs)
  from sorted rej_h' on ids a b op_p onp c op_c h(2) d show ?thesis by blast
qed

text \<open>
  C6, as the claim states it, fails in part_001: a create whose remote call is rejected
  with status 422, with a \<^verbatim>\<open>syncErrorHandler\<close> that resolves. The job is dequeued (and the
  drain ends as a success), although its remote dispatch was rejected.
\<close>

theorem handled_create_error_counterexample:
  "remoteResponse (ex_env\<lparr>remoteResponse := ex_reject_422, syncErrorHandler := Some ex_handler_resolves\<rparr>) []
      (AdapterCall ''createRecord'' ''user'' \<lparr>rec_id = None, rec_data = [(''name'', JStr ''Alice'')]\<rparr>) =
     Inl (StatusError 422)
   \<and> \<not> isOffline_util (statusOf (StatusError 422))
   \<and> jobs (ex_state\<lparr>jobs := [ex_jobC_p1]\<rparr>) = [ex_jobC_p1]
   \<and> fst (syncUp_p1 (ex_env\<lparr>remoteResponse := ex_reject_422, syncErrorHandler := Some ex_handler_resolves\<rparr>)
        (ex_state\<lparr>jobs := [ex_jobC_p1]\<rparr>)) = Resolved ()
   \<and> calls (snd (syncUp_p1 (ex_env\<lparr>remoteResponse := ex_reject_422, syncErrorHandler := Some ex_handler_resolves\<rparr>)
        (ex_state\<lparr>jobs := [ex_jobC_p1]\<rparr>))) =
       [AdapterCall ''createRecord'' ''user'' \<lparr>rec_id = None, rec_data = [(''name'', JStr ''Alice'')]\<rparr>,
        SetItem ''EmberFryctoriaJobs'', SetItem ''EmberFryctoriaRemoteIdRecords'']
   \<and> jobs (snd (syncUp_p1 (ex_env\<lparr>remoteResponse := ex_reject_422, syncErrorHandler := Some ex_handler_resolves\<rparr>)
        (ex_state\<lparr>jobs := [ex_jobC_p1]\<rparr>))) = []
   \<and> db_jobs (snd (syncUp_p1 (ex_env\<lparr>remoteResponse := ex_reject_422, syncErrorHandler := Some ex_handler_resolves\<rparr>)
        (ex_state\<lparr>jobs := [ex_jobC_p1]\<rparr>))) = []"
  by (simp add: eval_p1_defs ex_defs)

end
